theory Spec2Isabelle
  imports Main
begin

section \<open>Python values and exceptions\<close>

text \<open>
  The two programs are Python scripts that talk to services outside the repository.
  Everything a script receives from outside (HTTP responses, WebSocket frames, clock
  readings, the file system) is an input of the model; everything the interpreter itself
  does with those inputs (exceptions, \<open>in\<close>, subscripts, \<open>.get\<close>) is written out.

  Exceptions are values: a class and the text \<open>str(e)\<close> gives. Only subclasses of
  \<open>Exception\<close> are values of this type, so \<open>except Exception\<close> catches every \<open>exn\<close>.
  \<open>TimeoutError\<close> stands for \<open>asyncio.TimeoutError\<close>, which since Python 3.11 is the
  built-in \<open>TimeoutError\<close>, a subclass of \<open>OSError\<close>. The texts of the exceptions the
  interpreter raises are those of CPython 3.12.
\<close>

datatype exn_class =
    OSError | ConnectionRefusedError | PermissionError | TimeoutError
  | AssertionError | TypeError | KeyError | AttributeError | JSONDecodeError
  | InvalidURI | InvalidHandshake | ConnectionClosed
  | HTTPError | MarkupError | OtherException

datatype exn = Exn (cls: exn_class) (str_e: string)

fun is_OSError :: "exn_class \<Rightarrow> bool" where
  "is_OSError OSError = True"
| "is_OSError ConnectionRefusedError = True"
| "is_OSError PermissionError = True"
| "is_OSError TimeoutError = True"
| "is_OSError _ = False"

text \<open>
  What \<open>json.loads\<close> returns: \<open>None\<close>, a bool, an int, a float (kept as its literal,
  no arithmetic is ever done on it), a str, a list or a dict. A dict is the list of its
  items in insertion order, with distinct keys.
\<close>

datatype json =
    JNull | JBool bool | JInt int | JFloat string | JStr string
  | JArr "json list" | JObj "(string \<times> json) list"

fun type_name :: "json \<Rightarrow> string" where
  "type_name JNull = ''NoneType''"
| "type_name (JBool _) = ''bool''"
| "type_name (JInt _) = ''int''"
| "type_name (JFloat _) = ''float''"
| "type_name (JStr _) = ''str''"
| "type_name (JArr _) = ''list''"
| "type_name (JObj _) = ''dict''"

fun startswith :: "string \<Rightarrow> string \<Rightarrow> bool" where
  "startswith s [] = True"
| "startswith [] (p # ps) = False"
| "startswith (c # cs) (p # ps) = (c = p \<and> startswith cs ps)"

text \<open>\<open>sub in s\<close> for two strings: \<open>sub\<close> occurs in \<open>s\<close> as a contiguous run.\<close>

fun is_substr :: "string \<Rightarrow> string \<Rightarrow> bool" where
  "is_substr sub [] = (sub = [])"
| "is_substr sub (c # cs) = (startswith (c # cs) sub \<or> is_substr sub cs)"

text \<open>\<open>k in v\<close> for a string \<open>k\<close>: key of a dict, element of a list, substring of a str,
  \<open>TypeError\<close> for everything else.\<close>

fun str_in :: "string \<Rightarrow> json \<Rightarrow> exn + bool" where
  "str_in k (JObj kvs) = Inr (map_of kvs k \<noteq> None)"
| "str_in k (JArr xs) = Inr (List.member xs (JStr k))"
| "str_in k (JStr s) = Inr (is_substr k s)"
| "str_in k v =
     Inl (Exn TypeError (''argument of type '' @ [CHR 0x27] @ type_name v @ [CHR 0x27] @ '' is not iterable''))"

text \<open>\<open>v[k]\<close> for a string \<open>k\<close>.\<close>

fun subscript :: "json \<Rightarrow> string \<Rightarrow> exn + json" where
  "subscript (JObj kvs) k =
     (case map_of kvs k of
        Some v \<Rightarrow> Inr v
      | None \<Rightarrow> Inl (Exn KeyError ([CHR 0x27] @ k @ [CHR 0x27])))"
| "subscript (JArr xs) k = Inl (Exn TypeError ''list indices must be integers or slices, not str'')"
| "subscript (JStr s) k =
     Inl (Exn TypeError (''string indices must be integers, not '' @ [CHR 0x27] @ ''str'' @ [CHR 0x27]))"
| "subscript v k =
     Inl (Exn TypeError ([CHR 0x27] @ type_name v @ [CHR 0x27] @ '' object is not subscriptable''))"

text \<open>\<open>v.get(k)\<close>: only a dict has the method; a missing key gives \<open>None\<close>.\<close>

fun py_get :: "json \<Rightarrow> string \<Rightarrow> exn + json" where
  "py_get (JObj kvs) k = Inr (case map_of kvs k of Some v \<Rightarrow> v | None \<Rightarrow> JNull)"
| "py_get v k =
     Inl (Exn AttributeError
       ([CHR 0x27] @ type_name v @ [CHR 0x27] @ '' object has no attribute '' @ [CHR 0x27] @ ''get'' @ [CHR 0x27]))"

text \<open>\<open>len(v)\<close>.\<close>

fun py_len :: "json \<Rightarrow> exn + nat" where
  "py_len (JStr s) = Inr (length s)"
| "py_len (JArr xs) = Inr (length xs)"
| "py_len (JObj kvs) = Inr (length kvs)"
| "py_len v =
     Inl (Exn TypeError (''object of type '' @ [CHR 0x27] @ type_name v @ [CHR 0x27] @ '' has no len()''))"

text \<open>\<open>s.split("\n")\<close>: the pieces between line feeds; never the empty list.\<close>

fun split_nl :: "string \<Rightarrow> string list" where
  "split_nl [] = [[]]"
| "split_nl (c # cs) =
     (if c = CHR 0x0A then [] # split_nl cs
      else (case split_nl cs of
              l # ls \<Rightarrow> (c # l) # ls
            | [] \<Rightarrow> [[c]]))"

section \<open>The gateway runner: parsing the event stream\<close>

text \<open>
  \<open>send_message\<close>, the part under \<open># Parse SSE response\<close>. \<open>loads\<close> is \<open>json.loads\<close>
  of the standard library, a parameter of the model. One round of the loop over the lines:
  the body of the \<open>try\<close> and its handler, which catches \<open>json.JSONDecodeError\<close> only.
\<close>

fun sse_step ::
  "(string \<Rightarrow> exn + json) \<Rightarrow> string \<Rightarrow> json list \<times> json \<Rightarrow> exn + (json list \<times> json)" where
  "sse_step loads line (events, full_response) =
     (if startswith line ''data: '' then
        (case loads (drop 6 line) of
           Inl e \<Rightarrow> if cls e = JSONDecodeError then Inr (events, full_response) else Inl e
         | Inr data \<Rightarrow>
             (case str_in ''full_response'' data of
                Inl e \<Rightarrow>
                  if cls e = JSONDecodeError then Inr (events @ [data], full_response) else Inl e
              | Inr False \<Rightarrow> Inr (events @ [data], full_response)
              | Inr True \<Rightarrow>
                  (case subscript data ''full_response'' of
                     Inl e \<Rightarrow>
                       if cls e = JSONDecodeError then Inr (events @ [data], full_response)
                       else Inl e
                   | Inr v \<Rightarrow> Inr (events @ [data], v))))
      else Inr (events, full_response))"

fun sse_loop ::
  "(string \<Rightarrow> exn + json) \<Rightarrow> string list \<Rightarrow> json list \<times> json \<Rightarrow> exn + (json list \<times> json)" where
  "sse_loop loads [] st = Inr st"
| "sse_loop loads (line # rest) st =
     (case sse_step loads line st of
        Inl e \<Rightarrow> Inl e
      | Inr st' \<Rightarrow> sse_loop loads rest st')"

definition parse_sse :: "(string \<Rightarrow> exn + json) \<Rightarrow> string \<Rightarrow> exn + (json list \<times> json)" where
  "parse_sse loads body = sse_loop loads (split_nl body) ([], JNull)"

section \<open>The gateway runner: the world outside\<close>

text \<open>
  An HTTP response as the runner reads it: \<open>resp.status_code\<close> and \<open>resp.text\<close>.
\<close>

record response =
  status_code :: int
  text_of :: string

datatype request = Get string | Post string json

text \<open>What \<open>console.print\<close> is called with, one constructor for each call of the runner.
  Three of them carry text that is not the runner's own: the list of agent ids, an agent
  id, and the table with the names and error texts of the results.\<close>

datatype printed =
    Banner | WaitingForGateway | GatewayReady | GatewayNotReady | FailedGatewayNotAvailable
  | NoAgentsWarning | AvailableAgents "json list" | RunningInfrastructureTests
  | TestingAgent json | RunningParallelTests | BlankLine
  | ResultsTable "(string \<times> bool \<times> int \<times> string) list" | SummaryLine nat nat
  | ResultsWritten

text \<open>
  What is outside the repository: \<open>json.loads\<close>, \<open>repr\<close> of a value that is not a
  str, \<open>str.lower\<close>, the gateway (the outcome of the \<open>n\<close>-th request of the run, an
  exception of the client or a response, and the milliseconds it took), the console
  (\<open>print_error\<close>: what \<open>console.print\<close> raises on a text or table that holds foreign
  text, if anything; rich reads square brackets in it as markup and raises \<open>MarkupError\<close>
  on a closing tag that matches no open tag), the float arithmetic of a duration
  (\<open>ms_between s t\<close>: what \<open>int((time.time() - start) * 1000)\<close> gives when the clock read
  \<open>s\<close> at the start and reads \<open>t\<close> now), and the file system under \<open>/results\<close> (whether
  the directory exists, and the exception \<open>open\<close> raises there, if any).
\<close>

record env =
  loads :: "string \<Rightarrow> exn + json"
  py_repr :: "json \<Rightarrow> string"
  lower :: "string \<Rightarrow> string"
  http :: "request \<Rightarrow> nat \<Rightarrow> (exn + response) \<times> nat"
  print_error :: "printed \<Rightarrow> exn option"
  ms_between :: "nat \<Rightarrow> nat \<Rightarrow> int"
  results_dir_exists :: bool
  open_error :: "exn option"

record TestResult =
  name :: string
  passed :: bool
  duration_ms :: int
  error :: "string option"

text \<open>The document \<open>json.dump\<close> writes to \<open>/results/e2e-results.json\<close>.\<close>

record summary =
  sum_passed :: nat
  sum_failed :: nat
  sum_results :: "TestResult list"

text \<open>
  The state of a run: the clock \<open>time.time()\<close> reads, in whole milliseconds (it moves
  with the requests and the sleeps only); the number of requests made; the requests made,
  in order; the console; the documents written to the results file, in order.
  \<open>wait_for_agents\<close> is defined in the source and never called: it is no part of a run.
\<close>

record world =
  now :: nat
  seq :: nat
  sent :: "request list"
  console :: "printed list"
  writes :: "summary list"

definition do_request :: "env \<Rightarrow> request \<Rightarrow> world \<Rightarrow> (exn + response) \<times> world" where
  "do_request env rq w =
     (case http env rq (seq w) of
        (r, d) \<Rightarrow> (r, w\<lparr>now := now w + d, seq := seq w + 1, sent := sent w @ [rq]\<rparr>))"

text \<open>\<open>console.print\<close> of a text of the runner's own, which is well-formed markup:
  \<open>say\<close>. \<open>console.print\<close> of a text or table that holds foreign text: \<open>say_markup\<close>,
  which prints it or raises and prints nothing.\<close>

definition say :: "printed \<Rightarrow> world \<Rightarrow> world" where
  "say x w = w\<lparr>console := console w @ [x]\<rparr>"

definition say_markup :: "env \<Rightarrow> printed \<Rightarrow> world \<Rightarrow> exn option \<times> world" where
  "say_markup env x w = (case print_error env x of Some e \<Rightarrow> (Some e, w) | None \<Rightarrow> (None, say x w))"

definition sleep :: "nat \<Rightarrow> world \<Rightarrow> world" where
  "sleep ms w = w\<lparr>now := now w + ms\<rparr>"

text \<open>\<open>str(v)\<close>: a str is itself, everything else is its \<open>repr\<close>.\<close>

definition py_str :: "env \<Rightarrow> json \<Rightarrow> string" where
  "py_str env v = (case v of JStr s \<Rightarrow> s | _ \<Rightarrow> py_repr env v)"

text \<open>\<open>v.lower()\<close>: only a str has the method.\<close>

definition py_lower :: "env \<Rightarrow> json \<Rightarrow> exn + string" where
  "py_lower env v =
     (case v of
        JStr s \<Rightarrow> Inr (lower env s)
      | _ \<Rightarrow> Inl (Exn AttributeError
          ([CHR 0x27] @ type_name v @ [CHR 0x27] @ '' object has no attribute ''
             @ [CHR 0x27] @ ''lower'' @ [CHR 0x27])))"

text \<open>Decimal digits of a number, as an f-string prints an int.\<close>

function dec :: "nat \<Rightarrow> string" where
  "dec n = (if n < 10 then [''0123456789'' ! n] else dec (n div 10) @ [''0123456789'' ! (n mod 10)])"
  by pat_completeness auto
termination
  by (relation "measure id") auto

declare dec.simps [simp del]

definition show_int :: "int \<Rightarrow> string" where
  "show_int i = (if i < 0 then ''-'' @ dec (nat (- i)) else dec (nat i))"

section \<open>The gateway runner: the readiness prober\<close>

text \<open>
  \<open>wait_for_gateway\<close>. \<open>start\<close> and \<open>max_wait\<close> are in milliseconds (the source's
  default \<open>max_wait\<close> is 60 seconds). The \<open>try\<close> holds the request and the status check;
  \<open>except Exception: pass\<close> catches every exception, after which the loop sleeps one
  second and goes on.
\<close>

function gateway_loop :: "env \<Rightarrow> nat \<Rightarrow> nat \<Rightarrow> world \<Rightarrow> (exn + bool) \<times> world" where
  "gateway_loop env start max_wait w =
     (if int (now w) - int start < int max_wait then
        (case do_request env (Get ''/health'') w of
           (Inr resp, w1) \<Rightarrow>
             if status_code resp = 200 then (Inr True, say GatewayReady w1)
             else gateway_loop env start max_wait (sleep 1000 w1)
         | (Inl e, w1) \<Rightarrow> gateway_loop env start max_wait (sleep 1000 w1))
      else (Inr False, say GatewayNotReady w))"
  by pat_completeness auto
termination
  by (relation "measure (\<lambda>(env, start, max_wait, w). start + max_wait - now w)")
     (auto simp: do_request_def sleep_def split: prod.splits)

declare gateway_loop.simps [simp del]

definition wait_for_gateway :: "env \<Rightarrow> nat \<Rightarrow> world \<Rightarrow> (exn + bool) \<times> world" where
  "wait_for_gateway env max_wait w =
     (let w0 = say WaitingForGateway w in gateway_loop env (now w0) max_wait w0)"

section \<open>The gateway runner: sending a message\<close>

text \<open>The dict \<open>send_message\<close> returns: its keys \<open>status_code\<close>, \<open>events\<close>,
  \<open>full_response\<close>.\<close>

record send_result =
  sm_status_code :: int
  sm_events :: "json list"
  sm_full_response :: json

text \<open>
  \<open>send_message\<close>: the POST (its 120 second timeout is an exception of the client, an
  outcome of the request) and the parsing of the body. Nothing is caught here but
  \<open>JSONDecodeError\<close> inside the loop.
\<close>

definition send_body :: "json \<Rightarrow> string \<Rightarrow> string \<Rightarrow> json" where
  "send_body agent_id content sender =
     JObj [(''agent_id'', agent_id), (''content'', JStr content), (''sender'', JStr sender)]"

definition send_message ::
  "env \<Rightarrow> json \<Rightarrow> string \<Rightarrow> string \<Rightarrow> world \<Rightarrow> (exn + send_result) \<times> world" where
  "send_message env agent_id content sender w =
     (case do_request env (Post ''/api/send'' (send_body agent_id content sender)) w of
        (Inl e, w1) \<Rightarrow> (Inl e, w1)
      | (Inr resp, w1) \<Rightarrow>
          (case parse_sse (loads env) (text_of resp) of
             Inl e \<Rightarrow> (Inl e, w1)
           | Inr (events, full_response) \<Rightarrow>
               (Inr \<lparr>sm_status_code = status_code resp, sm_events = events,
                      sm_full_response = full_response\<rparr>, w1)))"

section \<open>The gateway runner: the scenarios\<close>

text \<open>
  Every scenario function has the same frame: \<open>start = time.time()\<close>, a \<open>try\<close> whose
  body computes \<open>passed\<close> and returns a TestResult (with the given error text when not
  passed), and \<open>except Exception as e\<close>, which returns a failed TestResult with
  \<open>error=str(e)\<close>. \<open>scenario_result\<close> is that frame: its last argument is what the body
  of the \<open>try\<close> came to, an exception or \<open>passed\<close> and the error text.
\<close>

definition scenario_result ::
  "env \<Rightarrow> string \<Rightarrow> nat \<Rightarrow> world \<Rightarrow> exn + bool \<times> string \<Rightarrow> TestResult" where
  "scenario_result env nm start w r =
     (case r of
        Inr (ok, err) \<Rightarrow>
          \<lparr>name = nm, passed = ok, duration_ms = ms_between env start (now w),
           error = (if ok then None else Some err)\<rparr>
      | Inl e \<Rightarrow>
          \<lparr>name = nm, passed = False, duration_ms = ms_between env start (now w),
           error = Some (str_e e)\<rparr>)"

definition test_gateway_health :: "env \<Rightarrow> world \<Rightarrow> TestResult \<times> world" where
  "test_gateway_health env w =
     (case do_request env (Get ''/health'') w of
        (r, w1) \<Rightarrow>
          (scenario_result env ''gateway-health'' (now w) w1
             (case r of
                Inl e \<Rightarrow> Inl e
              | Inr resp \<Rightarrow>
                  Inr (status_code resp = 200, ''Status code: '' @ show_int (status_code resp))),
           w1))"

definition test_agent_list :: "env \<Rightarrow> world \<Rightarrow> TestResult \<times> world" where
  "test_agent_list env w =
     (case do_request env (Get ''/api/agents'') w of
        (r, w1) \<Rightarrow>
          (scenario_result env ''agent-list'' (now w) w1
             (case r of
                Inl e \<Rightarrow> Inl e
              | Inr resp \<Rightarrow>
                  if status_code resp = 200 then
                    (case loads env (text_of resp) of
                       Inl e \<Rightarrow> Inl e
                     | Inr v \<Rightarrow>
                         Inr ((case v of JArr _ \<Rightarrow> True | _ \<Rightarrow> False),
                              ''Response: '' @ text_of resp))
                  else Inr (False, ''Response: '' @ text_of resp)),
           w1))"

definition test_simple_message :: "env \<Rightarrow> json \<Rightarrow> world \<Rightarrow> TestResult \<times> world" where
  "test_simple_message env agent_id w =
     (case send_message env agent_id ''Say hello briefly'' ''e2e-test'' w of
        (r, w1) \<Rightarrow>
          (scenario_result env (''simple-message-'' @ py_str env agent_id) (now w) w1
             (case r of
                Inl e \<Rightarrow> Inl e
              | Inr result \<Rightarrow>
                  if sm_status_code result = 200 \<and> sm_full_response result \<noteq> JNull then
                    (case py_len (sm_full_response result) of
                       Inl e \<Rightarrow> Inl e
                     | Inr n \<Rightarrow> Inr (0 < n, ''No response received''))
                  else Inr (False, ''No response received'')),
           w1))"

text \<open>
  \<open>any("tool_use" in str(e) or e.get("name") == "log_entry" for e in events)\<close>: the first
  event that gives True ends it; \<open>e.get\<close> is reached when the first test is False, and
  raises \<open>AttributeError\<close> on an event that is not a dict. (The source also computes
  \<open>has_tool_result\<close>, which cannot raise and is never used.)
\<close>

fun has_tool_use :: "env \<Rightarrow> json list \<Rightarrow> exn + bool" where
  "has_tool_use env [] = Inr False"
| "has_tool_use env (e # es) =
     (if is_substr ''tool_use'' (py_str env e) then Inr True
      else (case py_get e ''name'' of
              Inl x \<Rightarrow> Inl x
            | Inr v \<Rightarrow> if v = JStr ''log_entry'' then Inr True else has_tool_use env es))"

definition test_pack_tool_log_entry :: "env \<Rightarrow> json \<Rightarrow> world \<Rightarrow> TestResult \<times> world" where
  "test_pack_tool_log_entry env agent_id w =
     (case send_message env agent_id
             (''Use log_entry to log: '' @ ''E2E test entry '' @ dec (now w div 1000))
             ''e2e-test'' w of
        (r, w1) \<Rightarrow>
          (scenario_result env (''pack-tool-log-entry-'' @ py_str env agent_id) (now w) w1
             (case r of
                Inl e \<Rightarrow> Inl e
              | Inr result \<Rightarrow>
                  (case has_tool_use env (sm_events result) of
                     Inl e \<Rightarrow> Inl e
                   | Inr tool_use \<Rightarrow>
                       if sm_status_code result = 200 \<and> sm_full_response result \<noteq> JNull then
                         (if tool_use then
                            Inr (True, ''Response: '' @ py_str env (sm_full_response result))
                          else
                            (case py_lower env (sm_full_response result) of
                               Inl e \<Rightarrow> Inl e
                             | Inr l \<Rightarrow>
                                 Inr (is_substr ''logged'' l,
                                      ''Response: '' @ py_str env (sm_full_response result))))
                       else Inr (False, ''Response: '' @ py_str env (sm_full_response result)))),
           w1))"

definition test_pack_tool_log_search :: "env \<Rightarrow> json \<Rightarrow> world \<Rightarrow> TestResult \<times> world" where
  "test_pack_tool_log_search env agent_id w =
     (case send_message env agent_id (''Use log_search to find entries containing '' @ [CHR 0x27] @ ''E2E'' @ [CHR 0x27])
             ''e2e-test'' w of
        (r, w1) \<Rightarrow>
          (scenario_result env (''pack-tool-log-search-'' @ py_str env agent_id) (now w) w1
             (case r of
                Inl e \<Rightarrow> Inl e
              | Inr result \<Rightarrow>
                  if sm_status_code result = 200 \<and> sm_full_response result \<noteq> JNull then
                    (case py_lower env (sm_full_response result) of
                       Inl e \<Rightarrow> Inl e
                     | Inr l \<Rightarrow>
                         Inr (is_substr ''found'' l \<or> is_substr ''entries'' l,
                              ''Response: '' @ py_str env (sm_full_response result)))
                  else Inr (False, ''Response: '' @ py_str env (sm_full_response result))),
           w1))"

text \<open>
  \<open>asyncio.gather(*tasks, return_exceptions=True)\<close> over one \<open>send_message\<close> for each
  agent id: the requests go out in the order of the list, every call starts at \<open>t0\<close>,
  and the gather is over when the last call is (\<open>fin\<close> is the latest end so far). The
  result of a call is the dict it returned or the exception it raised.
\<close>

fun gather_sends ::
  "env \<Rightarrow> json list \<Rightarrow> nat \<Rightarrow> nat \<Rightarrow> world \<Rightarrow> (exn + send_result) list \<times> world" where
  "gather_sends env [] t0 fin w = ([], w\<lparr>now := fin\<rparr>)"
| "gather_sends env (agent_id # rest) t0 fin w =
     (case send_message env agent_id ''Respond with your agent id briefly'' ''e2e-test''
             (w\<lparr>now := t0\<rparr>) of
        (r, w1) \<Rightarrow>
          (case gather_sends env rest t0 (max fin (now w1)) w1 of
             (rs, w2) \<Rightarrow> (r # rs, w2)))"

text \<open>\<open>isinstance(r, dict) and r.get("full_response") is not None\<close>.\<close>

definition responded :: "exn + send_result \<Rightarrow> bool" where
  "responded r = (case r of Inl e \<Rightarrow> False | Inr result \<Rightarrow> sm_full_response result \<noteq> JNull)"

definition test_parallel_messages :: "env \<Rightarrow> json list \<Rightarrow> world \<Rightarrow> TestResult \<times> world" where
  "test_parallel_messages env agent_ids w =
     (case gather_sends env agent_ids (now w) (now w) w of
        (results, w1) \<Rightarrow>
          (scenario_result env ''parallel-messages'' (now w) w1
             (Inr (list_all responded results, ''Some agents failed to respond'')),
           w1))"

section \<open>The gateway runner: the main test runner\<close>

text \<open>\<open>[a["id"] for a in agents]\<close>: a list gives its elements, a dict its keys, a str its
  characters; nothing else can be iterated.\<close>

fun ids_of :: "json list \<Rightarrow> exn + json list" where
  "ids_of [] = Inr []"
| "ids_of (a # rest) =
     (case subscript a ''id'' of
        Inl e \<Rightarrow> Inl e
      | Inr v \<Rightarrow> (case ids_of rest of Inl e \<Rightarrow> Inl e | Inr vs \<Rightarrow> Inr (v # vs)))"

fun agent_ids_of :: "json \<Rightarrow> exn + json list" where
  "agent_ids_of (JArr xs) = ids_of xs"
| "agent_ids_of (JObj kvs) = ids_of (map (\<lambda>kv. JStr (fst kv)) kvs)"
| "agent_ids_of (JStr s) = ids_of (map (\<lambda>c. JStr [c]) s)"
| "agent_ids_of v =
     Inl (Exn TypeError ([CHR 0x27] @ type_name v @ [CHR 0x27] @ '' object is not iterable''))"

text \<open>The loop \<open>for agent_id in agent_ids\<close>: the line that names the agent, printed
  outside every \<open>try\<close>, and three scenarios for each agent.\<close>

fun per_agent_tests :: "env \<Rightarrow> json list \<Rightarrow> world \<Rightarrow> (exn + TestResult list) \<times> world" where
  "per_agent_tests env [] w = (Inr [], w)"
| "per_agent_tests env (agent_id # rest) w =
     (case say_markup env (TestingAgent agent_id) w of
        (Some e, w0) \<Rightarrow> (Inl e, w0)
      | (None, w0) \<Rightarrow>
          (case test_simple_message env agent_id w0 of
             (r1, w1) \<Rightarrow>
               (case test_pack_tool_log_entry env agent_id w1 of
                  (r2, w2) \<Rightarrow>
                    (case test_pack_tool_log_search env agent_id w2 of
                       (r3, w3) \<Rightarrow>
                         (case per_agent_tests env rest w3 of
                            (Inl e, w4) \<Rightarrow> (Inl e, w4)
                          | (Inr rs, w4) \<Rightarrow> (Inr (r1 # r2 # r3 # rs), w4))))))"

text \<open>The parallel tests: \<open>if len(agent_ids) >= 2\<close>, on \<open>agent_ids[:2]\<close>.\<close>

definition parallel_tests :: "env \<Rightarrow> json list \<Rightarrow> world \<Rightarrow> TestResult list \<times> world" where
  "parallel_tests env agent_ids w =
     (if 2 \<le> length agent_ids then
        (case test_parallel_messages env (take 2 agent_ids) (say RunningParallelTests w) of
           (r, w1) \<Rightarrow> ([r], w1))
      else ([], w))"

text \<open>The loop over the results that counts \<open>passed\<close> and \<open>failed\<close>, and the row it adds
  to the table (\<open>r.error or ""\<close>).\<close>

fun tally :: "TestResult list \<Rightarrow> nat \<times> nat \<Rightarrow> nat \<times> nat" where
  "tally [] (p, f) = (p, f)"
| "tally (r # rs) (p, f) = (if passed r then tally rs (p + 1, f) else tally rs (p, f + 1))"

definition table_row :: "TestResult \<Rightarrow> string \<times> bool \<times> int \<times> string" where
  "table_row r = (name r, passed r, duration_ms r, (case error r of None \<Rightarrow> [] | Some e \<Rightarrow> e))"

text \<open>
  How a run ends: \<open>run_tests\<close> returns a bool, calls \<open>sys.exit\<close>, or lets an exception
  out.
\<close>

datatype run_end = Returned bool | SysExit int | Raised exn

text \<open>The end of \<open>run_tests\<close>, from the results on: the table, whose rows hold the names
  and error texts, the summary, the results file. An exception of \<open>console.print(table)\<close>
  leaves \<open>run_tests\<close> before the summary and the file.\<close>

definition report :: "env \<Rightarrow> TestResult list \<Rightarrow> world \<Rightarrow> run_end \<times> world" where
  "report env results w =
     (case tally results (0, 0) of
        (p, f) \<Rightarrow>
          (case say_markup env (ResultsTable (map table_row results)) (say BlankLine w) of
             (Some e, w0) \<Rightarrow> (Raised e, w0)
           | (None, w0) \<Rightarrow>
               (let w1 = say (SummaryLine p f) w0
                in if results_dir_exists env then
                     (case open_error env of
                        Some e \<Rightarrow> (Raised e, w1)
                      | None \<Rightarrow>
                          (Returned (f = 0),
                           say ResultsWritten
                             (w1\<lparr>writes := writes w1 @
                                [\<lparr>sum_passed = p, sum_failed = f, sum_results = results\<rparr>]\<rparr>)))
                   else (Returned (f = 0), w1))))"

text \<open>The scenarios of \<open>run_tests\<close>, from \<open>results: list[TestResult] = []\<close> to the
  parallel tests.\<close>

definition all_scenarios :: "env \<Rightarrow> json list \<Rightarrow> world \<Rightarrow> (exn + TestResult list) \<times> world" where
  "all_scenarios env agent_ids w =
     (case test_gateway_health env (say RunningInfrastructureTests w) of
        (r1, w1) \<Rightarrow>
          (case test_agent_list env w1 of
             (r2, w2) \<Rightarrow>
               (case per_agent_tests env agent_ids w2 of
                  (Inl e, w3) \<Rightarrow> (Inl e, w3)
                | (Inr rs, w3) \<Rightarrow>
                    (case parallel_tests env agent_ids w3 of
                       (ps, w4) \<Rightarrow> (Inr (r1 # r2 # rs @ ps), w4)))))"

text \<open>The agents of \<open>run_tests\<close>: \<open>resp.json() if resp.status_code == 200 else []\<close> and the
  ids. No \<open>try\<close> is around the request, the decoding or the subscripts, nor around the
  line that prints the ids.\<close>

definition fetch_agent_ids :: "env \<Rightarrow> world \<Rightarrow> (exn + json list) \<times> world" where
  "fetch_agent_ids env w =
     (case do_request env (Get ''/api/agents'') w of
        (Inl e, w1) \<Rightarrow> (Inl e, w1)
      | (Inr resp, w1) \<Rightarrow>
          (case (if status_code resp = 200 then loads env (text_of resp) else Inr (JArr [])) of
             Inl e \<Rightarrow> (Inl e, w1)
           | Inr agents \<Rightarrow> (agent_ids_of agents, w1)))"

text \<open>
  \<open>run_tests\<close> up to the results table: the prober (\<open>sys.exit(1)\<close> when the gateway is
  not ready), the agents, the scenarios. It comes to the list \<open>results\<close>, or the run has
  ended before.
\<close>

definition collect_results :: "env \<Rightarrow> world \<Rightarrow> (run_end + TestResult list) \<times> world" where
  "collect_results env w =
     (case wait_for_gateway env 60000 (say Banner w) of
        (Inl e, w1) \<Rightarrow> (Inl (Raised e), w1)
      | (Inr False, w1) \<Rightarrow> (Inl (SysExit 1), say FailedGatewayNotAvailable w1)
      | (Inr True, w1) \<Rightarrow>
          (case fetch_agent_ids env w1 of
             (Inl e, w2) \<Rightarrow> (Inl (Raised e), w2)
           | (Inr agent_ids, w2) \<Rightarrow>
               (case say_markup env (AvailableAgents agent_ids)
                       (if agent_ids = [] then say NoAgentsWarning w2 else w2) of
                  (Some e, w3) \<Rightarrow> (Inl (Raised e), w3)
                | (None, w3) \<Rightarrow>
                    (case all_scenarios env agent_ids w3 of
                       (Inl e, w4) \<Rightarrow> (Inl (Raised e), w4)
                     | (Inr results, w4) \<Rightarrow> (Inr results, w4)))))"

definition run_tests :: "env \<Rightarrow> world \<Rightarrow> run_end \<times> world" where
  "run_tests env w =
     (case collect_results env w of
        (Inl ended, w1) \<Rightarrow> (ended, w1)
      | (Inr results, w1) \<Rightarrow> report env results w1)"

text \<open>
  The script: \<open>success = asyncio.run(run_tests()); sys.exit(0 if success else 1)\<close>. An
  exception that leaves \<open>run_tests\<close> ends the interpreter with exit code 1, and
  \<open>sys.exit(1)\<close> inside \<open>run_tests\<close> with the code it was given.
\<close>

definition exit_code :: "run_end \<Rightarrow> int" where
  "exit_code r = (case r of Returned success \<Rightarrow> (if success then 0 else 1) | SysExit n \<Rightarrow> n | Raised e \<Rightarrow> 1)"

definition runner_main :: "env \<Rightarrow> world \<Rightarrow> int \<times> world" where
  "runner_main env w = (case run_tests env w of (r, w1) \<Rightarrow> (exit_code r, w1))"

section \<open>The jail integration test: the world outside\<close>

text \<open>
  What is outside: \<open>json.loads\<close> and \<open>repr\<close>; the WebSocket server, as the outcome of
  the \<open>k\<close>-th \<open>websockets.connect\<close> of the run to a URL (an exception or an open
  connection, and the milliseconds it took), of \<open>ws.send\<close> on a connection, and of
  \<open>asyncio.wait_for(ws.recv(), timeout)\<close> on it (a frame or an exception, which is
  \<open>TimeoutError\<close> when the timeout passes, and the milliseconds it took);
  \<open>str(WORKSPACE_DIR)\<close>; and the exception \<open>WORKSPACE_DIR.mkdir\<close> raises, if any.
  Closing a connection at the end of an \<open>async with\<close> and \<open>print\<close> are taken not to
  raise. Times are in whole milliseconds.
\<close>

record jail_env =
  jloads :: "string \<Rightarrow> exn + json"
  jrepr :: "json \<Rightarrow> string"
  connect :: "string \<Rightarrow> nat \<Rightarrow> exn option \<times> nat"
  ws_send :: "nat \<Rightarrow> json \<Rightarrow> exn option"
  ws_recv :: "nat \<Rightarrow> nat \<Rightarrow> (exn + string) \<times> nat"
  workspace_dir :: string
  mkdir_error :: "exn option"

text \<open>What \<open>print\<close> is called with, one constructor for each call of the script (one for
  the lines of a banner).\<close>

datatype jline =
    TestConnection | ConnectedSuccessfully | PassedLine
  | TestQueryProtocol | SentQuery string | ReceivedResponseType string
  | TimeoutWaiting | PassedProtocolValidated
  | TestCloseSession | SentCloseSession string | ServerHandledClose
  | TestInvalidMessage | SentInvalid | ReceivedLine string | NoResponse | PassedGraceful
  | RunHeader | WaitingForServer | ServerNotRunning | ServerReady | AllScenariosPassed
  | FailedLine string | ErrorLine string

record jworld =
  jnow :: nat
  conns :: nat
  frames :: "(nat \<times> json) list"
  printed :: "jline list"

definition jprint :: "jline \<Rightarrow> jworld \<Rightarrow> jworld" where
  "jprint x w = w\<lparr>printed := printed w @ [x]\<rparr>"

definition jsleep :: "nat \<Rightarrow> jworld \<Rightarrow> jworld" where
  "jsleep ms w = w\<lparr>jnow := jnow w + ms\<rparr>"

definition jstr :: "jail_env \<Rightarrow> json \<Rightarrow> string" where
  "jstr env v = (case v of JStr s \<Rightarrow> s | _ \<Rightarrow> jrepr env v)"

text \<open>\<open>websockets.connect(url)\<close>: the number of the connection it opened, or what it
  raised.\<close>

definition jconnect :: "jail_env \<Rightarrow> string \<Rightarrow> jworld \<Rightarrow> (exn + nat) \<times> jworld" where
  "jconnect env url w =
     (case connect env url (conns w) of
        (None, d) \<Rightarrow> (Inr (conns w), w\<lparr>jnow := jnow w + d, conns := conns w + 1\<rparr>)
      | (Some e, d) \<Rightarrow> (Inl e, w\<lparr>jnow := jnow w + d, conns := conns w + 1\<rparr>))"

text \<open>\<open>await ws.send(json.dumps(msg))\<close>.\<close>

definition jsend :: "jail_env \<Rightarrow> nat \<Rightarrow> json \<Rightarrow> jworld \<Rightarrow> exn option \<times> jworld" where
  "jsend env c msg w =
     (case ws_send env c msg of
        None \<Rightarrow> (None, w\<lparr>frames := frames w @ [(c, msg)]\<rparr>)
      | Some e \<Rightarrow> (Some e, w))"

text \<open>\<open>await asyncio.wait_for(ws.recv(), timeout=...)\<close>.\<close>

definition jrecv :: "jail_env \<Rightarrow> nat \<Rightarrow> nat \<Rightarrow> jworld \<Rightarrow> (exn + string) \<times> jworld" where
  "jrecv env c timeout w =
     (case ws_recv env c timeout of (r, d) \<Rightarrow> (r, w\<lparr>jnow := jnow w + d\<rparr>))"

definition JAIL_URL :: string where
  "JAIL_URL = ''ws://localhost:31337''"

section \<open>The jail integration test: the readiness prober\<close>

text \<open>
  \<open>wait_for_server\<close>, \<open>start\<close> and \<open>timeout\<close> in milliseconds (the source's default is
  10.0 seconds, its sleep 0.2 seconds). The handler is
  \<open>except (ConnectionRefusedError, OSError)\<close>: an exception of another class leaves the
  function.
\<close>

function server_loop ::
  "jail_env \<Rightarrow> string \<Rightarrow> nat \<Rightarrow> nat \<Rightarrow> jworld \<Rightarrow> (exn + bool) \<times> jworld" where
  "server_loop env url start timeout w =
     (if int (jnow w) - int start < int timeout then
        (case jconnect env url w of
           (Inr c, w1) \<Rightarrow> (Inr True, w1)
         | (Inl e, w1) \<Rightarrow>
             if is_OSError (cls e) then server_loop env url start timeout (jsleep 200 w1)
             else (Inl e, w1))
      else (Inr False, w))"
  by pat_completeness auto
termination
  by (relation "measure (\<lambda>(env, url, start, timeout, w). start + timeout - jnow w)")
     (auto simp: jconnect_def jsleep_def split: prod.splits option.splits)

declare server_loop.simps [simp del]

definition wait_for_server :: "jail_env \<Rightarrow> string \<Rightarrow> nat \<Rightarrow> jworld \<Rightarrow> (exn + bool) \<times> jworld" where
  "wait_for_server env url timeout w = server_loop env url (jnow w) timeout w"

section \<open>The jail integration test: the scenarios\<close>

text \<open>A scenario passes when it returns; it fails by letting an exception out.\<close>

definition test_connection :: "jail_env \<Rightarrow> jworld \<Rightarrow> (exn + unit) \<times> jworld" where
  "test_connection env w =
     (case jconnect env JAIL_URL (jprint TestConnection w) of
        (Inl e, w1) \<Rightarrow> (Inl e, w1)
      | (Inr c, w1) \<Rightarrow> (Inr (), jprint PassedLine (jprint ConnectedSuccessfully w1)))"

definition query :: "jail_env \<Rightarrow> json" where
  "query env =
     JObj [(''type'', JStr ''query''), (''channel_id'', JStr ''test-channel-123''),
           (''workspace'', JStr (workspace_dir env)), (''prompt'', JStr ''Say hello''),
           (''session_id'', JNull)]"

text \<open>The body of the \<open>try\<close> of \<open>test_query_message_protocol\<close>, on connection \<open>c\<close>.\<close>

definition query_reply :: "jail_env \<Rightarrow> nat \<Rightarrow> jworld \<Rightarrow> (exn + json) \<times> jworld" where
  "query_reply env c w =
     (case jrecv env c 5000 w of
        (Inl e, w1) \<Rightarrow> (Inl e, w1)
      | (Inr response_raw, w1) \<Rightarrow>
          (case jloads env response_raw of
             Inl e \<Rightarrow> (Inl e, w1)
           | Inr response \<Rightarrow>
               (case py_get response ''type'' of
                  Inl e \<Rightarrow> (Inl e, w1)
                | Inr t \<Rightarrow>
                    (let w2 = jprint (ReceivedResponseType (jstr env t)) w1 in
                     if \<not> List.member [JStr ''text'', JStr ''tool_use'', JStr ''done'', JStr ''error''] t
                     then (Inl (Exn AssertionError (''Unexpected response type: '' @ jstr env t)), w2)
                     else
                       (case py_get response ''channel_id'' of
                          Inl e \<Rightarrow> (Inl e, w2)
                        | Inr ch \<Rightarrow>
                            if ch \<noteq> JStr ''test-channel-123''
                            then (Inl (Exn AssertionError ''Channel ID should match''), w2)
                            else (Inr response, jprint PassedLine w2))))))"

text \<open>\<open>test_query_message_protocol\<close>: \<open>except asyncio.TimeoutError\<close> turns a timeout
  inside the \<open>try\<close> into a pass that returns \<open>None\<close>.\<close>

definition test_query_message_protocol :: "jail_env \<Rightarrow> jworld \<Rightarrow> (exn + json) \<times> jworld" where
  "test_query_message_protocol env w =
     (case jconnect env JAIL_URL (jprint TestQueryProtocol w) of
        (Inl e, w1) \<Rightarrow> (Inl e, w1)
      | (Inr c, w1) \<Rightarrow>
          (case jsend env c (query env) w1 of
             (Some e, w2) \<Rightarrow> (Inl e, w2)
           | (None, w2) \<Rightarrow>
               (case query_reply env c (jprint (SentQuery ''Say hello'') w2) of
                  (Inl e, w3) \<Rightarrow>
                    if cls e = TimeoutError
                    then (Inr JNull, jprint PassedProtocolValidated (jprint TimeoutWaiting w3))
                    else (Inl e, w3)
                | (Inr response, w3) \<Rightarrow> (Inr response, w3))))"

definition test_close_session :: "jail_env \<Rightarrow> jworld \<Rightarrow> (exn + unit) \<times> jworld" where
  "test_close_session env w =
     (case jconnect env JAIL_URL (jprint TestCloseSession w) of
        (Inl e, w1) \<Rightarrow> (Inl e, w1)
      | (Inr c, w1) \<Rightarrow>
          (case jsend env c
                  (JObj [(''type'', JStr ''close_session''), (''channel_id'', JStr ''test-channel-456'')])
                  w1 of
             (Some e, w2) \<Rightarrow> (Inl e, w2)
           | (None, w2) \<Rightarrow>
               (Inr (), jprint PassedLine (jprint ServerHandledClose
                          (jsleep 500 (jprint (SentCloseSession ''test-channel-456'') w2))))))"

text \<open>The body of the \<open>try\<close> of \<open>test_invalid_message\<close>, on connection \<open>c\<close>.\<close>

definition invalid_reply :: "jail_env \<Rightarrow> nat \<Rightarrow> jworld \<Rightarrow> (exn + unit) \<times> jworld" where
  "invalid_reply env c w =
     (case jrecv env c 2000 w of
        (Inl e, w1) \<Rightarrow> (Inl e, w1)
      | (Inr response_raw, w1) \<Rightarrow>
          (case jloads env response_raw of
             Inl e \<Rightarrow> (Inl e, w1)
           | Inr response \<Rightarrow>
               (let w2 = jprint (ReceivedLine (jstr env response)) w1 in
                case py_get response ''type'' of
                  Inl e \<Rightarrow> (Inl e, w2)
                | Inr t \<Rightarrow>
                    if t \<noteq> JStr ''error''
                    then (Inl (Exn AssertionError ''Should return error for invalid message''), w2)
                    else (Inr (), jprint PassedLine w2))))"

definition test_invalid_message :: "jail_env \<Rightarrow> jworld \<Rightarrow> (exn + unit) \<times> jworld" where
  "test_invalid_message env w =
     (case jconnect env JAIL_URL (jprint TestInvalidMessage w) of
        (Inl e, w1) \<Rightarrow> (Inl e, w1)
      | (Inr c, w1) \<Rightarrow>
          (case jsend env c (JObj [(''type'', JStr ''invalid_type''), (''data'', JStr ''garbage'')]) w1 of
             (Some e, w2) \<Rightarrow> (Inl e, w2)
           | (None, w2) \<Rightarrow>
               (case invalid_reply env c (jprint SentInvalid w2) of
                  (Inl e, w3) \<Rightarrow>
                    if cls e = TimeoutError
                    then (Inr (), jprint PassedGraceful (jprint NoResponse w3))
                    else (Inl e, w3)
                | (Inr u, w3) \<Rightarrow> (Inr u, w3))))"

section \<open>The jail integration test: the run\<close>

text \<open>The body of the \<open>try\<close> of \<open>run_all_tests\<close>: the four scenarios in order; the first
  exception ends it.\<close>

definition four_scenarios :: "jail_env \<Rightarrow> jworld \<Rightarrow> (exn + unit) \<times> jworld" where
  "four_scenarios env w =
     (case test_connection env w of
        (Inl e, w1) \<Rightarrow> (Inl e, w1)
      | (Inr u1, w1) \<Rightarrow>
          (case test_query_message_protocol env w1 of
             (Inl e, w2) \<Rightarrow> (Inl e, w2)
           | (Inr response, w2) \<Rightarrow>
               (case test_close_session env w2 of
                  (Inl e, w3) \<Rightarrow> (Inl e, w3)
                | (Inr u3, w3) \<Rightarrow>
                    (case test_invalid_message env w3 of
                       (Inl e, w4) \<Rightarrow> (Inl e, w4)
                     | (Inr u4, w4) \<Rightarrow> (Inr (), jprint AllScenariosPassed w4)))))"

text \<open>\<open>run_all_tests\<close>: the prober is outside the \<open>try\<close>; \<open>except AssertionError\<close> and
  \<open>except Exception\<close> both return False.\<close>

definition run_all_tests :: "jail_env \<Rightarrow> jworld \<Rightarrow> (exn + bool) \<times> jworld" where
  "run_all_tests env w =
     (case wait_for_server env JAIL_URL 10000 (jprint WaitingForServer (jprint RunHeader w)) of
        (Inl e, w1) \<Rightarrow> (Inl e, w1)
      | (Inr False, w1) \<Rightarrow> (Inr False, jprint ServerNotRunning w1)
      | (Inr True, w1) \<Rightarrow>
          (case four_scenarios env (jprint ServerReady w1) of
             (Inr u, w2) \<Rightarrow> (Inr True, w2)
           | (Inl e, w2) \<Rightarrow>
               if cls e = AssertionError then (Inr False, jprint (FailedLine (str_e e)) w2)
               else (Inr False, jprint (ErrorLine (str_e e)) w2)))"

text \<open>\<open>main\<close>: the workspace directory, the run, \<open>sys.exit(0 if success else 1)\<close>.\<close>

definition jail_main :: "jail_env \<Rightarrow> jworld \<Rightarrow> int \<times> jworld" where
  "jail_main env w =
     (case mkdir_error env of
        Some e \<Rightarrow> (exit_code (Raised e), w)
      | None \<Rightarrow>
          (case run_all_tests env w of
             (Inl e, w1) \<Rightarrow> (exit_code (Raised e), w1)
           | (Inr success, w1) \<Rightarrow> (exit_code (Returned success), w1)))"

section \<open>Sample environments\<close>

text \<open>
  Concrete libraries and services for the examples. \<open>loads_sample\<close> is \<open>json.loads\<close> on
  the documents the examples decode; the examples decode no other JSON document, and the
  last line is what \<open>json.loads\<close> raises on a text that starts with no JSON value.
\<close>

definition loads_sample :: "string \<Rightarrow> exn + json" where
  \<open>loads_sample s =
     (if s = ''5'' then Inr (JInt 5)
      else if s = ''{"full_response": ""}'' then Inr (JObj [(''full_response'', JStr [])])
      else if s = ''{"full_response": "logged, 2 entries found"}'' then
        Inr (JObj [(''full_response'', JStr ''logged, 2 entries found'')])
      else if s = ''[{"id": "a"}, {"id": "b"}, {"id": "c"}]'' then
        Inr (JArr [JObj [(''id'', JStr ''a'')], JObj [(''id'', JStr ''b'')], JObj [(''id'', JStr ''c'')]])
      else if s = ''[]'' then Inr (JArr [])
      else if s = ''[{"id": "[/x]"}, {"id": "b"}]'' then
        Inr (JArr [JObj [(''id'', JStr ''[/x]'')], JObj [(''id'', JStr ''b'')]])
      else if s = ''{"type": "error", "channel_id": "test-channel-123"}'' then
        Inr (JObj [(''type'', JStr ''error''), (''channel_id'', JStr ''test-channel-123'')])
      else if s = ''{"type": "text", "channel_id": "other"}'' then
        Inr (JObj [(''type'', JStr ''text''), (''channel_id'', JStr ''other'')])
      else Inl (Exn JSONDecodeError ''Expecting value: line 1 column 1 (char 0)''))\<close>

text \<open>\<open>repr\<close> of a value whose strings are plain (printable ASCII, no quote, no
  backslash), and \<open>str.lower\<close> on ASCII.\<close>

fun repr_plain :: "json \<Rightarrow> string" where
  "repr_plain JNull = ''None''"
| "repr_plain (JBool b) = (if b then ''True'' else ''False'')"
| "repr_plain (JInt i) = show_int i"
| "repr_plain (JFloat l) = l"
| "repr_plain (JStr s) = [CHR 0x27] @ s @ [CHR 0x27]"
| "repr_plain (JArr []) = ''[]''"
| "repr_plain (JArr (x # xs)) =
     ''['' @ repr_plain x @ concat (map (\<lambda>v. '', '' @ repr_plain v) xs) @ '']''"
| "repr_plain (JObj []) = ''{}''"
| "repr_plain (JObj ((k, x) # kvs)) =
     ''{'' @ [CHR 0x27] @ k @ [CHR 0x27] @ '': '' @ repr_plain x
       @ concat (map (\<lambda>kv. '', '' @ [CHR 0x27] @ fst kv @ [CHR 0x27] @ '': '' @ repr_plain (snd kv)) kvs)
       @ ''}''"

definition lower_ascii :: "string \<Rightarrow> string" where
  "lower_ascii s =
     map (\<lambda>c. case map_of (zip ''ABCDEFGHIJKLMNOPQRSTUVWXYZ'' ''abcdefghijklmnopqrstuvwxyz'') c of
                 Some l \<Rightarrow> l
               | None \<Rightarrow> c) s"

text \<open>A gateway whose health check answers 200 at once, with the given outcome of
  \<open>GET /api/agents\<close> and of a \<open>POST /api/send\<close> with a given body. In the sample
  environments no printed text holds a square bracket that rich reads as a tag, so no
  \<open>console.print\<close> raises, and the clock readings are such that the duration is their
  difference.\<close>

definition gateway_sample ::
  "(exn + response) \<Rightarrow> (json \<Rightarrow> exn + response) \<Rightarrow> request \<Rightarrow> nat \<Rightarrow> (exn + response) \<times> nat" where
  "gateway_sample agents send rq n =
     (case rq of
        Get path \<Rightarrow>
          if path = ''/health'' then (Inr \<lparr>status_code = 200, text_of = ''ok''\<rparr>, 5)
          else (agents, 5)
      | Post path body \<Rightarrow> (send body, 50))"

definition env_sample :: "(exn + response) \<Rightarrow> (json \<Rightarrow> exn + response) \<Rightarrow> env" where
  "env_sample agents send =
     \<lparr>loads = loads_sample, py_repr = repr_plain, lower = lower_ascii,
      http = gateway_sample agents send, print_error = (\<lambda>x. None),
      ms_between = (\<lambda>s t. int t - int s), results_dir_exists = True, open_error = None\<rparr>"

definition world0 :: world where
  "world0 = \<lparr>now = 0, seq = 0, sent = [], console = [], writes = []\<rparr>"

text \<open>Three agents are registered and every message is answered with one event.\<close>

definition three_agents :: "exn + response" where
  \<open>three_agents = Inr \<lparr>status_code = 200, text_of = ''[{"id": "a"}, {"id": "b"}, {"id": "c"}]''\<rparr>\<close>

definition answers :: "string \<Rightarrow> json \<Rightarrow> exn + response" where
  "answers stream body = Inr \<lparr>status_code = 200, text_of = stream\<rparr>"

text \<open>A stream of four lines: an event, a comment, a line that is not JSON, an event.\<close>

definition stream_sample :: string where
  \<open>stream_sample =
     ''data: {"full_response": ""}'' @ [CHR 0x0A] @ '': keep-alive'' @ [CHR 0x0A] @ ''data: oops''
       @ [CHR 0x0A] @ ''data: {"full_response": "logged, 2 entries found"}''\<close>

definition env_good :: env where
  \<open>env_good = env_sample three_agents (answers ''data: {"full_response": "logged, 2 entries found"}'')\<close>

text \<open>A jail server: the outcome of the \<open>k\<close>-th connection to a URL, and of the receive on
  a connection.\<close>

definition jail_sample :: "(string \<Rightarrow> nat \<Rightarrow> exn option) \<Rightarrow> (nat \<Rightarrow> (exn + string) \<times> nat) \<Rightarrow> jail_env" where
  "jail_sample conn recv =
     \<lparr>jloads = loads_sample, jrepr = repr_plain, connect = (\<lambda>url k. (conn url k, 3)),
      ws_send = (\<lambda>c msg. None), ws_recv = (\<lambda>c timeout. recv c),
      workspace_dir = ''/repo/workspace'', mkdir_error = None\<rparr>"

definition jworld0 :: jworld where
  "jworld0 = \<lparr>jnow = 0, conns = 0, frames = [], printed = []\<rparr>"

text \<open>The gateway is ready and \<open>GET /api/agents\<close> raises.\<close>

definition env_fetch_fails :: env where
  "env_fetch_fails =
     env_sample (Inl (Exn HTTPError ''All connection attempts failed''))
       (answers ''data: 5'')"

text \<open>Every message is answered with an empty aggregated response.\<close>

definition env_empty_answers :: env where
  \<open>env_empty_answers = env_sample three_agents (answers ''data: {"full_response": ""}'')\<close>

text \<open>The message to agent \<open>b\<close> fails in the client; every other one is answered.\<close>

definition env_b_fails :: env where
  \<open>env_b_fails =
     env_sample three_agents
       (\<lambda>body. if py_get body ''agent_id'' = Inr (JStr ''b'')
               then Inl (Exn HTTPError ''Server disconnected without sending a response.'')
               else Inr \<lparr>status_code = 200,
                          text_of = ''data: {"full_response": "logged, 2 entries found"}''\<rparr>)\<close>

text \<open>Jail servers: one that accepts every connection but the \<open>k\<close>-th, which is refused;
  one that is no WebSocket server; one that refuses the first connection and is no
  WebSocket server from then on; and receives that give an error reply, close the
  connection, or time out.\<close>

definition refuses :: "nat \<Rightarrow> string \<Rightarrow> nat \<Rightarrow> exn option" where
  "refuses k url n =
     (if n = k then Some (Exn ConnectionRefusedError ''[Errno 111] Connection refused'') else None)"

definition accepts_all :: "string \<Rightarrow> nat \<Rightarrow> exn option" where
  "accepts_all url n = None"

definition rejects_handshake :: "string \<Rightarrow> nat \<Rightarrow> exn option" where
  "rejects_handshake url n =
     Some (Exn InvalidHandshake ''server rejected WebSocket connection: HTTP 404'')"

definition refuses_then_rejects :: "string \<Rightarrow> nat \<Rightarrow> exn option" where
  "refuses_then_rejects url n =
     (if n = 0 then Some (Exn ConnectionRefusedError ''[Errno 111] Connection refused'')
      else Some (Exn InvalidHandshake ''server rejected WebSocket connection: HTTP 404''))"

definition replies_error :: "nat \<Rightarrow> (exn + string) \<times> nat" where
  \<open>replies_error c = (Inr ''{"type": "error", "channel_id": "test-channel-123"}'', 10)\<close>

definition replies_other_channel :: "nat \<Rightarrow> (exn + string) \<times> nat" where
  \<open>replies_other_channel c = (Inr ''{"type": "text", "channel_id": "other"}'', 10)\<close>

definition closes_connection :: "nat \<Rightarrow> (exn + string) \<times> nat" where
  "closes_connection c = (Inl (Exn ConnectionClosed ''received 1000 (OK); then sent 1000 (OK)''), 10)"

definition times_out :: "nat \<Rightarrow> (exn + string) \<times> nat" where
  "times_out c = (Inl (Exn TimeoutError []), 2000)"

text \<open>The first of two agents has the id \<open>[/x]\<close>: the line that prints the ids is
  \<open>[bold]Available agents:[/bold] ['[/x]', 'b']\<close> between two line feeds, and rich
  raises on the closing tag at position 34; the line that announces the agent is
  \<open>[bold]Testing agent: [/x][/bold]\<close> after a line feed, and rich raises on
  the closing tag at position 22.\<close>

definition env_bad_markup :: env where
  \<open>env_bad_markup =
     (env_sample (Inr \<lparr>status_code = 200, text_of = ''[{"id": "[/x]"}, {"id": "b"}]''\<rparr>)
        (answers ''data: {"full_response": "logged, 2 entries found"}''))
     \<lparr>print_error :=
        (\<lambda>x. case x of
               AvailableAgents ids \<Rightarrow>
                 if List.member ids (JStr ''[/x]'')
                 then Some (Exn MarkupError
                   (''closing tag '' @ [CHR 0x27] @ ''[/x]'' @ [CHR 0x27]
                      @ '' at position 34 doesn'' @ [CHR 0x27] @ ''t match any open tag''))
                 else None
             | TestingAgent agent_id \<Rightarrow>
                 if agent_id = JStr ''[/x]''
                 then Some (Exn MarkupError
                   (''closing tag '' @ [CHR 0x27] @ ''[/x]'' @ [CHR 0x27]
                      @ '' at position 22 doesn'' @ [CHR 0x27] @ ''t match any open tag''))
                 else None
             | _ \<Rightarrow> None)\<rparr>\<close>

text \<open>No agent is registered: \<open>GET /api/agents\<close> answers 200 with the empty list.\<close>

definition env_empty_list :: env where
  "env_empty_list = env_sample (Inr \<lparr>status_code = 200, text_of = ''[]''\<rparr>) (answers ''data: 5'')"

text \<open>No agent list: \<open>GET /api/agents\<close> answers 500.\<close>

definition env_no_agents :: env where
  "env_no_agents =
     env_sample (Inr \<lparr>status_code = 500, text_of = ''Internal Server Error''\<rparr>) (answers ''data: 5'')"

text \<open>A gateway that is down: every request raises in the client.\<close>

definition env_down :: env where
  "env_down =
     \<lparr>loads = loads_sample, py_repr = repr_plain, lower = lower_ascii,
      http = (\<lambda>rq n. (Inl (Exn HTTPError ''All connection attempts failed''), 1)),
      print_error = (\<lambda>x. None), ms_between = (\<lambda>s t. int t - int s),
      results_dir_exists = True, open_error = None\<rparr>"

section \<open>The claims in the words of the specification\<close>

text \<open>The TestResults a run of the gateway runner produces: the list \<open>results\<close>, when the
  run comes to it.\<close>

definition produced_results :: "env \<Rightarrow> world \<Rightarrow> TestResult list" where
  "produced_results env w = (case fst (collect_results env w) of Inl ended \<Rightarrow> [] | Inr results \<Rightarrow> results)"

definition failed_count :: "TestResult list \<Rightarrow> nat" where
  "failed_count results = length (filter (\<lambda>r. \<not> passed r) results)"

text \<open>A failed TestResult that carries the given text in its error field.\<close>

definition failed_with :: "TestResult \<Rightarrow> string \<Rightarrow> bool" where
  "failed_with r txt = (\<not> passed r \<and> error r = Some txt)"

text \<open>What \<open>run_all_tests\<close> prints for an exception of a scenario, \<open>FAILED\<close> for an
  \<open>AssertionError\<close> and \<open>ERROR\<close> for every other one, added to the state the scenario
  left.\<close>

definition reported :: "exn \<Rightarrow> jworld \<Rightarrow> jworld" where
  "reported e w = jprint (if cls e = AssertionError then FailedLine (str_e e) else ErrorLine (str_e e)) w"

text \<open>
  The probes of a prober, by number: in the gateway runner the \<open>k\<close>-th request of the run
  is a probe that finds the gateway ready when it answers 200; in the jail script the
  \<open>k\<close>-th connection of the run is a probe that is refused when it raises an exception of
  the \<open>OSError\<close> family. \<open>spent d pause k n\<close> is the time that \<open>n\<close> probes from the
  \<open>k\<close>-th on take, each followed by the pause of the loop, when the \<open>i\<close>-th one takes
  \<open>d i\<close>.
\<close>

definition health_ok :: "env \<Rightarrow> nat \<Rightarrow> bool" where
  "health_ok env k =
     (case fst (http env (Get ''/health'') k) of Inl e \<Rightarrow> False | Inr resp \<Rightarrow> status_code resp = 200)"

definition refused :: "jail_env \<Rightarrow> string \<Rightarrow> nat \<Rightarrow> bool" where
  "refused env url k =
     (case fst (connect env url k) of None \<Rightarrow> False | Some e \<Rightarrow> is_OSError (cls e))"

fun spent :: "(nat \<Rightarrow> nat) \<Rightarrow> nat \<Rightarrow> nat \<Rightarrow> nat \<Rightarrow> nat" where
  "spent d pause k 0 = 0"
| "spent d pause k (Suc n) = d k + pause + spent d pause (Suc k) n"

text \<open>The requests of the fan-out scenario: the POST of its message to an agent.\<close>

definition fanout_post :: "json \<Rightarrow> request" where
  "fanout_post agent_id =
     Post ''/api/send'' (send_body agent_id ''Respond with your agent id briefly'' ''e2e-test'')"

definition is_fanout :: "request \<Rightarrow> bool" where
  "is_fanout rq =
     (case rq of
        Get path \<Rightarrow> False
      | Post path body \<Rightarrow> py_get body ''content'' = Inr (JStr ''Respond with your agent id briefly''))"

text \<open>What one call of the fan-out gives when it is the \<open>n\<close>-th request of the run, whatever
  else is going on.\<close>

definition fanout_call :: "env \<Rightarrow> json \<Rightarrow> nat \<Rightarrow> exn + send_result" where
  "fanout_call env agent_id n =
     fst (send_message env agent_id ''Respond with your agent id briefly'' ''e2e-test''
            (world0\<lparr>seq := n\<rparr>))"

text \<open>A call that yields a non-empty aggregated response, as \<open>test_simple_message\<close> tests
  it: not \<open>None\<close>, and of length above 0.\<close>

definition nonempty_response :: "exn + send_result \<Rightarrow> bool" where
  "nonempty_response r =
     (case r of
        Inl e \<Rightarrow> False
      | Inr result \<Rightarrow>
          sm_full_response result \<noteq> JNull \<and>
          (case py_len (sm_full_response result) of Inl e \<Rightarrow> False | Inr n \<Rightarrow> 0 < n))"

text \<open>The replies of the jail server the claims speak of: a frame that decodes to a dict
  with the given type (and channel id), the receive timing out, the connection closing.\<close>

definition reply_has :: "jail_env \<Rightarrow> exn + string \<Rightarrow> string \<Rightarrow> json list \<Rightarrow> bool" where
  "reply_has env r key allowed =
     (case r of
        Inl e \<Rightarrow> False
      | Inr raw \<Rightarrow>
          (case jloads env raw of
             Inl e \<Rightarrow> False
           | Inr response \<Rightarrow>
               (case py_get response key of Inl e \<Rightarrow> False | Inr v \<Rightarrow> List.member allowed v)))"

definition timed_out :: "exn + string \<Rightarrow> bool" where
  "timed_out r = (case r of Inl e \<Rightarrow> cls e = TimeoutError | Inr raw \<Rightarrow> False)"

definition connection_closed :: "exn + string \<Rightarrow> bool" where
  "connection_closed r = (case r of Inl e \<Rightarrow> cls e = ConnectionClosed | Inr raw \<Rightarrow> False)"

text \<open>The parser of the event stream in the words of the specification: the payloads of
  the marked lines that decode, in order, and the \<open>full_response\<close> of the last payload
  that has the field.\<close>

definition spec_events :: "(string \<Rightarrow> exn + json) \<Rightarrow> string \<Rightarrow> json list" where
  "spec_events decode body =
     List.map_filter (\<lambda>line. case decode (drop 6 line) of Inl e \<Rightarrow> None | Inr data \<Rightarrow> Some data)
       (filter (\<lambda>line. startswith line ''data: '') (split_nl body))"

definition field_values :: "json list \<Rightarrow> json list" where
  "field_values events =
     List.map_filter (\<lambda>data. case data of JObj kvs \<Rightarrow> map_of kvs ''full_response'' | _ \<Rightarrow> None) events"

definition spec_full_response :: "json list \<Rightarrow> json" where
  "spec_full_response events = (case rev (field_values events) of [] \<Rightarrow> JNull | v # vs \<Rightarrow> v)"

section \<open>What each step of the gateway runner leaves unchanged\<close>

lemma say_fields [simp]:
  "now (say x w) = now w" "seq (say x w) = seq w" "sent (say x w) = sent w"
  "writes (say x w) = writes w" "console (say x w) = console w @ [x]"
  by (simp_all add: say_def)

lemma sleep_fields [simp]:
  "now (sleep n w) = now w + n" "seq (sleep n w) = seq w" "sent (sleep n w) = sent w"
  "writes (sleep n w) = writes w" "console (sleep n w) = console w"
  by (simp_all add: sleep_def)

lemma say_markup_frame:
  assumes "say_markup env x w = (r, w1)"
  shows "writes w1 = writes w" "sent w1 = sent w" "seq w1 = seq w" "now w1 = now w"
    "r = None \<Longrightarrow> print_error env x = None \<and> w1 = say x w"
    "\<And>e. r = Some e \<Longrightarrow> print_error env x = Some e \<and> w1 = w"
  using assms by (auto simp: say_markup_def split: option.splits)

lemma do_request_fields:
  assumes "do_request env rq w = (r, w1)"
  shows "writes w1 = writes w" "console w1 = console w" "sent w1 = sent w @ [rq]"
    "seq w1 = seq w + 1" "now w \<le> now w1"
  using assms by (auto simp: do_request_def split: prod.splits)

lemma do_request_outcome:
  "fst (do_request env rq w) = fst (http env rq (seq w))"
  by (simp add: do_request_def split: prod.splits)

lemma gateway_loop_frame:
  "gateway_loop env start max_wait w = (r, w1) \<Longrightarrow>
     writes w1 = writes w \<and> (\<exists>n. sent w1 = sent w @ replicate n (Get ''/health'')) \<and>
     (r = Inr True \<and> console w1 = console w @ [GatewayReady] \<or>
      r = Inr False \<and> console w1 = console w @ [GatewayNotReady])"
proof (induction env start max_wait w rule: gateway_loop.induct)
  case (1 env start max_wait w)
  show ?case
  proof (cases "int (now w) - int start < int max_wait")
    case False
    with "1.prems" have "r = Inr False" "w1 = say GatewayNotReady w"
      by (auto simp: gateway_loop.simps[of env start max_wait w])
    then show ?thesis by simp
  next
    case True
    obtain r0 w0 where rq: "do_request env (Get ''/health'') w = (r0, w0)"
      by (cases "do_request env (Get ''/health'') w")
    note f = do_request_fields[OF rq]
    have step: ?thesis if rec: "gateway_loop env start max_wait (sleep 1000 w0) = (r, w1)"
      and ih: "writes w1 = writes (sleep 1000 w0) \<and>
        (\<exists>n. sent w1 = sent (sleep 1000 w0) @ replicate n (Get ''/health'')) \<and>
        (r = Inr True \<and> console w1 = console (sleep 1000 w0) @ [GatewayReady] \<or>
         r = Inr False \<and> console w1 = console (sleep 1000 w0) @ [GatewayNotReady])"
    proof -
      from ih obtain n where n: "sent w1 = sent (sleep 1000 w0) @ replicate n (Get ''/health'')"
        by blast
      with f have "sent w1 = sent w @ replicate (Suc n) (Get ''/health'')" by simp
      then have "\<exists>n. sent w1 = sent w @ replicate n (Get ''/health'')" by blast
      with ih f show ?thesis by simp
    qed
    show ?thesis
    proof (cases r0)
      case (Inl e)
      with True rq "1.prems" have rec: "gateway_loop env start max_wait (sleep 1000 w0) = (r, w1)"
        by (simp add: gateway_loop.simps[of env start max_wait w])
      from step[OF rec "1.IH"(1)[OF True rq[symmetric] Inl rec]] show ?thesis .
    next
      case (Inr resp)
      show ?thesis
      proof (cases "status_code resp = 200")
        case ok: True
        with True rq Inr "1.prems" have "r = Inr True" "w1 = say GatewayReady w0"
          by (auto simp: gateway_loop.simps[of env start max_wait w])
        moreover have "sent w0 = sent w @ replicate 1 (Get ''/health'')" using f by simp
        ultimately show ?thesis using f by (metis say_fields(3,4,5))
      next
        case False
        with True rq Inr "1.prems" have rec: "gateway_loop env start max_wait (sleep 1000 w0) = (r, w1)"
          by (simp add: gateway_loop.simps[of env start max_wait w])
        from step[OF rec "1.IH"(2)[OF True rq[symmetric] Inr False rec]] show ?thesis .
      qed
    qed
  qed
qed


lemma wait_for_gateway_frame:
  assumes "wait_for_gateway env max_wait w = (r, w1)"
  shows "writes w1 = writes w" "\<exists>n. sent w1 = sent w @ replicate n (Get ''/health'')"
    "r = Inr True \<and> console w1 = console w @ [WaitingForGateway, GatewayReady] \<or>
     r = Inr False \<and> console w1 = console w @ [WaitingForGateway, GatewayNotReady]"
  using gateway_loop_frame[of env "now (say WaitingForGateway w)" max_wait "say WaitingForGateway w" r w1] assms
  by (auto simp: wait_for_gateway_def Let_def)

lemma send_message_frame:
  assumes "send_message env a c s w = (r, w1)"
  shows "writes w1 = writes w" "console w1 = console w"
    "sent w1 = sent w @ [Post ''/api/send'' (send_body a c s)]" "seq w1 = seq w + 1"
  using assms
  by (auto simp: send_message_def split: prod.splits sum.splits dest: do_request_fields)

lemma test_gateway_health_frame:
  assumes "test_gateway_health env w = (r, w1)"
  shows "writes w1 = writes w" "console w1 = console w" "sent w1 = sent w @ [Get ''/health'']"
    "seq w1 = seq w + 1"
  using assms by (auto simp: test_gateway_health_def split: prod.splits dest: do_request_fields)

lemma test_agent_list_frame:
  assumes "test_agent_list env w = (r, w1)"
  shows "writes w1 = writes w" "console w1 = console w" "sent w1 = sent w @ [Get ''/api/agents'']"
    "seq w1 = seq w + 1"
  using assms by (auto simp: test_agent_list_def split: prod.splits dest: do_request_fields)

lemma test_simple_message_frame:
  assumes "test_simple_message env a w = (r, w1)"
  shows "writes w1 = writes w" "console w1 = console w"
    "sent w1 = sent w @ [Post ''/api/send'' (send_body a ''Say hello briefly'' ''e2e-test'')]"
    "seq w1 = seq w + 1"
  using assms by (auto simp: test_simple_message_def split: prod.splits dest: send_message_frame)

lemma test_pack_tool_log_entry_frame:
  assumes "test_pack_tool_log_entry env a w = (r, w1)"
  shows "writes w1 = writes w" "console w1 = console w"
    "sent w1 = sent w @ [Post ''/api/send''
        (send_body a (''Use log_entry to log: '' @ ''E2E test entry '' @ dec (now w div 1000)) ''e2e-test'')]"
    "seq w1 = seq w + 1"
  using assms by (auto simp: test_pack_tool_log_entry_def split: prod.splits dest: send_message_frame)

lemma test_pack_tool_log_search_frame:
  assumes "test_pack_tool_log_search env a w = (r, w1)"
  shows "writes w1 = writes w" "console w1 = console w"
    "sent w1 = sent w @ [Post ''/api/send''
        (send_body a (''Use log_search to find entries containing '' @ [CHR 0x27] @ ''E2E'' @ [CHR 0x27]) ''e2e-test'')]"
    "seq w1 = seq w + 1"
  using assms by (auto simp: test_pack_tool_log_search_def split: prod.splits dest: send_message_frame)

lemma is_fanout_simps [simp]:
  "is_fanout (Get p) = False"
  "is_fanout (Post p (send_body a c s)) = (c = ''Respond with your agent id briefly'')"
  "is_fanout (fanout_post a) = True"
  by (simp_all add: is_fanout_def send_body_def fanout_post_def)

lemma gather_sends_frame:
  "gather_sends env ids t0 fin w = (rs, w1) \<Longrightarrow>
     writes w1 = writes w \<and> console w1 = console w \<and> sent w1 = sent w @ map fanout_post ids
     \<and> seq w1 = seq w + length ids \<and> length rs = length ids"
proof (induction ids arbitrary: fin w rs w1)
  case Nil
  then show ?case by auto
next
  case (Cons a ids)
  obtain r wa where sm: "send_message env a ''Respond with your agent id briefly'' ''e2e-test''
      (w\<lparr>now := t0\<rparr>) = (r, wa)"
    by (cases "send_message env a ''Respond with your agent id briefly'' ''e2e-test'' (w\<lparr>now := t0\<rparr>)")
  obtain rs' wb where g: "gather_sends env ids t0 (max fin (now wa)) wa = (rs', wb)"
    by (cases "gather_sends env ids t0 (max fin (now wa)) wa")
  from Cons.prems sm g have eq: "rs = r # rs'" "w1 = wb" by auto
  from send_message_frame[OF sm] Cons.IH[OF g] eq show ?case
    by (simp add: fanout_post_def)
qed

lemma test_parallel_messages_frame:
  assumes "test_parallel_messages env ids w = (r, w1)"
  shows "writes w1 = writes w" "console w1 = console w" "sent w1 = sent w @ map fanout_post ids"
  using assms by (auto simp: test_parallel_messages_def split: prod.splits dest: gather_sends_frame)

lemma per_agent_tests_frame:
  "per_agent_tests env ids w = (r, w1) \<Longrightarrow>
     writes w1 = writes w \<and> filter is_fanout (sent w1) = filter is_fanout (sent w)
     \<and> (\<forall>rs. r = Inr rs \<longrightarrow>
            length rs = 3 * length ids \<and> (\<forall>a\<in>set ids. print_error env (TestingAgent a) = None))
     \<and> (\<forall>e. r = Inl e \<longrightarrow> (\<exists>a\<in>set ids. print_error env (TestingAgent a) = Some e))"
proof (induction ids arbitrary: w r w1)
  case Nil
  then show ?case by auto
next
  case (Cons a ids)
  obtain p w0 where pr: "say_markup env (TestingAgent a) w = (p, w0)"
    by (cases "say_markup env (TestingAgent a) w")
  note pf = say_markup_frame[OF pr]
  show ?case
  proof (cases p)
    case (Some e)
    with pr Cons.prems have "r = Inl e" "w1 = w0" by auto
    with pf(1,2) pf(6)[OF Some] show ?thesis by auto
  next
    case None
    obtain r1 wa where t1: "test_simple_message env a w0 = (r1, wa)"
      by (cases "test_simple_message env a w0")
    obtain r2 wb where t2: "test_pack_tool_log_entry env a wa = (r2, wb)"
      by (cases "test_pack_tool_log_entry env a wa")
    obtain r3 wc where t3: "test_pack_tool_log_search env a wb = (r3, wc)"
      by (cases "test_pack_tool_log_search env a wb")
    obtain r' wd where rest: "per_agent_tests env ids wc = (r', wd)"
      by (cases "per_agent_tests env ids wc")
    have fr: "writes wc = writes w" "filter is_fanout (sent wc) = filter is_fanout (sent w)"
      using pf(1,2) test_simple_message_frame[OF t1] test_pack_tool_log_entry_frame[OF t2]
        test_pack_tool_log_search_frame[OF t3]
      by simp_all
    note ih = Cons.IH[OF rest]
    show ?thesis
    proof (cases r')
      case (Inl e)
      with Cons.prems pr None t1 t2 t3 rest have "r = Inl e" "w1 = wd" by auto
      with ih Inl fr show ?thesis by auto
    next
      case (Inr rs')
      with Cons.prems pr None t1 t2 t3 rest have "r = Inr (r1 # r2 # r3 # rs')" "w1 = wd" by auto
      with ih Inr fr pf(5)[OF None] show ?thesis by auto
    qed
  qed
qed

lemma parallel_tests_frame:
  assumes "parallel_tests env ids w = (rs, w1)"
  shows "writes w1 = writes w"
    "sent w1 = sent w @ (if 2 \<le> length ids then map fanout_post (take 2 ids) else [])"
    "length rs = (if 2 \<le> length ids then 1 else 0)"
  using assms
  by (auto simp: parallel_tests_def split: prod.splits if_splits dest: test_parallel_messages_frame)

lemma all_scenarios_frame:
  assumes "all_scenarios env ids w = (r, w1)"
  shows "writes w1 = writes w"
    "\<And>rs. r = Inr rs \<Longrightarrow>
       filter is_fanout (sent w1) =
         filter is_fanout (sent w) @ (if 2 \<le> length ids then map fanout_post (take 2 ids) else [])
       \<and> length rs = 2 + 3 * length ids + (if 2 \<le> length ids then 1 else 0)
       \<and> (\<forall>a\<in>set ids. print_error env (TestingAgent a) = None)"
    "\<And>e. r = Inl e \<Longrightarrow>
       filter is_fanout (sent w1) = filter is_fanout (sent w)
       \<and> (\<exists>a\<in>set ids. print_error env (TestingAgent a) = Some e)"
proof -
  obtain r1 wa where t1: "test_gateway_health env (say RunningInfrastructureTests w) = (r1, wa)"
    by (cases "test_gateway_health env (say RunningInfrastructureTests w)")
  obtain r2 wb where t2: "test_agent_list env wa = (r2, wb)"
    by (cases "test_agent_list env wa")
  obtain r' wc where t3: "per_agent_tests env ids wb = (r', wc)"
    by (cases "per_agent_tests env ids wb")
  obtain ps wd where t4: "parallel_tests env ids wc = (ps, wd)"
    by (cases "parallel_tests env ids wc")
  note f = test_gateway_health_frame[OF t1] test_agent_list_frame[OF t2]
  note pa = per_agent_tests_frame[OF t3]
  note pt = parallel_tests_frame[OF t4]
  have fan: "filter is_fanout (map fanout_post xs) = map fanout_post xs" for xs
    by (induction xs) simp_all
  have wc: "writes wc = writes w" "filter is_fanout (sent wc) = filter is_fanout (sent w)"
    using f pa by simp_all
  have ends: "(\<exists>e. r' = Inl e \<and> r = Inl e \<and> w1 = wc) \<or> (\<exists>rs'. r' = Inr rs' \<and> r = Inr (r1 # r2 # rs' @ ps) \<and> w1 = wd)"
    using assms t1 t2 t3 t4 by (cases r') (auto simp: all_scenarios_def)
  from ends wc pt show "writes w1 = writes w" by auto
  show "filter is_fanout (sent w1) =
         filter is_fanout (sent w) @ (if 2 \<le> length ids then map fanout_post (take 2 ids) else [])
       \<and> length rs = 2 + 3 * length ids + (if 2 \<le> length ids then 1 else 0)
       \<and> (\<forall>a\<in>set ids. print_error env (TestingAgent a) = None)" if "r = Inr rs" for rs
  proof -
    from ends that obtain rs' where e: "r' = Inr rs'" "rs = r1 # r2 # rs' @ ps" "w1 = wd" by auto
    with pa have "length rs' = 3 * length ids" "\<forall>a\<in>set ids. print_error env (TestingAgent a) = None"
      by auto
    with e wc pt show ?thesis by (simp add: fan)
  qed
  show "filter is_fanout (sent w1) = filter is_fanout (sent w)
       \<and> (\<exists>a\<in>set ids. print_error env (TestingAgent a) = Some e)" if "r = Inl e" for e
  proof -
    from ends that have "r' = Inl e" "w1 = wc" by auto
    with pa wc show ?thesis by auto
  qed
qed

lemma fetch_agent_ids_frame:
  assumes "fetch_agent_ids env w = (r, w1)"
  shows "writes w1 = writes w" "console w1 = console w" "sent w1 = sent w @ [Get ''/api/agents'']"
  using assms
  by (auto simp: fetch_agent_ids_def split: prod.splits sum.splits if_splits dest: do_request_fields)

lemma tally_counts:
  "tally rs (p, f) = (p + length (filter passed rs), f + length (filter (\<lambda>r. \<not> passed r) rs))"
  by (induction rs arbitrary: p f) simp_all


lemma collect_results_frame:
  assumes "collect_results env w = (r, w1)"
  shows "writes w1 = writes w"
proof -
  obtain g wa where g: "wait_for_gateway env 60000 (say Banner w) = (g, wa)"
    by (cases "wait_for_gateway env 60000 (say Banner w)")
  have wa: "writes wa = writes w" using wait_for_gateway_frame(1)[OF g] by simp
  obtain a wb where a: "fetch_agent_ids env wa = (a, wb)"
    by (cases "fetch_agent_ids env wa")
  have wb: "writes wb = writes w" using fetch_agent_ids_frame(1)[OF a] wa by simp
  show ?thesis
  proof (cases g)
    case (Inl e)
    with assms g wa show ?thesis by (simp add: collect_results_def)
  next
    case (Inr ready)
    show ?thesis
    proof (cases ready)
      case False
      with assms g Inr wa show ?thesis by (auto simp: collect_results_def)
    next
      case True
      show ?thesis
      proof (cases a)
        case (Inl e)
        with assms g \<open>g = Inr ready\<close> True a wb show ?thesis by (auto simp: collect_results_def)
      next
        case ids: (Inr agent_ids)
        obtain p wp where p: "say_markup env (AvailableAgents agent_ids)
            (if agent_ids = [] then say NoAgentsWarning wb else wb) = (p, wp)"
          by (cases "say_markup env (AvailableAgents agent_ids)
            (if agent_ids = [] then say NoAgentsWarning wb else wb)")
        have wp: "writes wp = writes w" using say_markup_frame(1)[OF p] wb by simp
        obtain rs wc where sc: "all_scenarios env agent_ids wp = (rs, wc)"
          by (cases "all_scenarios env agent_ids wp")
        from assms g Inr True a ids p sc have "w1 = wp \<or> w1 = wc"
          by (auto simp: collect_results_def split: option.splits sum.splits)
        with all_scenarios_frame(1)[OF sc] wp show ?thesis by auto
      qed
    qed
  qed
qed

lemma collect_results_ready:
  assumes "wait_for_gateway env 60000 (say Banner w) = (Inr True, w1)"
    and "fetch_agent_ids env w1 = (Inr agent_ids, w2)"
    and "print_error env (AvailableAgents agent_ids) = None"
    and "all_scenarios env agent_ids
           (say (AvailableAgents agent_ids) (if agent_ids = [] then say NoAgentsWarning w2 else w2)) = (r, w3)"
  shows "collect_results env w = ((case r of Inl e \<Rightarrow> Inl (Raised e) | Inr results \<Rightarrow> Inr results), w3)"
  using assms by (simp add: collect_results_def say_markup_def split: sum.splits)

lemma collect_results_print_raises:
  assumes "wait_for_gateway env 60000 (say Banner w) = (Inr True, w1)"
    and "fetch_agent_ids env w1 = (Inr agent_ids, w2)"
    and "print_error env (AvailableAgents agent_ids) = Some e"
  shows "collect_results env w = (Inl (Raised e), if agent_ids = [] then say NoAgentsWarning w2 else w2)"
  using assms by (simp add: collect_results_def say_markup_def)

lemma report_frame:
  assumes "report env results w = (r, w1)"
  shows "sent w1 = sent w"
    "writes w1 = writes w \<or>
     (results_dir_exists env \<and> open_error env = None \<and> r = Returned (filter (\<lambda>r. \<not> passed r) results = []) \<and>
      writes w1 = writes w @
        [\<lparr>sum_passed = length (filter passed results),
          sum_failed = length (filter (\<lambda>r. \<not> passed r) results), sum_results = results\<rparr>])"
  using assms
  by (auto simp: report_def tally_counts Let_def say_markup_def split: if_splits option.splits)

section \<open>The results file\<close>

text \<open>
  C8. A run of \<open>run_tests\<close> writes nothing to the results file, or the directory
  \<open>/results\<close> exists and the run writes exactly one document, whose \<open>passed\<close> and \<open>failed\<close>
  are the numbers of results with \<open>passed\<close> true and false, so that
  \<open>passed + failed == len(results)\<close>.
\<close>

theorem summary_written_only_if_dir_and_consistent:
  "writes (snd (run_tests env w)) = writes w \<or>
   (results_dir_exists env \<and>
    (\<exists>s. writes (snd (run_tests env w)) = writes w @ [s] \<and>
         sum_passed s = length (filter passed (sum_results s)) \<and>
         sum_failed s = length (filter (\<lambda>r. \<not> passed r) (sum_results s)) \<and>
         sum_passed s + sum_failed s = length (sum_results s)))"
proof -
  obtain c w1 where c: "collect_results env w = (c, w1)"
    by (cases "collect_results env w")
  note f = collect_results_frame[OF c]
  show ?thesis
  proof (cases c)
    case (Inl ended)
    with c f show ?thesis by (simp add: run_tests_def)
  next
    case (Inr results)
    obtain r w2 where rep: "report env results w1 = (r, w2)"
      by (cases "report env results w1")
    with c Inr have run: "run_tests env w = (r, w2)" by (simp add: run_tests_def)
    have len: "length (filter passed results) + length (filter (\<lambda>r. \<not> passed r) results) = length results"
      by (rule sum_length_filter_compl)
    from report_frame(2)[OF rep] show ?thesis
    proof
      assume "writes w2 = writes w1"
      with f run show ?thesis by simp
    next
      assume a: "results_dir_exists env \<and> open_error env = None \<and>
        r = Returned (filter (\<lambda>r. \<not> passed r) results = []) \<and>
        writes w2 = writes w1 @
          [\<lparr>sum_passed = length (filter passed results),
            sum_failed = length (filter (\<lambda>r. \<not> passed r) results), sum_results = results\<rparr>]"
      with f run len show ?thesis by simp
    qed
  qed
qed


section \<open>The fan-out scenario in a run\<close>

lemma run_tests_sent:
  "sent (snd (run_tests env w)) = sent (snd (collect_results env w))"
proof (cases "collect_results env w")
  case (Pair c w1)
  show ?thesis
  proof (cases c)
    case (Inl ended)
    with Pair show ?thesis by (simp add: run_tests_def)
  next
    case (Inr results)
    have "sent (snd (report env results w1)) = sent w1"
      by (rule report_frame(1)[of env results w1 "fst (report env results w1)"]) simp
    with Pair Inr show ?thesis by (simp add: run_tests_def)
  qed
qed

text \<open>
  C9. When the gateway is ready and the agent ids are fetched, the requests of the fan-out
  scenario that a run makes are exactly two, to the first and the second id of the fetched
  list, when the list has at least two ids and the run comes to the parallel tests (no
  \<open>console.print\<close> of the ids or of an agent id raises before), and none otherwise, however
  many agents are registered. A run that ends before the scenarios makes none.
\<close>

theorem fanout_runs_on_first_two_agents:
  "(\<forall>w1 w2 agent_ids.
      wait_for_gateway env 60000 (say Banner w) = (Inr True, w1) \<and>
      fetch_agent_ids env w1 = (Inr agent_ids, w2) \<longrightarrow>
      filter is_fanout (sent (snd (run_tests env w))) =
        filter is_fanout (sent w) @
          (if 2 \<le> length agent_ids \<and> print_error env (AvailableAgents agent_ids) = None
              \<and> (\<forall>a\<in>set agent_ids. print_error env (TestingAgent a) = None)
           then [fanout_post (agent_ids ! 0), fanout_post (agent_ids ! 1)]
           else [])) \<and>
   ((\<exists>ended. fst (collect_results env w) = Inl ended) \<longrightarrow>
      filter is_fanout (sent (snd (run_tests env w))) = filter is_fanout (sent w))"
proof -
  obtain g wa where g: "wait_for_gateway env 60000 (say Banner w) = (g, wa)"
    by (cases "wait_for_gateway env 60000 (say Banner w)")
  from wait_for_gateway_frame(2)[OF g] obtain n where n: "sent wa = sent w @ replicate n (Get ''/health'')"
    by auto
  have gets: "filter is_fanout (replicate n (Get ''/health'')) = []"
    by (induction n) simp_all
  have wa: "filter is_fanout (sent wa) = filter is_fanout (sent w)"
    using n gets by simp
  obtain a wb where a: "fetch_agent_ids env wa = (a, wb)"
    by (cases "fetch_agent_ids env wa")
  have wb: "filter is_fanout (sent wb) = filter is_fanout (sent w)"
    using fetch_agent_ids_frame(3)[OF a] wa by simp
  have two: "map fanout_post (take 2 ids) = [fanout_post (ids ! 0), fanout_post (ids ! 1)]"
    if "2 \<le> length ids" for ids :: "json list"
  proof -
    from that obtain x y zs where "ids = x # y # zs"
      by (cases ids; cases "tl ids") auto
    then show ?thesis by simp
  qed
  have ready: "filter is_fanout (sent (snd (collect_results env w))) =
        filter is_fanout (sent w) @
          (if 2 \<le> length ids \<and> print_error env (AvailableAgents ids) = None
              \<and> (\<forall>a\<in>set ids. print_error env (TestingAgent a) = None)
           then [fanout_post (ids ! 0), fanout_post (ids ! 1)]
           else [])"
    and ended: "(\<exists>ended. fst (collect_results env w) = Inl ended) \<longrightarrow>
        filter is_fanout (sent (snd (collect_results env w))) = filter is_fanout (sent w)"
    if gT: "g = Inr True" and aI: "a = Inr ids" for ids
  proof -
    let ?W0 = "if ids = [] then say NoAgentsWarning wb else wb"
    let ?W = "say (AvailableAgents ids) ?W0"
    obtain r wc where sc: "all_scenarios env ids ?W = (r, wc)"
      by (cases "all_scenarios env ids ?W")
    note sf = all_scenarios_frame[OF sc]
    have W: "filter is_fanout (sent ?W) = filter is_fanout (sent w)" "filter is_fanout (sent ?W0) = filter is_fanout (sent w)"
      using wb by simp_all
    show "filter is_fanout (sent (snd (collect_results env w))) =
        filter is_fanout (sent w) @
          (if 2 \<le> length ids \<and> print_error env (AvailableAgents ids) = None
              \<and> (\<forall>a\<in>set ids. print_error env (TestingAgent a) = None)
           then [fanout_post (ids ! 0), fanout_post (ids ! 1)]
           else [])"
    proof (cases "print_error env (AvailableAgents ids)")
      case (Some e)
      from collect_results_print_raises[OF g[unfolded gT] a[unfolded aI] Some] W Some
      show ?thesis by simp
    next
      case None
      note c = collect_results_ready[OF g[unfolded gT] a[unfolded aI] None sc]
      show ?thesis
      proof (cases r)
        case (Inl e)
        with sf(3)[OF Inl] c W None show ?thesis by auto
      next
        case (Inr rs)
        with sf(2)[OF Inr] c W None two[of ids] show ?thesis by auto
      qed
    qed
    show "(\<exists>ended. fst (collect_results env w) = Inl ended) \<longrightarrow>
        filter is_fanout (sent (snd (collect_results env w))) = filter is_fanout (sent w)"
    proof (cases "print_error env (AvailableAgents ids)")
      case (Some e)
      from collect_results_print_raises[OF g[unfolded gT] a[unfolded aI] Some] W
      show ?thesis by simp
    next
      case None
      note c = collect_results_ready[OF g[unfolded gT] a[unfolded aI] None sc]
      show ?thesis
      proof (cases r)
        case (Inl e)
        with sf(3)[OF Inl] c W show ?thesis by auto
      next
        case (Inr rs)
        with c show ?thesis by auto
      qed
    qed
  qed
  have early: "filter is_fanout (sent (snd (collect_results env w))) = filter is_fanout (sent w)"
    if "g \<noteq> Inr True \<or> (\<exists>e. a = Inl e)"
    using that g a wa wb
    by (auto simp: collect_results_def split: sum.splits bool.splits)
  show ?thesis
  proof (intro conjI allI impI)
    fix w1 w2 agent_ids
    assume h: "wait_for_gateway env 60000 (say Banner w) = (Inr True, w1) \<and>
      fetch_agent_ids env w1 = (Inr agent_ids, w2)"
    with g a have "g = Inr True" "a = Inr agent_ids" by auto
    from ready[OF this]
    show "filter is_fanout (sent (snd (run_tests env w))) =
        filter is_fanout (sent w) @
          (if 2 \<le> length agent_ids \<and> print_error env (AvailableAgents agent_ids) = None
              \<and> (\<forall>a\<in>set agent_ids. print_error env (TestingAgent a) = None)
           then [fanout_post (agent_ids ! 0), fanout_post (agent_ids ! 1)]
           else [])"
      by (simp add: run_tests_sent)
  next
    assume e: "\<exists>ended. fst (collect_results env w) = Inl ended"
    show "filter is_fanout (sent (snd (run_tests env w))) = filter is_fanout (sent w)"
    proof (cases "g = Inr True \<and> (\<exists>ids. a = Inr ids)")
      case True
      then obtain ids where "g = Inr True" "a = Inr ids" by blast
      from ended[OF this] e show ?thesis by (simp add: run_tests_sent)
    next
      case False
      then have "g \<noteq> Inr True \<or> (\<exists>e. a = Inl e)" by (cases a) auto
      from early[OF this] show ?thesis by (simp add: run_tests_sent)
    qed
  qed
qed

text \<open>The prober on a gateway that is ready at the first probe, and the sample runs.\<close>

lemma gateway_loop_ready_at_once:
  assumes "int (now w) - int start < int max_wait"
    and "http env (Get ''/health'') (seq w) = (Inr resp, d)" and "status_code resp = 200"
  shows "gateway_loop env start max_wait w =
     (Inr True, say GatewayReady (w\<lparr>now := now w + d, seq := seq w + 1, sent := sent w @ [Get ''/health'']\<rparr>))"
  using assms by (subst gateway_loop.simps) (simp add: do_request_def)

lemma wait_for_gateway_sample:
  "wait_for_gateway (env_sample agents send) 60000 w =
     (Inr True, say GatewayReady ((say WaitingForGateway w)
        \<lparr>now := now w + 5, seq := seq w + 1, sent := sent w @ [Get ''/health'']\<rparr>))"
  unfolding wait_for_gateway_def Let_def
  by (subst gateway_loop_ready_at_once[where resp = "\<lparr>status_code = 200, text_of = ''ok''\<rparr>" and d = 5])
     (simp_all add: env_sample_def gateway_sample_def)

lemma fetch_agent_ids_good:
  "fetch_agent_ids env_good w =
     (Inr [JStr ''a'', JStr ''b'', JStr ''c''],
      w\<lparr>now := now w + 5, seq := seq w + 1, sent := sent w @ [Get ''/api/agents'']\<rparr>)"
  by (simp add: fetch_agent_ids_def do_request_def env_good_def env_sample_def gateway_sample_def
        three_agents_def loads_sample_def)

text \<open>With three agents \<open>a\<close>, \<open>b\<close>, \<open>c\<close> registered the fan-out goes to \<open>a\<close> and \<open>b\<close>.\<close>

theorem fanout_runs_on_first_two_agents_witness:
  "filter is_fanout (sent (snd (run_tests env_good world0))) =
     [fanout_post (JStr ''a''), fanout_post (JStr ''b'')]"
proof -
  have g: "wait_for_gateway env_good 60000 (say Banner world0) =
     (Inr True, say GatewayReady ((say WaitingForGateway (say Banner world0))
        \<lparr>now := now (say Banner world0) + 5, seq := seq (say Banner world0) + 1,
          sent := sent (say Banner world0) @ [Get ''/health'']\<rparr>))"
    unfolding env_good_def by (rule wait_for_gateway_sample)
  have p: "print_error env_good x = None" for x
    by (simp add: env_good_def env_sample_def)
  from fanout_runs_on_first_two_agents[of env_good world0] g fetch_agent_ids_good
  have "filter is_fanout (sent (snd (run_tests env_good world0))) =
        filter is_fanout (sent world0) @
          (if 2 \<le> length [JStr ''a'', JStr ''b'', JStr ''c'']
              \<and> print_error env_good (AvailableAgents [JStr ''a'', JStr ''b'', JStr ''c'']) = None
              \<and> (\<forall>a\<in>set [JStr ''a'', JStr ''b'', JStr ''c'']. print_error env_good (TestingAgent a) = None)
           then [fanout_post ([JStr ''a'', JStr ''b'', JStr ''c''] ! 0),
                 fanout_post ([JStr ''a'', JStr ''b'', JStr ''c''] ! 1)]
           else [])"
    by blast
  then show ?thesis by (simp add: world0_def p)
qed

section \<open>An exception from the first request for the agents\<close>

text \<open>
  C10. When the prober has found the gateway ready and the \<open>GET /api/agents\<close> of
  \<open>run_tests\<close> raises, the exception leaves \<open>run_tests\<close>: the run has made that request
  and nothing after it, no TestResult is produced, the console holds the banner and the
  lines of the prober only (no results table, no summary), nothing is written to the
  results file, and the exit code is 1.
\<close>

theorem unhandled_agent_fetch_exception:
  assumes "wait_for_gateway env 60000 (say Banner w) = (Inr True, w1)"
    and "http env (Get ''/api/agents'') (seq w1) = (Inl e, d)"
  shows "run_tests env w =
           (Raised e, w1\<lparr>now := now w1 + d, seq := seq w1 + 1, sent := sent w1 @ [Get ''/api/agents'']\<rparr>)
         \<and> produced_results env w = []
         \<and> fst (runner_main env w) = 1
         \<and> writes (snd (run_tests env w)) = writes w
         \<and> console (snd (run_tests env w)) = console w @ [Banner, WaitingForGateway, GatewayReady]"
proof -
  let ?w2 = "w1\<lparr>now := now w1 + d, seq := seq w1 + 1, sent := sent w1 @ [Get ''/api/agents'']\<rparr>"
  from assms(2) have f: "fetch_agent_ids env w1 = (Inl e, ?w2)"
    by (simp add: fetch_agent_ids_def do_request_def)
  with assms(1) have c: "collect_results env w = (Inl (Raised e), ?w2)"
    by (simp add: collect_results_def)
  then have run: "run_tests env w = (Raised e, ?w2)" by (simp add: run_tests_def)
  from wait_for_gateway_frame[OF assms(1)]
  have "writes w1 = writes w" "console w1 = console w @ [Banner, WaitingForGateway, GatewayReady]"
    by simp_all
  with run c show ?thesis
    by (simp add: produced_results_def runner_main_def exit_code_def)
qed

text \<open>The sample gateway whose agent list cannot be fetched.\<close>

theorem unhandled_agent_fetch_exception_witness:
  "fst (run_tests env_fetch_fails world0) = Raised (Exn HTTPError ''All connection attempts failed'')
   \<and> produced_results env_fetch_fails world0 = []
   \<and> fst (runner_main env_fetch_fails world0) = 1
   \<and> writes (snd (run_tests env_fetch_fails world0)) = []
   \<and> console (snd (run_tests env_fetch_fails world0)) = [Banner, WaitingForGateway, GatewayReady]"
proof -
  have g: "wait_for_gateway env_fetch_fails 60000 (say Banner world0) =
     (Inr True, say GatewayReady ((say WaitingForGateway (say Banner world0))
        \<lparr>now := now (say Banner world0) + 5, seq := seq (say Banner world0) + 1,
          sent := sent (say Banner world0) @ [Get ''/health'']\<rparr>))"
    unfolding env_fetch_fails_def by (rule wait_for_gateway_sample)
  have h: "http env_fetch_fails (Get ''/api/agents'')
      (seq (say GatewayReady ((say WaitingForGateway (say Banner world0))
        \<lparr>now := now (say Banner world0) + 5, seq := seq (say Banner world0) + 1,
          sent := sent (say Banner world0) @ [Get ''/health'']\<rparr>)))
      = (Inl (Exn HTTPError ''All connection attempts failed''), 5)"
    by (simp add: env_fetch_fails_def env_sample_def gateway_sample_def)
  from unhandled_agent_fetch_exception[OF g h] show ?thesis
    by (simp add: world0_def)
qed

section \<open>The readiness probers\<close>

lemma jprint_fields [simp]:
  "jnow (jprint x w) = jnow w" "conns (jprint x w) = conns w" "frames (jprint x w) = frames w"
  "printed (jprint x w) = printed w @ [x]"
  by (simp_all add: jprint_def)

lemma gateway_loop_result:
  "gateway_loop env start max_wait w = (r, w1) \<Longrightarrow>
     (r = Inr False \<longrightarrow> int max_wait \<le> int (now w1) - int start) \<and>
     (r = Inr True \<longrightarrow>
        (\<exists>resp d. http env (Get ''/health'') (seq w1 - 1) = (Inr resp, d) \<and> status_code resp = 200))"
proof (induction env start max_wait w rule: gateway_loop.induct)
  case (1 env start max_wait w)
  show ?case
  proof (cases "int (now w) - int start < int max_wait")
    case False
    with "1.prems" have "r = Inr False" "w1 = say GatewayNotReady w"
      by (auto simp: gateway_loop.simps[of env start max_wait w])
    with False show ?thesis by simp
  next
    case True
    obtain r0 w0 where rq: "do_request env (Get ''/health'') w = (r0, w0)"
      by (cases "do_request env (Get ''/health'') w")
    show ?thesis
    proof (cases r0)
      case (Inl e)
      with True rq "1.prems" have rec: "gateway_loop env start max_wait (sleep 1000 w0) = (r, w1)"
        by (simp add: gateway_loop.simps[of env start max_wait w])
      from "1.IH"(1)[OF True rq[symmetric] Inl rec] show ?thesis .
    next
      case (Inr resp)
      show ?thesis
      proof (cases "status_code resp = 200")
        case ok: True
        with True rq Inr "1.prems" have "r = Inr True" "w1 = say GatewayReady w0"
          by (auto simp: gateway_loop.simps[of env start max_wait w])
        moreover from rq Inr have "\<exists>d. http env (Get ''/health'') (seq w0 - 1) = (Inr resp, d)"
          by (auto simp: do_request_def split: prod.splits)
        ultimately show ?thesis using ok by auto
      next
        case False
        with True rq Inr "1.prems" have rec: "gateway_loop env start max_wait (sleep 1000 w0) = (r, w1)"
          by (simp add: gateway_loop.simps[of env start max_wait w])
        from "1.IH"(2)[OF True rq[symmetric] Inr False rec] show ?thesis .
      qed
    qed
  qed
qed

lemma jsleep_fields [simp]:
  "jnow (jsleep n w) = jnow w + n" "conns (jsleep n w) = conns w" "frames (jsleep n w) = frames w"
  "printed (jsleep n w) = printed w"
  by (simp_all add: jsleep_def)

lemma jconnect_fields:
  assumes "jconnect env url w = (r, w1)"
  shows "conns w1 = conns w + 1" "frames w1 = frames w" "printed w1 = printed w" "jnow w \<le> jnow w1"
    "\<And>e. r = Inl e \<Longrightarrow> \<exists>d. connect env url (conns w) = (Some e, d)"
    "\<And>c. r = Inr c \<Longrightarrow> c = conns w \<and> (\<exists>d. connect env url (conns w) = (None, d))"
  using assms by (auto simp: jconnect_def split: prod.splits option.splits)

lemma server_loop_result:
  "server_loop env url start timeout w = (r, w1) \<Longrightarrow>
     (\<forall>e. r = Inl e \<longrightarrow> \<not> is_OSError (cls e) \<and> (\<exists>d. connect env url (conns w1 - 1) = (Some e, d))) \<and>
     (r = Inr False \<longrightarrow> int timeout \<le> int (jnow w1) - int start) \<and>
     (r = Inr True \<longrightarrow> (\<exists>d. connect env url (conns w1 - 1) = (None, d)))"
proof (induction env url start timeout w rule: server_loop.induct)
  case (1 env url start timeout w)
  show ?case
  proof (cases "int (jnow w) - int start < int timeout")
    case False
    with "1.prems" have "r = Inr False" "w1 = w"
      by (auto simp: server_loop.simps[of env url start timeout w])
    with False show ?thesis by simp
  next
    case True
    obtain r0 w0 where c: "jconnect env url w = (r0, w0)"
      by (cases "jconnect env url w")
    note f = jconnect_fields[OF c]
    show ?thesis
    proof (cases r0)
      case (Inr k)
      with True c "1.prems" have "r = Inr True" "w1 = w0"
        by (auto simp: server_loop.simps[of env url start timeout w])
      with f(1) f(6)[OF Inr] show ?thesis by auto
    next
      case (Inl e)
      show ?thesis
      proof (cases "is_OSError (cls e)")
        case caught: True
        with True c Inl "1.prems" have rec: "server_loop env url start timeout (jsleep 200 w0) = (r, w1)"
          by (simp add: server_loop.simps[of env url start timeout w])
        from "1.IH"[OF True c[symmetric] Inl caught rec] show ?thesis .
      next
        case False
        with True c Inl "1.prems" have "r = Inl e" "w1 = w0"
          by (auto simp: server_loop.simps[of env url start timeout w])
        with False f(1) f(5)[OF Inl] show ?thesis by auto
      qed
    qed
  qed
qed

text \<open>One round of each loop: the deadline has passed, or the probe decides, or the probe
  fails and the loop sleeps and goes on.\<close>

lemma gateway_loop_retry:
  assumes "int (now w) - int start < int max_wait"
    and "http env (Get ''/health'') (seq w) = (Inl e, d)"
  shows "gateway_loop env start max_wait w =
     gateway_loop env start max_wait
       (sleep 1000 (w\<lparr>now := now w + d, seq := seq w + 1, sent := sent w @ [Get ''/health'']\<rparr>))"
  using assms by (subst gateway_loop.simps) (simp add: do_request_def)

lemma gateway_loop_deadline:
  assumes "\<not> int (now w) - int start < int max_wait"
  shows "gateway_loop env start max_wait w = (Inr False, say GatewayNotReady w)"
  using assms by (subst gateway_loop.simps) simp

lemma gateway_loop_not_ready:
  assumes "int (now w) - int start < int max_wait" and "\<not> health_ok env (seq w)"
  shows "gateway_loop env start max_wait w =
     gateway_loop env start max_wait
       (w\<lparr>now := now w + snd (http env (Get ''/health'') (seq w)) + 1000, seq := seq w + 1,
          sent := sent w @ [Get ''/health'']\<rparr>)"
proof -
  obtain r d where h: "http env (Get ''/health'') (seq w) = (r, d)"
    by (cases "http env (Get ''/health'') (seq w)")
  let ?w1 = "w\<lparr>now := now w + d, seq := seq w + 1, sent := sent w @ [Get ''/health'']\<rparr>"
  have rq: "do_request env (Get ''/health'') w = (r, ?w1)"
    using h by (simp add: do_request_def)
  have "gateway_loop env start max_wait w = gateway_loop env start max_wait (sleep 1000 ?w1)"
    using assms h rq
    by (subst gateway_loop.simps) (auto simp: health_ok_def split: sum.splits)
  also have "sleep 1000 ?w1 =
      w\<lparr>now := now w + snd (http env (Get ''/health'') (seq w)) + 1000, seq := seq w + 1,
        sent := sent w @ [Get ''/health'']\<rparr>"
    using h by (simp add: sleep_def)
  finally show ?thesis .
qed

lemma gateway_loop_ready:
  assumes "int (now w) - int start < int max_wait" and "health_ok env (seq w)"
  shows "fst (gateway_loop env start max_wait w) = Inr True"
    "seq (snd (gateway_loop env start max_wait w)) = seq w + 1"
  using assms
  by (subst gateway_loop.simps,
      auto simp: do_request_def health_ok_def say_def split: prod.splits sum.splits)+

lemma server_loop_retry:
  assumes "int (jnow w) - int start < int timeout"
    and "connect env url (conns w) = (Some e, d)" and "is_OSError (cls e)"
  shows "server_loop env url start timeout w =
     server_loop env url start timeout (jsleep 200 (w\<lparr>jnow := jnow w + d, conns := conns w + 1\<rparr>))"
  using assms by (subst server_loop.simps) (simp add: jconnect_def)

lemma server_loop_raises:
  assumes "int (jnow w) - int start < int timeout"
    and "connect env url (conns w) = (Some e, d)" and "\<not> is_OSError (cls e)"
  shows "server_loop env url start timeout w = (Inl e, w\<lparr>jnow := jnow w + d, conns := conns w + 1\<rparr>)"
  using assms by (subst server_loop.simps) (simp add: jconnect_def)

lemma server_loop_connects_at_once:
  assumes "int (jnow w) - int start < int timeout" and "connect env url (conns w) = (None, d)"
  shows "server_loop env url start timeout w = (Inr True, w\<lparr>jnow := jnow w + d, conns := conns w + 1\<rparr>)"
  using assms by (subst server_loop.simps) (simp add: jconnect_def)

lemma server_loop_deadline:
  assumes "\<not> int (jnow w) - int start < int timeout"
  shows "server_loop env url start timeout w = (Inr False, w)"
  using assms by (subst server_loop.simps) simp

lemma server_loop_refused:
  assumes "int (jnow w) - int start < int timeout" and "refused env url (conns w)"
  shows "server_loop env url start timeout w =
     server_loop env url start timeout
       (w\<lparr>jnow := jnow w + snd (connect env url (conns w)) + 200, conns := conns w + 1\<rparr>)"
proof -
  from assms(2) obtain e d where h: "connect env url (conns w) = (Some e, d)" "is_OSError (cls e)"
    by (cases "connect env url (conns w)") (auto simp: refused_def split: option.splits)
  let ?w1 = "w\<lparr>jnow := jnow w + d, conns := conns w + 1\<rparr>"
  have "server_loop env url start timeout w = server_loop env url start timeout (jsleep 200 ?w1)"
    by (rule server_loop_retry[OF assms(1) h])
  also have "jsleep 200 ?w1 =
      w\<lparr>jnow := jnow w + snd (connect env url (conns w)) + 200, conns := conns w + 1\<rparr>"
    using h by (simp add: jsleep_def)
  finally show ?thesis .
qed

text \<open>The time of the probes, and \<open>n\<close> failed probes in a row before the deadline.\<close>

lemma spent_mono: "m \<le> n \<Longrightarrow> spent d pause k m \<le> spent d pause k n"
proof (induction m arbitrary: k n)
  case 0
  show ?case by simp
next
  case (Suc m)
  then obtain n' where "n = Suc n'" "m \<le> n'" by (cases n) auto
  with Suc.IH[of n' "Suc k"] show ?case by simp
qed

lemma gateway_loop_advance:
  assumes "\<forall>i<n. \<not> health_ok env (seq w + i)"
    and "\<forall>m<n. int (now w) + int (spent (\<lambda>k. snd (http env (Get ''/health'') k)) 1000 (seq w) m) - int start
           < int max_wait"
  shows "gateway_loop env start max_wait w =
     gateway_loop env start max_wait
       (w\<lparr>now := now w + spent (\<lambda>k. snd (http env (Get ''/health'') k)) 1000 (seq w) n,
          seq := seq w + n, sent := sent w @ replicate n (Get ''/health'')\<rparr>)"
  using assms
proof (induction n arbitrary: w)
  case 0
  show ?case by simp
next
  case (Suc n)
  let ?D = "\<lambda>k. snd (http env (Get ''/health'') k)"
  let ?w' = "w\<lparr>now := now w + ?D (seq w) + 1000, seq := seq w + 1, sent := sent w @ [Get ''/health'']\<rparr>"
  from Suc.prems(1) have bad: "\<not> health_ok env (seq w)" by (metis add.right_neutral zero_less_Suc)
  from Suc.prems(2)[rule_format, of 0] have live: "int (now w) - int start < int max_wait" by simp
  have 1: "\<forall>i<n. \<not> health_ok env (seq ?w' + i)"
    using Suc.prems(1) by (auto dest: spec[of _ "Suc i" for i])
  have 2: "\<forall>m<n. int (now ?w') + int (spent ?D 1000 (seq ?w') m) - int start < int max_wait"
  proof (intro allI impI)
    fix m assume "m < n"
    then have "Suc m < Suc n" by simp
    from Suc.prems(2)[rule_format, OF this] show
      "int (now ?w') + int (spent ?D 1000 (seq ?w') m) - int start < int max_wait"
      by simp
  qed
  have "gateway_loop env start max_wait w = gateway_loop env start max_wait ?w'"
    by (rule gateway_loop_not_ready[OF live bad])
  also have "\<dots> = gateway_loop env start max_wait
       (?w'\<lparr>now := now ?w' + spent ?D 1000 (seq ?w') n,
          seq := seq ?w' + n, sent := sent ?w' @ replicate n (Get ''/health'')\<rparr>)"
    by (rule Suc.IH[OF 1 2])
  also have "(?w'\<lparr>now := now ?w' + spent ?D 1000 (seq ?w') n,
          seq := seq ?w' + n, sent := sent ?w' @ replicate n (Get ''/health'')\<rparr>) =
      (w\<lparr>now := now w + spent ?D 1000 (seq w) (Suc n),
          seq := seq w + Suc n, sent := sent w @ replicate (Suc n) (Get ''/health'')\<rparr>)"
    by (simp add: replicate_app_Cons_same)
  finally show ?case .
qed

lemma server_loop_advance:
  assumes "\<forall>i<n. refused env url (conns w + i)"
    and "\<forall>m<n. int (jnow w) + int (spent (\<lambda>k. snd (connect env url k)) 200 (conns w) m) - int start
           < int timeout"
  shows "server_loop env url start timeout w =
     server_loop env url start timeout
       (w\<lparr>jnow := jnow w + spent (\<lambda>k. snd (connect env url k)) 200 (conns w) n,
          conns := conns w + n\<rparr>)"
  using assms
proof (induction n arbitrary: w)
  case 0
  show ?case by simp
next
  case (Suc n)
  let ?D = "\<lambda>k. snd (connect env url k)"
  let ?w' = "w\<lparr>jnow := jnow w + ?D (conns w) + 200, conns := conns w + 1\<rparr>"
  from Suc.prems(1) have bad: "refused env url (conns w)" by (metis add.right_neutral zero_less_Suc)
  from Suc.prems(2)[rule_format, of 0] have live: "int (jnow w) - int start < int timeout" by simp
  have 1: "\<forall>i<n. refused env url (conns ?w' + i)"
    using Suc.prems(1) by (auto dest: spec[of _ "Suc i" for i])
  have 2: "\<forall>m<n. int (jnow ?w') + int (spent ?D 200 (conns ?w') m) - int start < int timeout"
  proof (intro allI impI)
    fix m assume "m < n"
    then have "Suc m < Suc n" by simp
    from Suc.prems(2)[rule_format, OF this] show
      "int (jnow ?w') + int (spent ?D 200 (conns ?w') m) - int start < int timeout"
      by simp
  qed
  have "server_loop env url start timeout w = server_loop env url start timeout ?w'"
    by (rule server_loop_refused[OF live bad])
  also have "\<dots> = server_loop env url start timeout
       (?w'\<lparr>jnow := jnow ?w' + spent ?D 200 (conns ?w') n, conns := conns ?w' + n\<rparr>)"
    by (rule Suc.IH[OF 1 2])
  also have "(?w'\<lparr>jnow := jnow ?w' + spent ?D 200 (conns ?w') n, conns := conns ?w' + n\<rparr>) =
      (w\<lparr>jnow := jnow w + spent ?D 200 (conns w) (Suc n), conns := conns w + Suc n\<rparr>)"
    by simp
  finally show ?case .
qed

text \<open>
  C4, as the code has it. \<open>wait_for_gateway\<close> returns a bool for every gateway and
  deadline: every exception of a probe is swallowed; it returns False only when the
  deadline has passed and True only after a probe answered 200. It goes on probing: after
  \<open>n\<close> probes that raised or answered another status, each followed by a sleep of one
  second, it returns True when the deadline has not passed and the next probe answers 200,
  and False when the deadline has passed. \<open>wait_for_server\<close> swallows the exceptions of the
  \<open>OSError\<close> family only: an exception it lets out is one that \<open>websockets.connect\<close>
  raised and that is no \<open>OSError\<close>; when every exception of \<open>connect\<close> is an \<open>OSError\<close> it
  returns a bool, False only when the deadline has passed and True only after a connection
  was opened. After \<open>n\<close> refused probes, each followed by a sleep of 0.2 seconds, with the
  deadline not passed, it returns True when the next connection opens and raises the
  exception of the next connection when that is no \<open>OSError\<close>; it returns False when the
  deadline has passed.
\<close>

theorem probers_swallow_connection_failures:
  "(\<exists>b. fst (wait_for_gateway env max_wait w) = Inr b)
   \<and> (fst (wait_for_gateway env max_wait w) = Inr False \<longrightarrow>
        now w + max_wait \<le> now (snd (wait_for_gateway env max_wait w)))
   \<and> (fst (wait_for_gateway env max_wait w) = Inr True \<longrightarrow>
        (\<exists>n resp d. http env (Get ''/health'') n = (Inr resp, d) \<and> status_code resp = 200))
   \<and> (\<forall>n. (\<forall>i<n. \<not> health_ok env (seq w + i))
          \<and> spent (\<lambda>k. snd (http env (Get ''/health'') k)) 1000 (seq w) n < max_wait
          \<and> health_ok env (seq w + n) \<longrightarrow>
        fst (wait_for_gateway env max_wait w) = Inr True
        \<and> seq (snd (wait_for_gateway env max_wait w)) = seq w + n + 1)
   \<and> (\<forall>n. (\<forall>i<n. \<not> health_ok env (seq w + i))
          \<and> (\<forall>m<n. spent (\<lambda>k. snd (http env (Get ''/health'') k)) 1000 (seq w) m < max_wait)
          \<and> max_wait \<le> spent (\<lambda>k. snd (http env (Get ''/health'') k)) 1000 (seq w) n \<longrightarrow>
        fst (wait_for_gateway env max_wait w) = Inr False
        \<and> seq (snd (wait_for_gateway env max_wait w)) = seq w + n)
   \<and> (\<forall>e. fst (wait_for_server jenv url timeout jw) = Inl e \<longrightarrow>
          \<not> is_OSError (cls e) \<and> (\<exists>k d. connect jenv url k = (Some e, d)))
   \<and> ((\<forall>k e d. connect jenv url k = (Some e, d) \<longrightarrow> is_OSError (cls e)) \<longrightarrow>
        (\<exists>b. fst (wait_for_server jenv url timeout jw) = Inr b))
   \<and> (fst (wait_for_server jenv url timeout jw) = Inr False \<longrightarrow>
        jnow jw + timeout \<le> jnow (snd (wait_for_server jenv url timeout jw)))
   \<and> (fst (wait_for_server jenv url timeout jw) = Inr True \<longrightarrow>
        (\<exists>k d. connect jenv url k = (None, d)))
   \<and> (\<forall>n. (\<forall>i<n. refused jenv url (conns jw + i))
          \<and> spent (\<lambda>k. snd (connect jenv url k)) 200 (conns jw) n < timeout \<longrightarrow>
        (fst (connect jenv url (conns jw + n)) = None \<longrightarrow>
           fst (wait_for_server jenv url timeout jw) = Inr True
           \<and> conns (snd (wait_for_server jenv url timeout jw)) = conns jw + n + 1)
        \<and> (\<forall>e. fst (connect jenv url (conns jw + n)) = Some e \<and> \<not> is_OSError (cls e) \<longrightarrow>
              fst (wait_for_server jenv url timeout jw) = Inl e))
   \<and> (\<forall>n. (\<forall>i<n. refused jenv url (conns jw + i))
          \<and> (\<forall>m<n. spent (\<lambda>k. snd (connect jenv url k)) 200 (conns jw) m < timeout)
          \<and> timeout \<le> spent (\<lambda>k. snd (connect jenv url k)) 200 (conns jw) n \<longrightarrow>
        fst (wait_for_server jenv url timeout jw) = Inr False
        \<and> conns (snd (wait_for_server jenv url timeout jw)) = conns jw + n)"
proof -
  let ?Dg = "\<lambda>k. snd (http env (Get ''/health'') k)"
  let ?Dj = "\<lambda>k. snd (connect jenv url k)"
  let ?w0 = "say WaitingForGateway w"
  obtain g w1 where g: "wait_for_gateway env max_wait w = (g, w1)"
    by (cases "wait_for_gateway env max_wait w")
  have wg: "wait_for_gateway env max_wait w = gateway_loop env (now w) max_wait ?w0"
    by (simp add: wait_for_gateway_def Let_def)
  with g have gl: "gateway_loop env (now w) max_wait ?w0 = (g, w1)" by simp
  obtain s jw1 where s: "wait_for_server jenv url timeout jw = (s, jw1)"
    by (cases "wait_for_server jenv url timeout jw")
  have ws: "wait_for_server jenv url timeout jw = server_loop jenv url (jnow jw) timeout jw"
    by (simp add: wait_for_server_def)
  with s have sl: "server_loop jenv url (jnow jw) timeout jw = (s, jw1)" by simp
  have 1: "\<exists>b. g = Inr b" using wait_for_gateway_frame(3)[OF g] by auto
  note gr = gateway_loop_result[OF gl]
  note sr = server_loop_result[OF sl]
  have 2: "g = Inr False \<longrightarrow> now w + max_wait \<le> now w1" using gr by auto
  have 3: "g = Inr True \<longrightarrow> (\<exists>n resp d. http env (Get ''/health'') n = (Inr resp, d) \<and> status_code resp = 200)"
    using gr by blast
  have adv_g: "gateway_loop env (now w) max_wait ?w0 =
      gateway_loop env (now w) max_wait
        (?w0\<lparr>now := now w + spent ?Dg 1000 (seq w) n, seq := seq w + n,
              sent := sent ?w0 @ replicate n (Get ''/health'')\<rparr>)"
    if "\<forall>i<n. \<not> health_ok env (seq w + i)" and "\<forall>m<n. spent ?Dg 1000 (seq w) m < max_wait" for n
    using gateway_loop_advance[of n env ?w0 "now w" max_wait] that by simp
  have 4: "g = Inr True \<and> seq w1 = seq w + n + 1"
    if h: "(\<forall>i<n. \<not> health_ok env (seq w + i)) \<and> spent ?Dg 1000 (seq w) n < max_wait
          \<and> health_ok env (seq w + n)" for n
  proof -
    have "\<forall>m<n. spent ?Dg 1000 (seq w) m < max_wait"
      using h spent_mono[of _ n ?Dg 1000 "seq w"] by (meson le_less_trans less_imp_le_nat)
    with h have a: "gateway_loop env (now w) max_wait ?w0 =
      gateway_loop env (now w) max_wait
        (?w0\<lparr>now := now w + spent ?Dg 1000 (seq w) n, seq := seq w + n,
              sent := sent ?w0 @ replicate n (Get ''/health'')\<rparr>)"
      by (intro adv_g) auto
    from h show ?thesis
      using gl gateway_loop_ready[of "?w0\<lparr>now := now w + spent ?Dg 1000 (seq w) n, seq := seq w + n,
              sent := sent ?w0 @ replicate n (Get ''/health'')\<rparr>" "now w" max_wait env]
      unfolding a by simp
  qed
  have 5: "g = Inr False \<and> seq w1 = seq w + n"
    if h: "(\<forall>i<n. \<not> health_ok env (seq w + i))
          \<and> (\<forall>m<n. spent ?Dg 1000 (seq w) m < max_wait)
          \<and> max_wait \<le> spent ?Dg 1000 (seq w) n" for n
  proof -
    from h have a: "gateway_loop env (now w) max_wait ?w0 =
      gateway_loop env (now w) max_wait
        (?w0\<lparr>now := now w + spent ?Dg 1000 (seq w) n, seq := seq w + n,
              sent := sent ?w0 @ replicate n (Get ''/health'')\<rparr>)"
      by (intro adv_g) auto
    from h show ?thesis
      using gl gateway_loop_deadline[of "?w0\<lparr>now := now w + spent ?Dg 1000 (seq w) n, seq := seq w + n,
              sent := sent ?w0 @ replicate n (Get ''/health'')\<rparr>" "now w" max_wait env]
      unfolding a by auto
  qed
  have 6: "\<forall>e. s = Inl e \<longrightarrow> \<not> is_OSError (cls e) \<and> (\<exists>k d. connect jenv url k = (Some e, d))"
    using sr by blast
  have 7: "(\<forall>k e d. connect jenv url k = (Some e, d) \<longrightarrow> is_OSError (cls e)) \<longrightarrow> (\<exists>b. s = Inr b)"
    using 6 by (cases s) auto
  have 8: "s = Inr False \<longrightarrow> jnow jw + timeout \<le> jnow jw1" using sr by auto
  have 9: "s = Inr True \<longrightarrow> (\<exists>k d. connect jenv url k = (None, d))" using sr by blast
  have adv_s: "server_loop jenv url (jnow jw) timeout jw =
      server_loop jenv url (jnow jw) timeout
        (jw\<lparr>jnow := jnow jw + spent ?Dj 200 (conns jw) n, conns := conns jw + n\<rparr>)"
    if "\<forall>i<n. refused jenv url (conns jw + i)" and "\<forall>m<n. spent ?Dj 200 (conns jw) m < timeout" for n
    using server_loop_advance[of n jenv url jw "jnow jw" timeout] that by simp
  have 10: "(fst (connect jenv url (conns jw + n)) = None \<longrightarrow> s = Inr True \<and> conns jw1 = conns jw + n + 1)
        \<and> (\<forall>e. fst (connect jenv url (conns jw + n)) = Some e \<and> \<not> is_OSError (cls e) \<longrightarrow> s = Inl e)"
    if h: "(\<forall>i<n. refused jenv url (conns jw + i)) \<and> spent ?Dj 200 (conns jw) n < timeout" for n
  proof -
    let ?W = "jw\<lparr>jnow := jnow jw + spent ?Dj 200 (conns jw) n, conns := conns jw + n\<rparr>"
    have "\<forall>m<n. spent ?Dj 200 (conns jw) m < timeout"
      using h spent_mono[of _ n ?Dj 200 "conns jw"] by (meson le_less_trans less_imp_le_nat)
    with h have a: "server_loop jenv url (jnow jw) timeout jw = server_loop jenv url (jnow jw) timeout ?W"
      by (intro adv_s) auto
    have live: "int (jnow ?W) - int (jnow jw) < int timeout" using h by simp
    obtain c d where c: "connect jenv url (conns jw + n) = (c, d)"
      by (cases "connect jenv url (conns jw + n)")
    show ?thesis
    proof (cases c)
      case None
      with c have "connect jenv url (conns ?W) = (None, d)" by simp
      from server_loop_connects_at_once[OF live this] sl c None show ?thesis
        unfolding a by auto
    next
      case (Some e)
      show ?thesis
      proof (cases "is_OSError (cls e)")
        case True
        with c Some show ?thesis by simp
      next
        case False
        from c Some have "connect jenv url (conns ?W) = (Some e, d)" by simp
        from server_loop_raises[OF live this False] sl c Some show ?thesis
          unfolding a by auto
      qed
    qed
  qed
  have 11: "s = Inr False \<and> conns jw1 = conns jw + n"
    if h: "(\<forall>i<n. refused jenv url (conns jw + i))
          \<and> (\<forall>m<n. spent ?Dj 200 (conns jw) m < timeout)
          \<and> timeout \<le> spent ?Dj 200 (conns jw) n" for n
  proof -
    let ?W = "jw\<lparr>jnow := jnow jw + spent ?Dj 200 (conns jw) n, conns := conns jw + n\<rparr>"
    from h have a: "server_loop jenv url (jnow jw) timeout jw = server_loop jenv url (jnow jw) timeout ?W"
      by (intro adv_s) auto
    have "\<not> int (jnow ?W) - int (jnow jw) < int timeout" using h by simp
    from server_loop_deadline[OF this] sl show ?thesis
      unfolding a by auto
  qed
  from 1 2 3 4 5 6 7 8 9 10 11 show ?thesis unfolding g s fst_conv snd_conv by blast
qed

text \<open>The sample runs: a gateway that is down, a server that refuses the first
  connection, a server that refuses it and then rejects the handshake.\<close>

lemma wait_for_gateway_down:
  "wait_for_gateway env_down 2000 world0 =
     (Inr False,
      \<lparr>now = 2002, seq = 2, sent = [Get ''/health'', Get ''/health''],
       console = [WaitingForGateway, GatewayNotReady], writes = []\<rparr>)"
  unfolding wait_for_gateway_def Let_def
  apply (subst gateway_loop_retry[where d = 1 and e = "Exn HTTPError ''All connection attempts failed''"])
    apply (simp_all add: env_down_def world0_def say_def)
  apply (subst gateway_loop_retry[where d = 1 and e = "Exn HTTPError ''All connection attempts failed''"])
    apply (simp_all add: sleep_def)
  apply (subst gateway_loop_deadline)
   apply (simp_all add: say_def)
  done

lemma wait_for_server_refused_once:
  "wait_for_server (jail_sample (refuses 0) replies_error) JAIL_URL 10000 jworld0 =
     (Inr True, \<lparr>jnow = 206, conns = 2, frames = [], printed = []\<rparr>)"
  unfolding wait_for_server_def
  apply (subst server_loop_retry[where d = 3 and e = "Exn ConnectionRefusedError ''[Errno 111] Connection refused''"])
     apply (simp_all add: jail_sample_def refuses_def jworld0_def)
  apply (subst server_loop_connects_at_once[where d = 3])
    apply (simp_all add: jsleep_def)
  done

text \<open>A gateway that is down for two seconds gives False after two probes; the sample
  gateway gives True at once; a server that refuses once gives True at the second probe;
  a server that refuses once and then rejects the handshake makes the prober raise at the
  second probe.\<close>

theorem probers_swallow_connection_failures_witness:
  "fst (wait_for_gateway env_down 2000 world0) = Inr False
   \<and> seq (snd (wait_for_gateway env_down 2000 world0)) = 2
   \<and> fst (wait_for_gateway env_good 60000 world0) = Inr True
   \<and> fst (wait_for_server (jail_sample (refuses 0) replies_error) JAIL_URL 10000 jworld0) = Inr True
   \<and> conns (snd (wait_for_server (jail_sample (refuses 0) replies_error) JAIL_URL 10000 jworld0)) = 2
   \<and> fst (wait_for_server (jail_sample refuses_then_rejects replies_error) JAIL_URL 10000 jworld0) =
       Inl (Exn InvalidHandshake ''server rejected WebSocket connection: HTTP 404'')"
proof -
  note t1 = probers_swallow_connection_failures[of env_down 2000 world0
      "jail_sample (refuses 0) replies_error" JAIL_URL 10000 jworld0]
  note t2 = probers_swallow_connection_failures[of env_good 60000 world0
      "jail_sample refuses_then_rejects replies_error" JAIL_URL 10000 jworld0]
  have down: "\<not> health_ok env_down k" "snd (http env_down (Get ''/health'') k) = 1" for k
    by (simp_all add: health_ok_def env_down_def)
  have good: "health_ok env_good k" for k
    by (simp add: health_ok_def env_good_def env_sample_def gateway_sample_def)
  have sp: "spent (\<lambda>k. 1) 1000 k 0 = 0" "spent (\<lambda>k. 1) 1000 k (Suc 0) = 1001"
    "spent (\<lambda>k. 1) 1000 k (Suc (Suc 0)) = 2002" for k
    by simp_all
  have "(\<forall>i<Suc (Suc 0). \<not> health_ok env_down (seq world0 + i))
      \<and> (\<forall>m<Suc (Suc 0). spent (\<lambda>k. snd (http env_down (Get ''/health'') k)) 1000 (seq world0) m < 2000)
      \<and> 2000 \<le> spent (\<lambda>k. snd (http env_down (Get ''/health'') k)) 1000 (seq world0) (Suc (Suc 0))"
    by (auto simp: down sp less_Suc_eq)
  with t1 have a: "fst (wait_for_gateway env_down 2000 world0) = Inr False
      \<and> seq (snd (wait_for_gateway env_down 2000 world0)) = seq world0 + Suc (Suc 0)"
    by blast
  have "(\<forall>i<0. \<not> health_ok env_good (seq world0 + i))
      \<and> spent (\<lambda>k. snd (http env_good (Get ''/health'') k)) 1000 (seq world0) 0 < 60000
      \<and> health_ok env_good (seq world0 + 0)"
    by (simp add: good)
  with t2 have b: "fst (wait_for_gateway env_good 60000 world0) = Inr True"
    by blast
  have r0: "refused (jail_sample (refuses 0) recv) JAIL_URL 0"
    "refused (jail_sample refuses_then_rejects recv) JAIL_URL 0" for recv
    by (simp_all add: refused_def jail_sample_def refuses_def refuses_then_rejects_def)
  have d: "snd (connect (jail_sample conn recv) url k) = 3" for conn recv url k
    by (simp add: jail_sample_def)
  have spj: "spent (\<lambda>k. 3) 200 k (Suc 0) = 203" for k by simp
  have h1: "(\<forall>i<Suc 0. refused (jail_sample (refuses 0) replies_error) JAIL_URL (conns jworld0 + i))
      \<and> spent (\<lambda>k. snd (connect (jail_sample (refuses 0) replies_error) JAIL_URL k)) 200 (conns jworld0) (Suc 0)
          < 10000"
    by (simp add: r0 d spj jworld0_def)
  have c1: "fst (connect (jail_sample (refuses 0) replies_error) JAIL_URL (conns jworld0 + Suc 0)) = None"
    by (simp add: jail_sample_def refuses_def)
  from t1 h1 c1 have c: "fst (wait_for_server (jail_sample (refuses 0) replies_error) JAIL_URL 10000 jworld0) = Inr True
      \<and> conns (snd (wait_for_server (jail_sample (refuses 0) replies_error) JAIL_URL 10000 jworld0))
          = conns jworld0 + Suc 0 + 1"
    by blast
  have h2: "(\<forall>i<Suc 0. refused (jail_sample refuses_then_rejects replies_error) JAIL_URL (conns jworld0 + i))
      \<and> spent (\<lambda>k. snd (connect (jail_sample refuses_then_rejects replies_error) JAIL_URL k)) 200
           (conns jworld0) (Suc 0) < 10000"
    by (simp add: r0 d spj jworld0_def)
  have c2: "fst (connect (jail_sample refuses_then_rejects replies_error) JAIL_URL (conns jworld0 + Suc 0)) =
        Some (Exn InvalidHandshake ''server rejected WebSocket connection: HTTP 404'')
      \<and> \<not> is_OSError (cls (Exn InvalidHandshake ''server rejected WebSocket connection: HTTP 404''))"
    by (simp add: jail_sample_def refuses_then_rejects_def)
  from t2 h2 c2 have e: "fst (wait_for_server (jail_sample refuses_then_rejects replies_error) JAIL_URL 10000 jworld0) =
       Inl (Exn InvalidHandshake ''server rejected WebSocket connection: HTTP 404'')"
    by blast
  from a b c e show ?thesis by (simp add: world0_def jworld0_def)
qed

text \<open>
  C4 as stated fails: the port answers the handshake with HTTP 404,
  \<open>websockets.connect\<close> raises \<open>InvalidHandshake\<close>, which is no \<open>OSError\<close>, and
  \<open>wait_for_server\<close> raises it.
\<close>

theorem wait_for_server_raises_on_rejected_handshake:
  "fst (wait_for_server (jail_sample rejects_handshake replies_error) JAIL_URL 10000 jworld0) =
     Inl (Exn InvalidHandshake ''server rejected WebSocket connection: HTTP 404'')"
  unfolding wait_for_server_def
  by (subst server_loop_raises[where d = 3
        and e = "Exn InvalidHandshake ''server rejected WebSocket connection: HTTP 404''"])
     (simp_all add: jail_sample_def rejects_handshake_def jworld0_def)

section \<open>The exit code\<close>

lemma run_tests_ended:
  "collect_results env w = (Inl ended, w1) \<Longrightarrow> ended = SysExit 1 \<or> (\<exists>e. ended = Raised e)"
  by (auto simp: collect_results_def split: prod.splits sum.splits bool.splits option.splits)

lemma collect_results_reached:
  assumes "collect_results env w = (Inr results, w3)"
  shows "\<exists>w1 ids w2.
     wait_for_gateway env 60000 (say Banner w) = (Inr True, w1)
     \<and> fetch_agent_ids env w1 = (Inr ids, w2)
     \<and> print_error env (AvailableAgents ids) = None
     \<and> all_scenarios env ids
          (say (AvailableAgents ids) (if ids = [] then say NoAgentsWarning w2 else w2)) = (Inr results, w3)"
proof -
  obtain g wa where g: "wait_for_gateway env 60000 (say Banner w) = (g, wa)"
    by (cases "wait_for_gateway env 60000 (say Banner w)")
  obtain a wb where a: "fetch_agent_ids env wa = (a, wb)"
    by (cases "fetch_agent_ids env wa")
  from assms g have gT: "g = Inr True"
    by (cases g) (auto simp: collect_results_def split: bool.splits)
  from assms g gT a obtain ids where ids: "a = Inr ids"
    by (cases a) (auto simp: collect_results_def)
  let ?W0 = "if ids = [] then say NoAgentsWarning wb else wb"
  from assms g gT a ids have p: "print_error env (AvailableAgents ids) = None"
    by (cases "print_error env (AvailableAgents ids)") (auto simp: collect_results_def say_markup_def)
  obtain r wc where sc: "all_scenarios env ids (say (AvailableAgents ids) ?W0) = (r, wc)"
    by (cases "all_scenarios env ids (say (AvailableAgents ids) ?W0)")
  from collect_results_ready[OF g[unfolded gT] a[unfolded ids] p sc] assms
  have "r = Inr results" "wc = w3" by (cases r; simp)+
  with g gT a ids p sc show ?thesis by blast
qed

lemma report_end:
  "fst (report env results w) =
     (case print_error env (ResultsTable (map table_row results)) of
        Some e \<Rightarrow> Raised e
      | None \<Rightarrow>
          if results_dir_exists env then
            (case open_error env of Some e \<Rightarrow> Raised e | None \<Rightarrow> Returned (failed_count results = 0))
          else Returned (failed_count results = 0))"
  by (simp add: report_def tally_counts failed_count_def Let_def say_markup_def split: option.splits)

lemma four_scenarios_pass:
  "(\<exists>u w5. four_scenarios jenv w = (Inr u, w5)) =
     (\<exists>u1 w2 v w3 u3 w4 u4 w5.
        test_connection jenv w = (Inr u1, w2)
        \<and> test_query_message_protocol jenv w2 = (Inr v, w3)
        \<and> test_close_session jenv w3 = (Inr u3, w4)
        \<and> test_invalid_message jenv w4 = (Inr u4, w5))"
proof -
  obtain a w2 where a: "test_connection jenv w = (a, w2)" by (cases "test_connection jenv w")
  obtain b w3 where b: "test_query_message_protocol jenv w2 = (b, w3)"
    by (cases "test_query_message_protocol jenv w2")
  obtain c w4 where c: "test_close_session jenv w3 = (c, w4)" by (cases "test_close_session jenv w3")
  obtain d w5 where d: "test_invalid_message jenv w4 = (d, w5)" by (cases "test_invalid_message jenv w4")
  have l: "(\<exists>u w5. four_scenarios jenv w = (Inr u, w5)) = (\<not> isl a \<and> \<not> isl b \<and> \<not> isl c \<and> \<not> isl d)"
    using a b c d by (cases a; cases b; cases c; cases d) (simp_all add: four_scenarios_def)
  have r: "(\<exists>u1 w2 v w3 u3 w4 u4 w5.
        test_connection jenv w = (Inr u1, w2)
        \<and> test_query_message_protocol jenv w2 = (Inr v, w3)
        \<and> test_close_session jenv w3 = (Inr u3, w4)
        \<and> test_invalid_message jenv w4 = (Inr u4, w5)) = (\<not> isl a \<and> \<not> isl b \<and> \<not> isl c \<and> \<not> isl d)"
  proof
    assume "\<exists>u1 w2 v w3 u3 w4 u4 w5.
        test_connection jenv w = (Inr u1, w2)
        \<and> test_query_message_protocol jenv w2 = (Inr v, w3)
        \<and> test_close_session jenv w3 = (Inr u3, w4)
        \<and> test_invalid_message jenv w4 = (Inr u4, w5)"
    then obtain u1 x2 v x3 u3 x4 u4 x5 where h:
      "test_connection jenv w = (Inr u1, x2)" "test_query_message_protocol jenv x2 = (Inr v, x3)"
      "test_close_session jenv x3 = (Inr u3, x4)" "test_invalid_message jenv x4 = (Inr u4, x5)"
      by blast
    from h(1) a have 1: "a = Inr u1" "x2 = w2" by simp_all
    from h(2) b 1 have 2: "b = Inr v" "x3 = w3" by simp_all
    from h(3) c 2 have 3: "c = Inr u3" "x4 = w4" by simp_all
    from h(4) d 3 have 4: "d = Inr u4" by simp
    from 1 2 3 4 show "\<not> isl a \<and> \<not> isl b \<and> \<not> isl c \<and> \<not> isl d" by simp
  next
    assume "\<not> isl a \<and> \<not> isl b \<and> \<not> isl c \<and> \<not> isl d"
    then obtain u1 v u3 u4 where "a = Inr u1" "b = Inr v" "c = Inr u3" "d = Inr u4"
      by (cases a; cases b; cases c; cases d) auto
    with a b c d show "\<exists>u1 w2 v w3 u3 w4 u4 w5.
        test_connection jenv w = (Inr u1, w2)
        \<and> test_query_message_protocol jenv w2 = (Inr v, w3)
        \<and> test_close_session jenv w3 = (Inr u3, w4)
        \<and> test_invalid_message jenv w4 = (Inr u4, w5)"
      by blast
  qed
  from l r show ?thesis by simp
qed

text \<open>
  C3, as the code has it. Gateway runner: the exit code is 0 or 1. It is 0 exactly when
  the gateway is ready, the agent ids are fetched without an exception, printing them
  raises nothing, the scenarios come to their results (no line that names an agent
  raises), printing the table raises nothing, opening the results file raises nothing when
  its directory exists, and no result has failed. When the gateway is not ready it is 1.
  Jail script (it produces no TestResult): the exit code is 0 exactly when creating the
  workspace directory does not raise and \<open>run_all_tests\<close> returns True, that is the server
  is ready and each of the four scenarios returns, one after the other; it is 1 otherwise.
\<close>

theorem exit_code_of_a_run:
  "(fst (runner_main env w) = 0 \<or> fst (runner_main env w) = 1)
   \<and> (fst (wait_for_gateway env 60000 (say Banner w)) = Inr False \<longrightarrow> fst (runner_main env w) = 1)
   \<and> (fst (runner_main env w) = 0) =
       (\<exists>w1 ids w2 results w3.
          wait_for_gateway env 60000 (say Banner w) = (Inr True, w1)
          \<and> fetch_agent_ids env w1 = (Inr ids, w2)
          \<and> print_error env (AvailableAgents ids) = None
          \<and> all_scenarios env ids
               (say (AvailableAgents ids) (if ids = [] then say NoAgentsWarning w2 else w2)) = (Inr results, w3)
          \<and> print_error env (ResultsTable (map table_row results)) = None
          \<and> (results_dir_exists env \<longrightarrow> open_error env = None)
          \<and> failed_count results = 0)
   \<and> fst (jail_main jenv jw) =
       (if mkdir_error jenv = None \<and> fst (run_all_tests jenv jw) = Inr True then 0 else 1)
   \<and> (fst (run_all_tests jenv jw) = Inr True) =
       (\<exists>w1 u1 w2 v w3 u3 w4 u4 w5.
          wait_for_server jenv JAIL_URL 10000 (jprint WaitingForServer (jprint RunHeader jw)) = (Inr True, w1)
          \<and> test_connection jenv (jprint ServerReady w1) = (Inr u1, w2)
          \<and> test_query_message_protocol jenv w2 = (Inr v, w3)
          \<and> test_close_session jenv w3 = (Inr u3, w4)
          \<and> test_invalid_message jenv w4 = (Inr u4, w5))"
proof (intro conjI)
  obtain c w1 where c: "collect_results env w = (c, w1)"
    by (cases "collect_results env w")
  have code: "fst (runner_main env w) =
      (case c of Inl ended \<Rightarrow> 1 | Inr results \<Rightarrow> exit_code (fst (report env results w1)))"
  proof (cases c)
    case (Inl ended)
    with run_tests_ended[of env w ended w1] c show ?thesis
      by (auto simp: runner_main_def run_tests_def exit_code_def)
  next
    case (Inr results)
    with c show ?thesis
      by (cases "report env results w1") (simp add: runner_main_def run_tests_def)
  qed
  show "fst (runner_main env w) = 0 \<or> fst (runner_main env w) = 1"
    unfolding code by (cases c) (auto simp: report_end exit_code_def split: option.splits)
  show "fst (wait_for_gateway env 60000 (say Banner w)) = Inr False \<longrightarrow> fst (runner_main env w) = 1"
  proof
    assume "fst (wait_for_gateway env 60000 (say Banner w)) = Inr False"
    then have "\<exists>e w'. collect_results env w = (Inl e, w')"
      by (cases "wait_for_gateway env 60000 (say Banner w)") (simp add: collect_results_def)
    with c code show "fst (runner_main env w) = 1" by auto
  qed
  show "(fst (runner_main env w) = 0) =
       (\<exists>w1 ids w2 results w3.
          wait_for_gateway env 60000 (say Banner w) = (Inr True, w1)
          \<and> fetch_agent_ids env w1 = (Inr ids, w2)
          \<and> print_error env (AvailableAgents ids) = None
          \<and> all_scenarios env ids
               (say (AvailableAgents ids) (if ids = [] then say NoAgentsWarning w2 else w2)) = (Inr results, w3)
          \<and> print_error env (ResultsTable (map table_row results)) = None
          \<and> (results_dir_exists env \<longrightarrow> open_error env = None)
          \<and> failed_count results = 0)" (is "?L = ?R")
  proof
    assume l: ?L
    with code obtain results where r: "c = Inr results" "exit_code (fst (report env results w1)) = 0"
      by (cases c) auto
    from r(2) have ok: "print_error env (ResultsTable (map table_row results)) = None"
      "results_dir_exists env \<longrightarrow> open_error env = None" "failed_count results = 0"
      by (auto simp: report_end exit_code_def split: option.splits if_splits)
    from collect_results_reached[OF c[unfolded r(1)]] ok show ?R by blast
  next
    assume ?R
    then obtain wa ids wb results wc where h:
      "wait_for_gateway env 60000 (say Banner w) = (Inr True, wa)"
      "fetch_agent_ids env wa = (Inr ids, wb)"
      "print_error env (AvailableAgents ids) = None"
      "all_scenarios env ids
         (say (AvailableAgents ids) (if ids = [] then say NoAgentsWarning wb else wb)) = (Inr results, wc)"
      "print_error env (ResultsTable (map table_row results)) = None"
      "results_dir_exists env \<longrightarrow> open_error env = None"
      "failed_count results = 0"
      by blast
    from collect_results_ready[OF h(1-4)] c have "c = Inr results" by simp
    with code h(5-7) show ?L
      by (auto simp: report_end exit_code_def split: option.splits)
  qed
next
  show "fst (jail_main jenv jw) =
       (if mkdir_error jenv = None \<and> fst (run_all_tests jenv jw) = Inr True then 0 else 1)"
    by (cases "run_all_tests jenv jw")
       (auto simp: jail_main_def exit_code_def split: option.splits sum.splits)
next
  let ?w0 = "jprint WaitingForServer (jprint RunHeader jw)"
  obtain g w1 where g: "wait_for_server jenv JAIL_URL 10000 ?w0 = (g, w1)"
    by (cases "wait_for_server jenv JAIL_URL 10000 ?w0")
  obtain f w2 where f: "four_scenarios jenv (jprint ServerReady w1) = (f, w2)"
    by (cases "four_scenarios jenv (jprint ServerReady w1)")
  from g f have "(fst (run_all_tests jenv jw) = Inr True) =
      (g = Inr True \<and> (\<exists>u w5. four_scenarios jenv (jprint ServerReady w1) = (Inr u, w5)))"
    by (auto simp: run_all_tests_def split: sum.splits bool.splits)
  also have "\<dots> = (g = Inr True \<and> (\<exists>u1 w2 v w3 u3 w4 u4 w5.
          test_connection jenv (jprint ServerReady w1) = (Inr u1, w2)
          \<and> test_query_message_protocol jenv w2 = (Inr v, w3)
          \<and> test_close_session jenv w3 = (Inr u3, w4)
          \<and> test_invalid_message jenv w4 = (Inr u4, w5)))"
    by (simp only: four_scenarios_pass)
  also have "\<dots> = (\<exists>w1 u1 w2 v w3 u3 w4 u4 w5.
          wait_for_server jenv JAIL_URL 10000 ?w0 = (Inr True, w1)
          \<and> test_connection jenv (jprint ServerReady w1) = (Inr u1, w2)
          \<and> test_query_message_protocol jenv w2 = (Inr v, w3)
          \<and> test_close_session jenv w3 = (Inr u3, w4)
          \<and> test_invalid_message jenv w4 = (Inr u4, w5))"
    unfolding g by (cases "g = Inr True") simp_all
  finally show "(fst (run_all_tests jenv jw) = Inr True) =
       (\<exists>w1 u1 w2 v w3 u3 w4 u4 w5.
          wait_for_server jenv JAIL_URL 10000 ?w0 = (Inr True, w1)
          \<and> test_connection jenv (jprint ServerReady w1) = (Inr u1, w2)
          \<and> test_query_message_protocol jenv w2 = (Inr v, w3)
          \<and> test_close_session jenv w3 = (Inr u3, w4)
          \<and> test_invalid_message jenv w4 = (Inr u4, w5))" .
qed

text \<open>Sample runs of the gateway runner on a gateway that is ready at once, and of the
  jail script.\<close>

lemma wait_for_gateway_ready_world0:
  assumes "http env = gateway_sample agents send"
  shows "wait_for_gateway env 60000 (say Banner world0) =
     (Inr True,
      \<lparr>now = 5, seq = 1, sent = [Get ''/health''],
       console = [Banner, WaitingForGateway, GatewayReady], writes = []\<rparr>)"
  unfolding wait_for_gateway_def Let_def
  by (subst gateway_loop_ready_at_once[where resp = "\<lparr>status_code = 200, text_of = ''ok''\<rparr>" and d = 5])
     (simp_all add: assms gateway_sample_def say_def world0_def)

lemma sample_http:
  "http env_empty_list = gateway_sample (Inr \<lparr>status_code = 200, text_of = ''[]''\<rparr>) (answers ''data: 5'')"
  "http env_no_agents =
     gateway_sample (Inr \<lparr>status_code = 500, text_of = ''Internal Server Error''\<rparr>) (answers ''data: 5'')"
  \<open>http env_bad_markup =
     gateway_sample (Inr \<lparr>status_code = 200, text_of = ''[{"id": "[/x]"}, {"id": "b"}]''\<rparr>)
       (answers ''data: {"full_response": "logged, 2 entries found"}'')\<close>
  by (simp_all add: env_empty_list_def env_no_agents_def env_bad_markup_def env_sample_def)

lemma fetch_agent_ids_samples:
  "fetch_agent_ids env_empty_list
     \<lparr>now = 5, seq = 1, sent = [Get ''/health''],
      console = [Banner, WaitingForGateway, GatewayReady], writes = []\<rparr> =
   (Inr [],
    \<lparr>now = 10, seq = 2, sent = [Get ''/health'', Get ''/api/agents''],
     console = [Banner, WaitingForGateway, GatewayReady], writes = []\<rparr>)"
  "fetch_agent_ids env_no_agents
     \<lparr>now = 5, seq = 1, sent = [Get ''/health''],
      console = [Banner, WaitingForGateway, GatewayReady], writes = []\<rparr> =
   (Inr [],
    \<lparr>now = 10, seq = 2, sent = [Get ''/health'', Get ''/api/agents''],
     console = [Banner, WaitingForGateway, GatewayReady], writes = []\<rparr>)"
  "fetch_agent_ids env_bad_markup
     \<lparr>now = 5, seq = 1, sent = [Get ''/health''],
      console = [Banner, WaitingForGateway, GatewayReady], writes = []\<rparr> =
   (Inr [JStr ''[/x]'', JStr ''b''],
    \<lparr>now = 10, seq = 2, sent = [Get ''/health'', Get ''/api/agents''],
     console = [Banner, WaitingForGateway, GatewayReady], writes = []\<rparr>)"
  by (simp_all add: fetch_agent_ids_def do_request_def sample_http gateway_sample_def)
     (simp_all add: env_empty_list_def env_bad_markup_def env_sample_def loads_sample_def)

lemma all_scenarios_no_agents:
  "fst (all_scenarios env_empty_list []
     (say (AvailableAgents [])
        (say NoAgentsWarning
           \<lparr>now = 10, seq = 2, sent = [Get ''/health'', Get ''/api/agents''],
            console = [Banner, WaitingForGateway, GatewayReady], writes = []\<rparr>))) =
   Inr [\<lparr>name = ''gateway-health'', passed = True, duration_ms = 5, error = None\<rparr>,
        \<lparr>name = ''agent-list'', passed = True, duration_ms = 5, error = None\<rparr>]"
  "fst (all_scenarios env_no_agents []
     (say (AvailableAgents [])
        (say NoAgentsWarning
           \<lparr>now = 10, seq = 2, sent = [Get ''/health'', Get ''/api/agents''],
            console = [Banner, WaitingForGateway, GatewayReady], writes = []\<rparr>))) =
   Inr [\<lparr>name = ''gateway-health'', passed = True, duration_ms = 5, error = None\<rparr>,
        \<lparr>name = ''agent-list'', passed = False, duration_ms = 5,
         error = Some ''Response: Internal Server Error''\<rparr>]"
  by (simp_all add: all_scenarios_def test_gateway_health_def test_agent_list_def do_request_def
        sample_http gateway_sample_def parallel_tests_def scenario_result_def say_def)
     (simp_all add: env_empty_list_def env_no_agents_def env_sample_def loads_sample_def)

lemma wait_for_gateway_never_ready:
  assumes "\<forall>k. \<not> health_ok env k"
  shows "fst (wait_for_gateway env max_wait w) = Inr False"
proof -
  obtain g w1 where g: "wait_for_gateway env max_wait w = (g, w1)"
    by (cases "wait_for_gateway env max_wait w")
  then have gl: "gateway_loop env (now w) max_wait (say WaitingForGateway w) = (g, w1)"
    by (simp add: wait_for_gateway_def Let_def)
  have "g \<noteq> Inr True"
  proof
    assume "g = Inr True"
    with gateway_loop_result[OF gl] obtain resp d where
      r: "http env (Get ''/health'') (seq w1 - 1) = (Inr resp, d)" "status_code resp = 200"
      by auto
    then have "health_ok env (seq w1 - 1)" by (simp add: health_ok_def)
    with assms show False by blast
  qed
  with wait_for_gateway_frame(3)[OF g] g show ?thesis by auto
qed

lemma run_all_tests_refused:
  "run_all_tests (jail_sample (refuses 1) replies_error) jworld0 =
     (Inr False,
      \<lparr>jnow = 6, conns = 2, frames = [],
       printed = [RunHeader, WaitingForServer, ServerReady, TestConnection,
                  ErrorLine ''[Errno 111] Connection refused'']\<rparr>)"
proof -
  have g: "wait_for_server (jail_sample (refuses 1) replies_error) JAIL_URL 10000
             (jprint WaitingForServer (jprint RunHeader jworld0)) =
           (Inr True, (jprint WaitingForServer (jprint RunHeader jworld0))\<lparr>jnow := 3, conns := 1\<rparr>)"
    unfolding wait_for_server_def
    by (subst server_loop_connects_at_once[where d = 3])
       (simp_all add: jail_sample_def refuses_def jworld0_def)
  show ?thesis
    unfolding run_all_tests_def g
    by (simp add: four_scenarios_def test_connection_def jconnect_def jail_sample_def refuses_def
          jprint_def jworld0_def)
qed

lemma run_all_tests_accepted:
  "fst (run_all_tests (jail_sample accepts_all replies_error) jworld0) = Inr True"
proof -
  have g: "wait_for_server (jail_sample accepts_all replies_error) JAIL_URL 10000
             (jprint WaitingForServer (jprint RunHeader jworld0)) =
           (Inr True, (jprint WaitingForServer (jprint RunHeader jworld0))\<lparr>jnow := 3, conns := 1\<rparr>)"
    unfolding wait_for_server_def
    by (subst server_loop_connects_at_once[where d = 3])
       (simp_all add: jail_sample_def accepts_all_def jworld0_def)
  show ?thesis
    unfolding run_all_tests_def g
    by (simp add: four_scenarios_def test_connection_def test_query_message_protocol_def
          test_close_session_def test_invalid_message_def query_reply_def invalid_reply_def
          jconnect_def jsend_def jrecv_def jail_sample_def accepts_all_def replies_error_def
          loads_sample_def jprint_def jsleep_def jworld0_def Let_def)
qed

text \<open>With no agent and both infrastructure scenarios passed the exit code is 0; with one
  failed result it is 1; with an agent id that rich reads as a closing tag it is 1 before
  any TestResult; with the gateway down it is 1. The jail script ends with 0 when every
  scenario returns and with 1 when the first one raises.\<close>

theorem exit_code_of_a_run_witness:
  "fst (runner_main env_empty_list world0) = 0
   \<and> fst (runner_main env_no_agents world0) = 1
   \<and> fst (runner_main env_bad_markup world0) = 1
   \<and> fst (runner_main env_down world0) = 1
   \<and> fst (jail_main (jail_sample accepts_all replies_error) jworld0) = 0
   \<and> fst (jail_main (jail_sample (refuses 1) replies_error) jworld0) = 1"
proof -
  let ?W1 = "\<lparr>now = 5, seq = 1, sent = [Get ''/health''],
       console = [Banner, WaitingForGateway, GatewayReady], writes = []\<rparr>"
  let ?W2 = "\<lparr>now = 10, seq = 2, sent = [Get ''/health'', Get ''/api/agents''],
       console = [Banner, WaitingForGateway, GatewayReady], writes = []\<rparr>"
  note g = wait_for_gateway_ready_world0[OF sample_http(1)] wait_for_gateway_ready_world0[OF sample_http(2)]
    wait_for_gateway_ready_world0[OF sample_http(3)]
  note te = exit_code_of_a_run[of env_empty_list world0 "jail_sample accepts_all replies_error" jworld0]
  note tn = exit_code_of_a_run[of env_no_agents world0 "jail_sample (refuses 1) replies_error" jworld0]
  note tb = exit_code_of_a_run[of env_bad_markup world0 "jail_sample (refuses 1) replies_error" jworld0]
  note td = exit_code_of_a_run[of env_down world0 "jail_sample (refuses 1) replies_error" jworld0]
  have pe: "print_error env_empty_list x = None" "print_error env_no_agents x = None" for x
    by (simp_all add: env_empty_list_def env_no_agents_def env_sample_def)
  have fs: "results_dir_exists env_empty_list" "open_error env_empty_list = None"
    by (simp_all add: env_empty_list_def env_sample_def)
  obtain w3 where sc: "all_scenarios env_empty_list []
      (say (AvailableAgents []) (if ([]::json list) = [] then say NoAgentsWarning ?W2 else ?W2)) =
      (Inr [\<lparr>name = ''gateway-health'', passed = True, duration_ms = 5, error = None\<rparr>,
            \<lparr>name = ''agent-list'', passed = True, duration_ms = 5, error = None\<rparr>], w3)"
    using all_scenarios_no_agents(1)
    by (cases "all_scenarios env_empty_list [] (say (AvailableAgents []) (say NoAgentsWarning ?W2))") simp
  have "\<exists>w1 ids w2 results w3.
          wait_for_gateway env_empty_list 60000 (say Banner world0) = (Inr True, w1)
          \<and> fetch_agent_ids env_empty_list w1 = (Inr ids, w2)
          \<and> print_error env_empty_list (AvailableAgents ids) = None
          \<and> all_scenarios env_empty_list ids
               (say (AvailableAgents ids) (if ids = [] then say NoAgentsWarning w2 else w2)) = (Inr results, w3)
          \<and> print_error env_empty_list (ResultsTable (map table_row results)) = None
          \<and> (results_dir_exists env_empty_list \<longrightarrow> open_error env_empty_list = None)
          \<and> failed_count results = 0"
    using g(1) fetch_agent_ids_samples(1) sc pe(1) fs
    by (intro exI conjI) (assumption | simp add: failed_count_def pe)+
  with te have 1: "fst (runner_main env_empty_list world0) = 0" by blast
  have "\<not> (\<exists>w1 ids w2 results w3.
          wait_for_gateway env_no_agents 60000 (say Banner world0) = (Inr True, w1)
          \<and> fetch_agent_ids env_no_agents w1 = (Inr ids, w2)
          \<and> print_error env_no_agents (AvailableAgents ids) = None
          \<and> all_scenarios env_no_agents ids
               (say (AvailableAgents ids) (if ids = [] then say NoAgentsWarning w2 else w2)) = (Inr results, w3)
          \<and> print_error env_no_agents (ResultsTable (map table_row results)) = None
          \<and> (results_dir_exists env_no_agents \<longrightarrow> open_error env_no_agents = None)
          \<and> failed_count results = 0)"
  proof
    assume "\<exists>w1 ids w2 results w3.
          wait_for_gateway env_no_agents 60000 (say Banner world0) = (Inr True, w1)
          \<and> fetch_agent_ids env_no_agents w1 = (Inr ids, w2)
          \<and> print_error env_no_agents (AvailableAgents ids) = None
          \<and> all_scenarios env_no_agents ids
               (say (AvailableAgents ids) (if ids = [] then say NoAgentsWarning w2 else w2)) = (Inr results, w3)
          \<and> print_error env_no_agents (ResultsTable (map table_row results)) = None
          \<and> (results_dir_exists env_no_agents \<longrightarrow> open_error env_no_agents = None)
          \<and> failed_count results = 0"
    then obtain w1 ids w2 results w3 where h:
      "wait_for_gateway env_no_agents 60000 (say Banner world0) = (Inr True, w1)"
      "fetch_agent_ids env_no_agents w1 = (Inr ids, w2)"
      "all_scenarios env_no_agents ids
         (say (AvailableAgents ids) (if ids = [] then say NoAgentsWarning w2 else w2)) = (Inr results, w3)"
      "failed_count results = 0"
      by blast
    from h(1) g(2) have w1: "w1 = ?W1" by simp
    from h(2) fetch_agent_ids_samples(2) w1 have w2: "ids = []" "w2 = ?W2" by simp_all
    from h(3) all_scenarios_no_agents(2) w2 have
      "results = [\<lparr>name = ''gateway-health'', passed = True, duration_ms = 5, error = None\<rparr>,
          \<lparr>name = ''agent-list'', passed = False, duration_ms = 5,
           error = Some ''Response: Internal Server Error''\<rparr>]"
      by simp
    with h(4) show False by (simp add: failed_count_def)
  qed
  with tn have 2: "fst (runner_main env_no_agents world0) = 1" by blast
  have "\<not> (\<exists>w1 ids w2 results w3.
          wait_for_gateway env_bad_markup 60000 (say Banner world0) = (Inr True, w1)
          \<and> fetch_agent_ids env_bad_markup w1 = (Inr ids, w2)
          \<and> print_error env_bad_markup (AvailableAgents ids) = None
          \<and> all_scenarios env_bad_markup ids
               (say (AvailableAgents ids) (if ids = [] then say NoAgentsWarning w2 else w2)) = (Inr results, w3)
          \<and> print_error env_bad_markup (ResultsTable (map table_row results)) = None
          \<and> (results_dir_exists env_bad_markup \<longrightarrow> open_error env_bad_markup = None)
          \<and> failed_count results = 0)"
  proof
    assume "\<exists>w1 ids w2 results w3.
          wait_for_gateway env_bad_markup 60000 (say Banner world0) = (Inr True, w1)
          \<and> fetch_agent_ids env_bad_markup w1 = (Inr ids, w2)
          \<and> print_error env_bad_markup (AvailableAgents ids) = None
          \<and> all_scenarios env_bad_markup ids
               (say (AvailableAgents ids) (if ids = [] then say NoAgentsWarning w2 else w2)) = (Inr results, w3)
          \<and> print_error env_bad_markup (ResultsTable (map table_row results)) = None
          \<and> (results_dir_exists env_bad_markup \<longrightarrow> open_error env_bad_markup = None)
          \<and> failed_count results = 0"
    then obtain w1 ids w2 where h:
      "wait_for_gateway env_bad_markup 60000 (say Banner world0) = (Inr True, w1)"
      "fetch_agent_ids env_bad_markup w1 = (Inr ids, w2)"
      "print_error env_bad_markup (AvailableAgents ids) = None"
      by blast
    from h(1) g(3) have w1: "w1 = ?W1" by simp
    from h(2) fetch_agent_ids_samples(3) w1 have "ids = [JStr ''[/x]'', JStr ''b'']" by simp
    with h(3) show False by (simp add: env_bad_markup_def)
  qed
  with tb have 3: "fst (runner_main env_bad_markup world0) = 1" by blast
  have "\<forall>k. \<not> health_ok env_down k" by (simp add: health_ok_def env_down_def)
  from wait_for_gateway_never_ready[OF this] td
  have 4: "fst (runner_main env_down world0) = 1" by blast
  have m: "mkdir_error (jail_sample conn recv) = None" for conn recv
    by (simp add: jail_sample_def)
  from te have "fst (jail_main (jail_sample accepts_all replies_error) jworld0) =
      (if mkdir_error (jail_sample accepts_all replies_error) = None
          \<and> fst (run_all_tests (jail_sample accepts_all replies_error) jworld0) = Inr True then 0 else 1)"
    by blast
  then have 5: "fst (jail_main (jail_sample accepts_all replies_error) jworld0) = 0"
    by (simp only: m run_all_tests_accepted) simp
  from tn have "fst (jail_main (jail_sample (refuses 1) replies_error) jworld0) =
      (if mkdir_error (jail_sample (refuses 1) replies_error) = None
          \<and> fst (run_all_tests (jail_sample (refuses 1) replies_error) jworld0) = Inr True then 0 else 1)"
    by blast
  then have 6: "fst (jail_main (jail_sample (refuses 1) replies_error) jworld0) = 1"
    unfolding run_all_tests_refused by (simp only: fst_conv m) simp
  from 1 2 3 4 5 6 show ?thesis by blast
qed

text \<open>
  C3 as stated fails: the gateway is ready, fetching the agents raises, no TestResult is
  produced, so the failed count is 0, and the exit code is 1.
\<close>

theorem exit_code_nonzero_with_no_failed_result:
  "fst (wait_for_gateway env_fetch_fails 60000 (say Banner world0)) = Inr True
   \<and> failed_count (produced_results env_fetch_fails world0) = 0
   \<and> fst (runner_main env_fetch_fails world0) = 1"
proof -
  have g: "wait_for_gateway env_fetch_fails 60000 (say Banner world0) =
     (Inr True,
      \<lparr>now = 5, seq = 1, sent = [Get ''/health''],
       console = [Banner, WaitingForGateway, GatewayReady], writes = []\<rparr>)"
    by (rule wait_for_gateway_ready_world0[of _ "Inl (Exn HTTPError ''All connection attempts failed'')"
          "answers ''data: 5''"]) (simp add: env_fetch_fails_def env_sample_def)
  have c: "fst (collect_results env_fetch_fails world0) =
      Inl (Raised (Exn HTTPError ''All connection attempts failed''))"
    unfolding collect_results_def g
    by (simp add: fetch_agent_ids_def do_request_def env_fetch_fails_def env_sample_def
          gateway_sample_def)
  then have "fst (run_tests env_fetch_fails world0) = Raised (Exn HTTPError ''All connection attempts failed'')"
    by (cases "collect_results env_fetch_fails world0") (simp add: run_tests_def)
  with c g show ?thesis
    by (cases "run_tests env_fetch_fails world0")
       (simp add: produced_results_def failed_count_def runner_main_def exit_code_def)
qed

section \<open>The jail scenarios with a reply\<close>

lemma loads_sample_raises:
  "loads_sample s = Inl e \<Longrightarrow> cls e = JSONDecodeError"
  by (auto simp: loads_sample_def split: if_splits)

text \<open>
  C7. The connection is open and the query with \<open>channel_id = "test-channel-123"\<close> is
  sent (and \<open>json.loads\<close> raises no timeout of its own). Then
  \<open>test_query_message_protocol\<close> passes, that is returns, exactly when the receive gives
  within the 5 seconds a reply that decodes to a dict whose type is one of text, tool_use,
  done, error and whose channel id is \<open>test-channel-123\<close>, or the receive times out.
\<close>

theorem query_round_trip_passes_iff:
  assumes "connect jenv JAIL_URL (conns jw) = (None, d0)"
    and "ws_send jenv (conns jw) (query jenv) = None"
    and "ws_recv jenv (conns jw) 5000 = (r, d)"
    and "\<forall>s e. jloads jenv s = Inl e \<longrightarrow> cls e \<noteq> TimeoutError"
  shows "(\<exists>v. fst (test_query_message_protocol jenv jw) = Inr v) =
         (reply_has jenv r ''type'' [JStr ''text'', JStr ''tool_use'', JStr ''done'', JStr ''error'']
            \<and> reply_has jenv r ''channel_id'' [JStr ''test-channel-123'']
          \<or> timed_out r)"
proof (cases r)
  case (Inl e)
  with assms(1-3) show ?thesis
    by (simp add: test_query_message_protocol_def jconnect_def jsend_def query_reply_def jrecv_def
          reply_has_def timed_out_def)
next
  case (Inr raw)
  show ?thesis
  proof (cases "jloads jenv raw")
    case (Inl e)
    with assms(4) have "cls e \<noteq> TimeoutError" by blast
    with Inl Inr assms(1-3) show ?thesis
      by (simp add: test_query_message_protocol_def jconnect_def jsend_def query_reply_def jrecv_def
            reply_has_def timed_out_def)
  next
    case resp: (Inr response)
    show ?thesis
    proof (cases response)
      case (JObj kvs)
      with resp Inr assms(1-3) show ?thesis
        by (auto simp: test_query_message_protocol_def jconnect_def jsend_def query_reply_def jrecv_def
              reply_has_def timed_out_def Let_def split: option.splits)
    qed (use resp Inr assms(1-3) in
          \<open>simp_all add: test_query_message_protocol_def jconnect_def jsend_def query_reply_def jrecv_def
              reply_has_def timed_out_def\<close>)
  qed
qed

text \<open>
  C5, as the code has it. The connection is open, \<open>{"type": "invalid_type", ...}\<close> is
  sent, and the connection is not closed under the receive. Then \<open>test_invalid_message\<close>
  passes exactly when the receive gives within the 2 seconds a reply that decodes to a
  dict of type \<open>error\<close>, or the receive times out.
\<close>

theorem invalid_message_passes_iff:
  assumes "connect jenv JAIL_URL (conns jw) = (None, d0)"
    and "ws_send jenv (conns jw) (JObj [(''type'', JStr ''invalid_type''), (''data'', JStr ''garbage'')]) = None"
    and "ws_recv jenv (conns jw) 2000 = (r, d)"
    and "\<forall>s e. jloads jenv s = Inl e \<longrightarrow> cls e \<noteq> TimeoutError"
    and "\<not> connection_closed r"
  shows "(fst (test_invalid_message jenv jw) = Inr ()) =
         (reply_has jenv r ''type'' [JStr ''error''] \<or> timed_out r)"
proof (cases r)
  case (Inl e)
  with assms(1-3) show ?thesis
    by (simp add: test_invalid_message_def jconnect_def jsend_def invalid_reply_def jrecv_def
          reply_has_def timed_out_def)
next
  case (Inr raw)
  show ?thesis
  proof (cases "jloads jenv raw")
    case (Inl e)
    with assms(4) have "cls e \<noteq> TimeoutError" by blast
    with Inl Inr assms(1-3) show ?thesis
      by (simp add: test_invalid_message_def jconnect_def jsend_def invalid_reply_def jrecv_def
            reply_has_def timed_out_def)
  next
    case resp: (Inr response)
    show ?thesis
    proof (cases response)
      case (JObj kvs)
      with resp Inr assms(1-3) show ?thesis
        by (auto simp: test_invalid_message_def jconnect_def jsend_def invalid_reply_def jrecv_def
              reply_has_def timed_out_def Let_def split: option.splits)
    qed (use resp Inr assms(1-3) in
          \<open>simp_all add: test_invalid_message_def jconnect_def jsend_def invalid_reply_def jrecv_def
              reply_has_def timed_out_def Let_def\<close>)
  qed
qed


text \<open>The sample servers.\<close>

lemma jail_sample_fields [simp]:
  "connect (jail_sample conn recv) url k = (conn url k, 3)"
  "ws_send (jail_sample conn recv) c msg = None"
  "ws_recv (jail_sample conn recv) c timeout = recv c"
  "jloads (jail_sample conn recv) = loads_sample"
  by (simp_all add: jail_sample_def)

lemma loads_sample_never_times_out:
  "\<forall>s e. jloads (jail_sample conn recv) s = Inl e \<longrightarrow> cls e \<noteq> TimeoutError"
  by (auto dest: loads_sample_raises)

lemma reply_has_samples:
  "reply_has (jail_sample conn recv) (fst (replies_error c)) ''type'' allowed = (JStr ''error'' \<in> set allowed)"
  "reply_has (jail_sample conn recv) (fst (replies_error c)) ''channel_id'' allowed =
     (JStr ''test-channel-123'' \<in> set allowed)"
  "reply_has (jail_sample conn recv) (fst (replies_other_channel c)) ''type'' allowed = (JStr ''text'' \<in> set allowed)"
  "reply_has (jail_sample conn recv) (fst (replies_other_channel c)) ''channel_id'' allowed =
     (JStr ''other'' \<in> set allowed)"
  "reply_has (jail_sample conn recv) (fst (times_out c)) key allowed = False"
  "reply_has (jail_sample conn recv) (fst (closes_connection c)) key allowed = False"
  by (simp_all add: reply_has_def replies_error_def replies_other_channel_def times_out_def
        closes_connection_def loads_sample_def)

lemma outcome_samples:
  "timed_out (fst (times_out c))" "\<not> timed_out (fst (replies_error c))"
  "\<not> timed_out (fst (replies_other_channel c))" "\<not> timed_out (fst (closes_connection c))"
  "connection_closed (fst (closes_connection c))" "\<not> connection_closed (fst (times_out c))"
  "\<not> connection_closed (fst (replies_error c))" "\<not> connection_closed (fst (replies_other_channel c))"
  by (simp_all add: timed_out_def connection_closed_def times_out_def replies_error_def
        replies_other_channel_def closes_connection_def)

text \<open>An error reply on the channel passes, a timeout passes, a reply on another channel
  fails.\<close>

theorem query_round_trip_passes_iff_witness:
  "(\<exists>v. fst (test_query_message_protocol (jail_sample accepts_all replies_error) jworld0) = Inr v)
   \<and> (\<exists>v. fst (test_query_message_protocol (jail_sample accepts_all times_out) jworld0) = Inr v)
   \<and> (\<nexists>v. fst (test_query_message_protocol (jail_sample accepts_all replies_other_channel) jworld0) = Inr v)"
proof -
  have c: "connect (jail_sample accepts_all recv) JAIL_URL (conns jworld0) = (None, 3)" for recv
    by (simp add: accepts_all_def)
  have s: "ws_send (jail_sample accepts_all recv) (conns jworld0) (query (jail_sample accepts_all recv)) = None"
    for recv by simp
  have r: "ws_recv (jail_sample accepts_all recv) (conns jworld0) 5000 = (fst (recv 0), snd (recv 0))"
    for recv by (simp add: jworld0_def)
  note t = query_round_trip_passes_iff[OF c s r loads_sample_never_times_out]
  show ?thesis
    unfolding t[of replies_error] t[of times_out] t[of replies_other_channel]
    by (simp add: reply_has_samples outcome_samples)
qed

text \<open>An error reply passes, a timeout passes, a reply of type text fails.\<close>

theorem invalid_message_passes_iff_witness:
  "fst (test_invalid_message (jail_sample accepts_all replies_error) jworld0) = Inr ()
   \<and> fst (test_invalid_message (jail_sample accepts_all times_out) jworld0) = Inr ()
   \<and> fst (test_invalid_message (jail_sample accepts_all replies_other_channel) jworld0) \<noteq> Inr ()"
proof -
  have c: "connect (jail_sample accepts_all recv) JAIL_URL (conns jworld0) = (None, 3)" for recv
    by (simp add: accepts_all_def)
  have s: "ws_send (jail_sample accepts_all recv) (conns jworld0)
      (JObj [(''type'', JStr ''invalid_type''), (''data'', JStr ''garbage'')]) = None"
    for recv by simp
  have r: "ws_recv (jail_sample accepts_all recv) (conns jworld0) 2000 = (fst (recv 0), snd (recv 0))"
    for recv by (simp add: jworld0_def)
  note t = invalid_message_passes_iff[OF c s r loads_sample_never_times_out]
  from t[of replies_error] t[of times_out] t[of replies_other_channel]
  show ?thesis
    by (simp add: reply_has_samples outcome_samples)
qed

text \<open>
  C5 as stated fails both ways. When the server closes the connection without a reply,
  \<open>ws.recv()\<close> raises \<open>ConnectionClosed\<close>, which \<open>except asyncio.TimeoutError\<close> does not
  catch: the scenario fails. When the connection stays open and no reply comes for 2
  seconds, the scenario passes.
\<close>

theorem invalid_message_fails_on_close_and_passes_on_timeout:
  "connection_closed (fst (closes_connection 0))
   \<and> fst (test_invalid_message (jail_sample accepts_all closes_connection) jworld0) =
       Inl (Exn ConnectionClosed ''received 1000 (OK); then sent 1000 (OK)'')
   \<and> \<not> connection_closed (fst (times_out 0))
   \<and> fst (test_invalid_message (jail_sample accepts_all times_out) jworld0) = Inr ()"
  by (simp add: connection_closed_def test_invalid_message_def jconnect_def jsend_def invalid_reply_def
        jrecv_def accepts_all_def closes_connection_def times_out_def jworld0_def jprint_def)

section \<open>The fan-out scenario\<close>

lemma send_message_outcome:
  "fst (send_message env a c s w) = fst (send_message env a c s (world0\<lparr>seq := seq w\<rparr>))"
  by (simp add: send_message_def do_request_def split: prod.splits sum.splits)

lemma gather_sends_results:
  "fst (gather_sends env ids t0 fin w) =
     map (\<lambda>i. fanout_call env (ids ! i) (seq w + i)) [0..<length ids]"
proof (induction ids arbitrary: fin w)
  case Nil
  show ?case by simp
next
  case (Cons a ids)
  obtain r wa where sm: "send_message env a ''Respond with your agent id briefly'' ''e2e-test''
      (w\<lparr>now := t0\<rparr>) = (r, wa)"
    by (cases "send_message env a ''Respond with your agent id briefly'' ''e2e-test'' (w\<lparr>now := t0\<rparr>)")
  have r: "r = fanout_call env a (seq w)"
    using sm send_message_outcome[of env a "''Respond with your agent id briefly''" "''e2e-test''" "w\<lparr>now := t0\<rparr>"]
    by (simp add: fanout_call_def)
  have wa: "seq wa = seq w + 1" using send_message_frame(4)[OF sm] by simp
  have "fst (gather_sends env (a # ids) t0 fin w) = r # fst (gather_sends env ids t0 (max fin (now wa)) wa)"
    using sm by (simp split: prod.splits)
  also have "\<dots> = r # map (\<lambda>i. fanout_call env (ids ! i) (seq wa + i)) [0..<length ids]"
    by (simp only: Cons.IH)
  also have "\<dots> = map (\<lambda>i. fanout_call env ((a # ids) ! i) (seq w + i)) [0..<length (a # ids)]"
    using r wa by (simp add: map_upt_Suc del: upt_Suc)
  finally show ?case .
qed

text \<open>
  C2, as the code has it. \<open>test_parallel_messages\<close> passes exactly when every call
  returned and its aggregated response is not \<open>None\<close> (an empty response counts as a
  response). When a call raises, the scenario is a failed TestResult with the text
  ``Some agents failed to respond''. The result of each call in the gather is what that
  call gives by itself as the request with its number, whatever the other calls give.
\<close>

theorem fanout_passes_iff_every_call_responded:
  "passed (fst (test_parallel_messages env ids w)) =
     (\<forall>i<length ids. responded (fanout_call env (ids ! i) (seq w + i)))
   \<and> ((\<exists>i<length ids. \<exists>e. fanout_call env (ids ! i) (seq w + i) = Inl e) \<longrightarrow>
        failed_with (fst (test_parallel_messages env ids w)) ''Some agents failed to respond'')
   \<and> fst (gather_sends env ids (now w) (now w) w) =
       map (\<lambda>i. fanout_call env (ids ! i) (seq w + i)) [0..<length ids]"
proof -
  let ?call = "\<lambda>i. fanout_call env (ids ! i) (seq w + i)"
  have res: "fst (gather_sends env ids (now w) (now w) w) = map ?call [0..<length ids]"
    by (rule gather_sends_results)
  have all: "list_all responded (map ?call [0..<length ids]) = (\<forall>i<length ids. responded (?call i))"
    by (auto simp: list_all_iff)
  have p: "passed (fst (test_parallel_messages env ids w)) = (\<forall>i<length ids. responded (?call i))"
    using res all
    by (cases "gather_sends env ids (now w) (now w) w")
       (simp add: test_parallel_messages_def scenario_result_def)
  have e: "error (fst (test_parallel_messages env ids w)) =
      (if passed (fst (test_parallel_messages env ids w)) then None
       else Some ''Some agents failed to respond'')"
    by (cases "gather_sends env ids (now w) (now w) w")
       (simp add: test_parallel_messages_def scenario_result_def)
  have f: "failed_with (fst (test_parallel_messages env ids w)) ''Some agents failed to respond''"
    if "\<exists>i<length ids. \<exists>e. ?call i = Inl e"
  proof -
    from that obtain i e where "i < length ids" "?call i = Inl e" by blast
    then have "\<not> (\<forall>i<length ids. responded (?call i))"
      by (auto simp: responded_def)
    with p e show ?thesis by (simp add: failed_with_def)
  qed
  from p f res show ?thesis by blast
qed

text \<open>The calls of the sample gateways.\<close>

lemma fanout_call_samples:
  "fanout_call env_b_fails (JStr ''a'') n =
     Inr \<lparr>sm_status_code = 200,
          sm_events = [JObj [(''full_response'', JStr ''logged, 2 entries found'')]],
          sm_full_response = JStr ''logged, 2 entries found''\<rparr>"
  "fanout_call env_b_fails (JStr ''b'') n =
     Inl (Exn HTTPError ''Server disconnected without sending a response.'')"
  "fanout_call env_empty_answers a n =
     Inr \<lparr>sm_status_code = 200, sm_events = [JObj [(''full_response'', JStr [])]],
          sm_full_response = JStr []\<rparr>"
  by (simp_all add: fanout_call_def send_message_def do_request_def env_b_fails_def
        env_empty_answers_def env_sample_def gateway_sample_def send_body_def answers_def
        parse_sse_def loads_sample_def)

text \<open>The call to \<open>b\<close> raises: the scenario fails, and the call to \<open>a\<close> has its
  response all the same.\<close>

theorem fanout_passes_iff_every_call_responded_witness:
  "failed_with (fst (test_parallel_messages env_b_fails [JStr ''a'', JStr ''b''] world0))
     ''Some agents failed to respond''
   \<and> fst (gather_sends env_b_fails [JStr ''a'', JStr ''b''] (now world0) (now world0) world0) =
       [Inr \<lparr>sm_status_code = 200,
             sm_events = [JObj [(''full_response'', JStr ''logged, 2 entries found'')]],
             sm_full_response = JStr ''logged, 2 entries found''\<rparr>,
        Inl (Exn HTTPError ''Server disconnected without sending a response.'')]"
proof -
  note t = fanout_passes_iff_every_call_responded[of env_b_fails "[JStr ''a'', JStr ''b'']" world0]
  have "\<exists>i<length [JStr ''a'', JStr ''b'']. \<exists>e.
      fanout_call env_b_fails ([JStr ''a'', JStr ''b''] ! i) (seq world0 + i) = Inl e"
    by (rule exI[of _ 1]) (simp add: fanout_call_samples)
  with t have "failed_with (fst (test_parallel_messages env_b_fails [JStr ''a'', JStr ''b''] world0))
     ''Some agents failed to respond''"
    by blast
  moreover from t
  have "fst (gather_sends env_b_fails [JStr ''a'', JStr ''b''] (now world0) (now world0) world0) =
      map (\<lambda>i. fanout_call env_b_fails ([JStr ''a'', JStr ''b''] ! i) (seq world0 + i))
        [0..<length [JStr ''a'', JStr ''b'']]"
    by blast
  then have "fst (gather_sends env_b_fails [JStr ''a'', JStr ''b''] (now world0) (now world0) world0) =
       [Inr \<lparr>sm_status_code = 200,
             sm_events = [JObj [(''full_response'', JStr ''logged, 2 entries found'')]],
             sm_full_response = JStr ''logged, 2 entries found''\<rparr>,
        Inl (Exn HTTPError ''Server disconnected without sending a response.'')]"
    by (simp add: fanout_call_samples upt_rec[of 0] upt_rec[of 1] del: gather_sends.simps)
  ultimately show ?thesis by blast
qed

text \<open>
  C2 as stated fails: both agents answer with the aggregated response \<open>""\<close>, which is
  not a non-empty response, and the fan-out scenario passes.
\<close>

theorem fanout_passes_with_empty_responses:
  "fanout_call env_empty_answers (JStr ''a'') 0 =
     Inr \<lparr>sm_status_code = 200, sm_events = [JObj [(''full_response'', JStr [])]],
          sm_full_response = JStr []\<rparr>
   \<and> \<not> nonempty_response (fanout_call env_empty_answers (JStr ''a'') 0)
   \<and> passed (fst (test_parallel_messages env_empty_answers [JStr ''a'', JStr ''b''] world0))"
proof -
  have "fst (gather_sends env_empty_answers [JStr ''a'', JStr ''b''] (now world0) (now world0) world0) =
      map (\<lambda>i. fanout_call env_empty_answers ([JStr ''a'', JStr ''b''] ! i) (seq world0 + i))
        [0..<length [JStr ''a'', JStr ''b'']]"
    by (rule gather_sends_results)
  then have "list_all responded
      (fst (gather_sends env_empty_answers [JStr ''a'', JStr ''b''] (now world0) (now world0) world0))"
    by (simp add: fanout_call_samples upt_rec[of 0] upt_rec[of 1] responded_def del: gather_sends.simps)
  then have "passed (fst (test_parallel_messages env_empty_answers [JStr ''a'', JStr ''b''] world0))"
    by (cases "gather_sends env_empty_answers [JStr ''a'', JStr ''b''] (now world0) (now world0) world0")
       (simp add: test_parallel_messages_def scenario_result_def)
  then show ?thesis
    by (simp add: fanout_call_samples nonempty_response_def)
qed


section \<open>The event stream parser on object payloads\<close>

text \<open>One round of the loop on the three kinds of line that do not raise.\<close>

lemma sse_step_object:
  assumes "startswith line ''data: ''" and "decode (drop 6 line) = Inr (JObj kvs)"
  shows "sse_step decode line (events, fr) =
     Inr (events @ [JObj kvs], (case map_of kvs ''full_response'' of None \<Rightarrow> fr | Some v \<Rightarrow> v))"
  using assms by (cases "map_of kvs ''full_response''") simp_all

lemma sse_step_undecodable:
  assumes "startswith line ''data: ''" and "decode (drop 6 line) = Inl e" and "cls e = JSONDecodeError"
  shows "sse_step decode line (events, fr) = Inr (events, fr)"
  using assms by simp

lemma sse_step_unmarked:
  assumes "\<not> startswith line ''data: ''"
  shows "sse_step decode line (events, fr) = Inr (events, fr)"
  using assms by simp


lemma field_values_simps [simp]:
  "field_values [] = []"
  "field_values (JObj kvs # events) =
     (case map_of kvs ''full_response'' of None \<Rightarrow> field_values events | Some v \<Rightarrow> v # field_values events)"
  by (simp_all add: field_values_def split: option.splits)

lemma sse_loop_object_payloads:
  assumes "\<forall>line\<in>set lines. startswith line ''data: '' \<longrightarrow>
      (case decode (drop 6 line) of Inl e \<Rightarrow> cls e = JSONDecodeError | Inr data \<Rightarrow> (\<exists>kvs. data = JObj kvs))"
  shows "sse_loop decode lines (events, fr) =
     Inr (events @ List.map_filter (\<lambda>line. case decode (drop 6 line) of Inl e \<Rightarrow> None | Inr data \<Rightarrow> Some data)
                     (filter (\<lambda>line. startswith line ''data: '') lines),
          (case rev (field_values
                  (List.map_filter (\<lambda>line. case decode (drop 6 line) of Inl e \<Rightarrow> None | Inr data \<Rightarrow> Some data)
                     (filter (\<lambda>line. startswith line ''data: '') lines))) of
             [] \<Rightarrow> fr
           | v # vs \<Rightarrow> v))"
  using assms
proof (induction lines arbitrary: events fr)
  case Nil
  show ?case by simp
next
  case (Cons line lines)
  let ?g = "\<lambda>line. case decode (drop 6 line) of Inl e \<Rightarrow> None | Inr data \<Rightarrow> Some data"
  let ?E = "List.map_filter ?g (filter (\<lambda>line. startswith line ''data: '') lines)"
  from Cons.prems have rest: "\<forall>line\<in>set lines. startswith line ''data: '' \<longrightarrow>
      (case decode (drop 6 line) of Inl e \<Rightarrow> cls e = JSONDecodeError | Inr data \<Rightarrow> (\<exists>kvs. data = JObj kvs))"
    by simp
  note ih = Cons.IH[OF rest]
  show ?case
  proof (cases "startswith line ''data: ''")
    case False
    then have "sse_loop decode (line # lines) (events, fr) = sse_loop decode lines (events, fr)"
      by (simp add: sse_step_unmarked)
    with False ih show ?thesis by simp
  next
    case True
    show ?thesis
    proof (cases "decode (drop 6 line)")
      case (Inl e)
      with True Cons.prems have "cls e = JSONDecodeError" by simp
      with True Inl have "sse_loop decode (line # lines) (events, fr) = sse_loop decode lines (events, fr)"
        by (simp add: sse_step_undecodable)
      with True Inl ih show ?thesis by simp
    next
      case (Inr data)
      with True Cons.prems obtain kvs where d: "data = JObj kvs" by auto
      let ?fr = "case map_of kvs ''full_response'' of None \<Rightarrow> fr | Some v \<Rightarrow> v"
      from True Inr d have "sse_loop decode (line # lines) (events, fr) =
          sse_loop decode lines (events @ [JObj kvs], ?fr)"
        by (simp only: sse_loop.simps sse_step_object[OF True] sum.case)
      also have "\<dots> = Inr ((events @ [JObj kvs]) @ ?E,
          (case rev (field_values ?E) of [] \<Rightarrow> ?fr | v # vs \<Rightarrow> v))"
        by (rule ih)
      finally show ?thesis using True Inr d
        by (auto split: option.splits list.splits)
    qed
  qed
qed

text \<open>
  When the remainder of every line marked \<open>data: \<close> is a JSON object or no JSON at all,
  the parser does not raise: its events are the payloads of the marked lines that decode,
  in order, and its aggregated response is the \<open>full_response\<close> of the last payload that
  has the field, \<open>None\<close> when none has.
\<close>

theorem parse_sse_object_payloads:
  assumes "\<forall>line\<in>set (split_nl body). startswith line ''data: '' \<longrightarrow>
      (case decode (drop 6 line) of Inl e \<Rightarrow> cls e = JSONDecodeError | Inr data \<Rightarrow> (\<exists>kvs. data = JObj kvs))"
  shows "parse_sse decode body =
     Inr (spec_events decode body, spec_full_response (spec_events decode body))"
  using sse_loop_object_payloads[OF assms, of "[]" JNull]
  by (simp add: parse_sse_def spec_events_def spec_full_response_def)


text \<open>The sample stream: two events are kept, the comment and the line that is not JSON
  are skipped, and the second event gives the aggregated response.\<close>

lemma split_stream_sample:
  \<open>split_nl stream_sample =
     [''data: {"full_response": ""}'', '': keep-alive'', ''data: oops'',
      ''data: {"full_response": "logged, 2 entries found"}'']\<close>
  by (simp add: stream_sample_def)

theorem parse_sse_object_payloads_witness:
  "parse_sse loads_sample stream_sample =
     Inr ([JObj [(''full_response'', JStr [])],
           JObj [(''full_response'', JStr ''logged, 2 entries found'')]],
          JStr ''logged, 2 entries found'')"
proof -
  have h: "\<forall>line\<in>set (split_nl stream_sample). startswith line ''data: '' \<longrightarrow>
      (case loads_sample (drop 6 line) of Inl e \<Rightarrow> cls e = JSONDecodeError
       | Inr data \<Rightarrow> (\<exists>kvs. data = JObj kvs))"
    unfolding split_stream_sample by (simp add: loads_sample_def)
  have e: "spec_events loads_sample stream_sample =
      [JObj [(''full_response'', JStr [])], JObj [(''full_response'', JStr ''logged, 2 entries found'')]]"
    unfolding spec_events_def split_stream_sample by (simp add: loads_sample_def)
  from parse_sse_object_payloads[OF h] show ?thesis
    unfolding e by (simp add: spec_full_response_def)
qed


section \<open>The event stream parser\<close>

text \<open>
  C6. The claim: for every response body the parser of \<open>send_message\<close> keeps the
  \<open>data: \<close> lines whose remainder is JSON, in order, and never raises. On the body
  \<open>data: 5\<close> the remainder \<open>5\<close> is JSON, \<open>json.loads\<close> gives the int 5, and the test
  \<open>"full_response" in data\<close> raises \<open>TypeError\<close>, which the handler for
  \<open>json.JSONDecodeError\<close> does not catch: the exception leaves \<open>send_message\<close>.
\<close>

theorem send_message_raises_on_number_payload:
  "fst (send_message (env_sample three_agents (answers ''data: 5'')) (JStr ''a'')
          ''Say hello briefly'' ''e2e-test'' world0)
   = Inl (Exn TypeError (''argument of type '' @ [CHR 0x27] @ ''int'' @ [CHR 0x27] @ '' is not iterable''))"
  by (simp add: send_message_def do_request_def env_sample_def gateway_sample_def answers_def
        parse_sse_def loads_sample_def)

section \<open>Exceptions at the scenario boundary\<close>

lemma scenario_result_raised:
  "failed_with (scenario_result env nm start w (Inl e)) (str_e e)"
  by (simp add: scenario_result_def failed_with_def)

lemma scenario_result_error:
  "passed (scenario_result env nm start w r) = (error (scenario_result env nm start w r) = None)"
  by (cases r) (auto simp: scenario_result_def split: if_splits)

lemma test_gateway_health_error:
  "passed (fst (test_gateway_health env w)) = (error (fst (test_gateway_health env w)) = None)"
  by (cases "do_request env (Get ''/health'') w")
     (simp add: test_gateway_health_def scenario_result_error)

lemma test_agent_list_error:
  "passed (fst (test_agent_list env w)) = (error (fst (test_agent_list env w)) = None)"
  by (cases "do_request env (Get ''/api/agents'') w")
     (simp add: test_agent_list_def scenario_result_error)

lemma test_simple_message_error:
  "passed (fst (test_simple_message env a w)) = (error (fst (test_simple_message env a w)) = None)"
  by (cases "send_message env a ''Say hello briefly'' ''e2e-test'' w")
     (simp add: test_simple_message_def scenario_result_error)

lemma test_pack_tool_log_entry_error:
  "passed (fst (test_pack_tool_log_entry env a w)) = (error (fst (test_pack_tool_log_entry env a w)) = None)"
  by (cases "send_message env a (''Use log_entry to log: '' @ ''E2E test entry '' @ dec (now w div 1000)) ''e2e-test'' w")
     (simp add: test_pack_tool_log_entry_def scenario_result_error)

lemma test_pack_tool_log_search_error:
  "passed (fst (test_pack_tool_log_search env a w)) = (error (fst (test_pack_tool_log_search env a w)) = None)"
  by (cases "send_message env a (''Use log_search to find entries containing '' @ [CHR 0x27] @ ''E2E'' @ [CHR 0x27]) ''e2e-test'' w")
     (simp add: test_pack_tool_log_search_def scenario_result_error)

lemma test_parallel_messages_error:
  "passed (fst (test_parallel_messages env ids w)) = (error (fst (test_parallel_messages env ids w)) = None)"
  by (cases "gather_sends env ids (now w) (now w) w")
     (simp add: test_parallel_messages_def scenario_result_error)

lemma per_agent_tests_error:
  "per_agent_tests env ids w = (Inr rs, w1) \<Longrightarrow> \<forall>r\<in>set rs. passed r = (error r = None)"
proof (induction ids arbitrary: w rs w1)
  case Nil
  then show ?case by simp
next
  case (Cons a ids)
  obtain p w0 where pr: "say_markup env (TestingAgent a) w = (p, w0)"
    by (cases "say_markup env (TestingAgent a) w")
  obtain r1 wa where t1: "test_simple_message env a w0 = (r1, wa)"
    by (cases "test_simple_message env a w0")
  obtain r2 wb where t2: "test_pack_tool_log_entry env a wa = (r2, wb)"
    by (cases "test_pack_tool_log_entry env a wa")
  obtain r3 wc where t3: "test_pack_tool_log_search env a wb = (r3, wc)"
    by (cases "test_pack_tool_log_search env a wb")
  obtain r' wd where t4: "per_agent_tests env ids wc = (r', wd)"
    by (cases "per_agent_tests env ids wc")
  from Cons.prems pr t1 t2 t3 t4 have p: "p = None"
    by (cases p) simp_all
  with Cons.prems pr t1 t2 t3 t4 obtain rs' where r': "r' = Inr rs'" "rs = r1 # r2 # r3 # rs'"
    by (cases r') auto
  have e1: "passed r1 = (error r1 = None)"
    using test_simple_message_error[of env a w0] t1 by simp
  have e2: "passed r2 = (error r2 = None)"
    using test_pack_tool_log_entry_error[of env a wa] t2 by simp
  have e3: "passed r3 = (error r3 = None)"
    using test_pack_tool_log_search_error[of env a wb] t3 by simp
  from t4 r'(1) have "\<forall>r\<in>set rs'. passed r = (error r = None)"
    by (intro Cons.IH[of wc rs' wd]) simp
  with e1 e2 e3 r'(2) show ?case by simp
qed

lemma all_scenarios_error:
  assumes "fst (all_scenarios env ids w) = Inr results"
  shows "\<forall>r\<in>set results. passed r = (error r = None)"
proof -
  obtain r1 wa where t1: "test_gateway_health env (say RunningInfrastructureTests w) = (r1, wa)"
    by (cases "test_gateway_health env (say RunningInfrastructureTests w)")
  obtain r2 wb where t2: "test_agent_list env wa = (r2, wb)"
    by (cases "test_agent_list env wa")
  obtain r' wc where t3: "per_agent_tests env ids wb = (r', wc)"
    by (cases "per_agent_tests env ids wb")
  obtain ps wd where t4: "parallel_tests env ids wc = (ps, wd)"
    by (cases "parallel_tests env ids wc")
  from assms t1 t2 t3 t4 obtain rs where rs: "r' = Inr rs" "results = r1 # r2 # rs @ ps"
    by (cases r') (auto simp: all_scenarios_def)
  have e1: "passed r1 = (error r1 = None)"
    using test_gateway_health_error[of env "say RunningInfrastructureTests w"] t1 by simp
  have e2: "passed r2 = (error r2 = None)"
    using test_agent_list_error[of env wa] t2 by simp
  have e3: "\<forall>r\<in>set rs. passed r = (error r = None)"
    using per_agent_tests_error[of env ids wb rs wc] t3 rs(1) by simp
  have e4: "\<forall>r\<in>set ps. passed r = (error r = None)"
    using t4 test_parallel_messages_error[of env "take 2 ids" "say RunningParallelTests wc"]
    by (auto simp: parallel_tests_def split: if_splits prod.splits)
  from e1 e2 e3 e4 rs(2) show ?thesis by auto
qed

lemma all_scenarios_print_raises:
  "print_error env (TestingAgent a) = Some e \<Longrightarrow> fst (all_scenarios env (a # rest) w) = Inl e"
  by (simp add: all_scenarios_def say_markup_def split: prod.splits)

lemma jail_scenarios_connect_raises:
  assumes "connect jenv JAIL_URL (conns jw) = (Some e, d)"
  shows "fst (test_connection jenv jw) = Inl e"
    "fst (test_query_message_protocol jenv jw) = Inl e"
    "fst (test_close_session jenv jw) = Inl e"
    "fst (test_invalid_message jenv jw) = Inl e"
  using assms
  by (simp_all add: test_connection_def test_query_message_protocol_def test_close_session_def
        test_invalid_message_def jconnect_def)

lemma jail_scenarios_send_raises:
  assumes "connect jenv JAIL_URL (conns jw) = (None, d)"
  shows "ws_send jenv (conns jw) (query jenv) = Some e \<Longrightarrow>
           fst (test_query_message_protocol jenv jw) = Inl e"
    "ws_send jenv (conns jw)
        (JObj [(''type'', JStr ''close_session''), (''channel_id'', JStr ''test-channel-456'')]) = Some e \<Longrightarrow>
           fst (test_close_session jenv jw) = Inl e"
    "ws_send jenv (conns jw) (JObj [(''type'', JStr ''invalid_type''), (''data'', JStr ''garbage'')]) = Some e \<Longrightarrow>
           fst (test_invalid_message jenv jw) = Inl e"
  using assms
  by (simp_all add: test_query_message_protocol_def test_close_session_def
        test_invalid_message_def jconnect_def jsend_def)

lemma jail_scenarios_recv_raises:
  assumes "connect jenv JAIL_URL (conns jw) = (None, d)"
  shows "ws_send jenv (conns jw) (query jenv) = None \<Longrightarrow> ws_recv jenv (conns jw) 5000 = (Inl e, d') \<Longrightarrow>
           fst (test_query_message_protocol jenv jw) = (if cls e = TimeoutError then Inr JNull else Inl e)"
    "ws_send jenv (conns jw) (JObj [(''type'', JStr ''invalid_type''), (''data'', JStr ''garbage'')]) = None \<Longrightarrow>
       ws_recv jenv (conns jw) 2000 = (Inl e, d') \<Longrightarrow>
           fst (test_invalid_message jenv jw) = (if cls e = TimeoutError then Inr () else Inl e)"
  using assms
  by (simp_all add: test_query_message_protocol_def test_invalid_message_def jconnect_def jsend_def
        query_reply_def invalid_reply_def jrecv_def)

text \<open>
  C1, as the code has it. Gateway runner: in each of the five scenario functions with
  one request, an exception of the request (for the message scenarios: any exception that
  leaves \<open>send_message\<close>) gives a failed TestResult whose error is the exception text;
  in the fan-out scenario a call that raises gives a failed TestResult whose error is the
  fixed text ``Some agents failed to respond''. No exception of a request ends the
  scenarios of a run: they end with an exception only when \<open>console.print\<close> raises on the
  line that announces an agent, and otherwise produce \<open>2 + 3n\<close> results for \<open>n\<close> agents,
  and one more when \<open>n \<ge> 2\<close>, each with an error text exactly when it has not passed.
  Jail script: no scenario function catches an exception of its connection or of its
  send, and the two that wait for a reply catch of the receive only \<open>TimeoutError\<close>, on
  which they return. An exception that leaves the first, second, third or fourth scenario
  is caught in \<open>run_all_tests\<close>, which prints it and returns False from the state that
  scenario left, so no later scenario runs; when all four return, it returns True.
\<close>

theorem scenario_exceptions_become_failed_results:
  "(\<forall>e d. http env (Get ''/health'') (seq w) = (Inl e, d) \<longrightarrow>
       failed_with (fst (test_gateway_health env w)) (str_e e))
   \<and> (\<forall>e d. http env (Get ''/api/agents'') (seq w) = (Inl e, d) \<longrightarrow>
       failed_with (fst (test_agent_list env w)) (str_e e))
   \<and> (\<forall>e. fst (send_message env a ''Say hello briefly'' ''e2e-test'' w) = Inl e \<longrightarrow>
       failed_with (fst (test_simple_message env a w)) (str_e e))
   \<and> (\<forall>e. fst (send_message env a
                 (''Use log_entry to log: '' @ ''E2E test entry '' @ dec (now w div 1000))
                 ''e2e-test'' w) = Inl e \<longrightarrow>
       failed_with (fst (test_pack_tool_log_entry env a w)) (str_e e))
   \<and> (\<forall>e. fst (send_message env a
                 (''Use log_search to find entries containing '' @ [CHR 0x27] @ ''E2E'' @ [CHR 0x27])
                 ''e2e-test'' w) = Inl e \<longrightarrow>
       failed_with (fst (test_pack_tool_log_search env a w)) (str_e e))
   \<and> ((\<exists>i<length ids. \<exists>e. fanout_call env (ids ! i) (seq w + i) = Inl e) \<longrightarrow>
       failed_with (fst (test_parallel_messages env ids w)) ''Some agents failed to respond'')
   \<and> (\<forall>e. fst (all_scenarios env ids w) = Inl e \<longrightarrow>
        (\<exists>agent_id\<in>set ids. print_error env (TestingAgent agent_id) = Some e))
   \<and> (\<forall>results. fst (all_scenarios env ids w) = Inr results \<longrightarrow>
        length results = 2 + 3 * length ids + (if 2 \<le> length ids then 1 else 0)
        \<and> (\<forall>r\<in>set results. passed r = (error r = None)))
   \<and> (\<forall>e d. connect jenv JAIL_URL (conns jw) = (Some e, d) \<longrightarrow>
        fst (test_connection jenv jw) = Inl e
        \<and> fst (test_query_message_protocol jenv jw) = Inl e
        \<and> fst (test_close_session jenv jw) = Inl e
        \<and> fst (test_invalid_message jenv jw) = Inl e)
   \<and> (\<forall>e d. connect jenv JAIL_URL (conns jw) = (None, d)
          \<and> ws_send jenv (conns jw) (query jenv) = Some e \<longrightarrow>
        fst (test_query_message_protocol jenv jw) = Inl e)
   \<and> (\<forall>e d. connect jenv JAIL_URL (conns jw) = (None, d)
          \<and> ws_send jenv (conns jw)
               (JObj [(''type'', JStr ''close_session''), (''channel_id'', JStr ''test-channel-456'')]) = Some e \<longrightarrow>
        fst (test_close_session jenv jw) = Inl e)
   \<and> (\<forall>e d. connect jenv JAIL_URL (conns jw) = (None, d)
          \<and> ws_send jenv (conns jw)
               (JObj [(''type'', JStr ''invalid_type''), (''data'', JStr ''garbage'')]) = Some e \<longrightarrow>
        fst (test_invalid_message jenv jw) = Inl e)
   \<and> (\<forall>e d d'. connect jenv JAIL_URL (conns jw) = (None, d)
          \<and> ws_send jenv (conns jw) (query jenv) = None
          \<and> ws_recv jenv (conns jw) 5000 = (Inl e, d') \<longrightarrow>
        fst (test_query_message_protocol jenv jw) = (if cls e = TimeoutError then Inr JNull else Inl e))
   \<and> (\<forall>e d d'. connect jenv JAIL_URL (conns jw) = (None, d)
          \<and> ws_send jenv (conns jw)
               (JObj [(''type'', JStr ''invalid_type''), (''data'', JStr ''garbage'')]) = None
          \<and> ws_recv jenv (conns jw) 2000 = (Inl e, d') \<longrightarrow>
        fst (test_invalid_message jenv jw) = (if cls e = TimeoutError then Inr () else Inl e))
   \<and> (\<forall>w1 e w2.
        wait_for_server jenv JAIL_URL 10000 (jprint WaitingForServer (jprint RunHeader jw)) = (Inr True, w1)
        \<and> test_connection jenv (jprint ServerReady w1) = (Inl e, w2) \<longrightarrow>
        run_all_tests jenv jw = (Inr False, reported e w2))
   \<and> (\<forall>w1 u1 w2 e w3.
        wait_for_server jenv JAIL_URL 10000 (jprint WaitingForServer (jprint RunHeader jw)) = (Inr True, w1)
        \<and> test_connection jenv (jprint ServerReady w1) = (Inr u1, w2)
        \<and> test_query_message_protocol jenv w2 = (Inl e, w3) \<longrightarrow>
        run_all_tests jenv jw = (Inr False, reported e w3))
   \<and> (\<forall>w1 u1 w2 response w3 e w4.
        wait_for_server jenv JAIL_URL 10000 (jprint WaitingForServer (jprint RunHeader jw)) = (Inr True, w1)
        \<and> test_connection jenv (jprint ServerReady w1) = (Inr u1, w2)
        \<and> test_query_message_protocol jenv w2 = (Inr response, w3)
        \<and> test_close_session jenv w3 = (Inl e, w4) \<longrightarrow>
        run_all_tests jenv jw = (Inr False, reported e w4))
   \<and> (\<forall>w1 u1 w2 response w3 u3 w4 e w5.
        wait_for_server jenv JAIL_URL 10000 (jprint WaitingForServer (jprint RunHeader jw)) = (Inr True, w1)
        \<and> test_connection jenv (jprint ServerReady w1) = (Inr u1, w2)
        \<and> test_query_message_protocol jenv w2 = (Inr response, w3)
        \<and> test_close_session jenv w3 = (Inr u3, w4)
        \<and> test_invalid_message jenv w4 = (Inl e, w5) \<longrightarrow>
        run_all_tests jenv jw = (Inr False, reported e w5))
   \<and> (\<forall>w1 u1 w2 response w3 u3 w4 u4 w5.
        wait_for_server jenv JAIL_URL 10000 (jprint WaitingForServer (jprint RunHeader jw)) = (Inr True, w1)
        \<and> test_connection jenv (jprint ServerReady w1) = (Inr u1, w2)
        \<and> test_query_message_protocol jenv w2 = (Inr response, w3)
        \<and> test_close_session jenv w3 = (Inr u3, w4)
        \<and> test_invalid_message jenv w4 = (Inr u4, w5) \<longrightarrow>
        run_all_tests jenv jw = (Inr True, jprint AllScenariosPassed w5))"
proof -
  have 1: "\<forall>e d. http env (Get ''/health'') (seq w) = (Inl e, d) \<longrightarrow>
       failed_with (fst (test_gateway_health env w)) (str_e e)"
    by (simp add: test_gateway_health_def do_request_def scenario_result_raised)
  have 2: "\<forall>e d. http env (Get ''/api/agents'') (seq w) = (Inl e, d) \<longrightarrow>
       failed_with (fst (test_agent_list env w)) (str_e e)"
    by (simp add: test_agent_list_def do_request_def scenario_result_raised)
  have 3: "\<forall>e. fst (send_message env a ''Say hello briefly'' ''e2e-test'' w) = Inl e \<longrightarrow>
       failed_with (fst (test_simple_message env a w)) (str_e e)"
    by (cases "send_message env a ''Say hello briefly'' ''e2e-test'' w")
       (simp add: test_simple_message_def scenario_result_raised)
  have 4: "\<forall>e. fst (send_message env a
                 (''Use log_entry to log: '' @ ''E2E test entry '' @ dec (now w div 1000))
                 ''e2e-test'' w) = Inl e \<longrightarrow>
       failed_with (fst (test_pack_tool_log_entry env a w)) (str_e e)"
    by (cases "send_message env a (''Use log_entry to log: '' @ ''E2E test entry '' @ dec (now w div 1000)) ''e2e-test'' w")
       (simp add: test_pack_tool_log_entry_def scenario_result_raised)
  have 5: "\<forall>e. fst (send_message env a
                 (''Use log_search to find entries containing '' @ [CHR 0x27] @ ''E2E'' @ [CHR 0x27])
                 ''e2e-test'' w) = Inl e \<longrightarrow>
       failed_with (fst (test_pack_tool_log_search env a w)) (str_e e)"
    by (cases "send_message env a (''Use log_search to find entries containing '' @ [CHR 0x27] @ ''E2E'' @ [CHR 0x27]) ''e2e-test'' w")
       (simp add: test_pack_tool_log_search_def scenario_result_raised)
  have 6: "(\<exists>i<length ids. \<exists>e. fanout_call env (ids ! i) (seq w + i) = Inl e) \<longrightarrow>
       failed_with (fst (test_parallel_messages env ids w)) ''Some agents failed to respond''"
  proof
    assume ex: "\<exists>i<length ids. \<exists>e. fanout_call env (ids ! i) (seq w + i) = Inl e"
    have res: "fst (gather_sends env ids (now w) (now w) w) =
        map (\<lambda>i. fanout_call env (ids ! i) (seq w + i)) [0..<length ids]"
      by (rule gather_sends_results)
    from ex obtain i e where i: "i < length ids" "fanout_call env (ids ! i) (seq w + i) = Inl e"
      by blast
    then have "Inl e \<in> set (fst (gather_sends env ids (now w) (now w) w))"
      unfolding res by force
    then have "\<not> list_all responded (fst (gather_sends env ids (now w) (now w) w))"
      by (force simp: list_all_iff responded_def)
    then show "failed_with (fst (test_parallel_messages env ids w)) ''Some agents failed to respond''"
      by (cases "gather_sends env ids (now w) (now w) w")
         (simp add: test_parallel_messages_def scenario_result_def failed_with_def)
  qed
  obtain r wz where sc: "all_scenarios env ids w = (r, wz)"
    by (cases "all_scenarios env ids w")
  have 7: "\<forall>e. fst (all_scenarios env ids w) = Inl e \<longrightarrow>
        (\<exists>agent_id\<in>set ids. print_error env (TestingAgent agent_id) = Some e)"
    using all_scenarios_frame(3)[OF sc] sc by simp
  have 8: "\<forall>results. fst (all_scenarios env ids w) = Inr results \<longrightarrow>
        length results = 2 + 3 * length ids + (if 2 \<le> length ids then 1 else 0)
        \<and> (\<forall>r\<in>set results. passed r = (error r = None))"
  proof (intro allI impI conjI)
    fix results assume h: "fst (all_scenarios env ids w) = Inr results"
    with sc have "r = Inr results" by simp
    from all_scenarios_frame(2)[OF sc this]
    show "length results = 2 + 3 * length ids + (if 2 \<le> length ids then 1 else 0)" by blast
    from h show "\<forall>r\<in>set results. passed r = (error r = None)"
      by (rule all_scenarios_error)
  qed
  have 9: "\<forall>e d. connect jenv JAIL_URL (conns jw) = (Some e, d) \<longrightarrow>
        fst (test_connection jenv jw) = Inl e
        \<and> fst (test_query_message_protocol jenv jw) = Inl e
        \<and> fst (test_close_session jenv jw) = Inl e
        \<and> fst (test_invalid_message jenv jw) = Inl e"
    using jail_scenarios_connect_raises[of jenv jw] by blast
  have 10: "\<forall>e d. connect jenv JAIL_URL (conns jw) = (None, d)
          \<and> ws_send jenv (conns jw) (query jenv) = Some e \<longrightarrow>
        fst (test_query_message_protocol jenv jw) = Inl e"
    using jail_scenarios_send_raises(1)[of jenv jw] by blast
  have 11: "\<forall>e d. connect jenv JAIL_URL (conns jw) = (None, d)
          \<and> ws_send jenv (conns jw)
               (JObj [(''type'', JStr ''close_session''), (''channel_id'', JStr ''test-channel-456'')]) = Some e \<longrightarrow>
        fst (test_close_session jenv jw) = Inl e"
    using jail_scenarios_send_raises(2)[of jenv jw] by blast
  have 12: "\<forall>e d. connect jenv JAIL_URL (conns jw) = (None, d)
          \<and> ws_send jenv (conns jw)
               (JObj [(''type'', JStr ''invalid_type''), (''data'', JStr ''garbage'')]) = Some e \<longrightarrow>
        fst (test_invalid_message jenv jw) = Inl e"
    using jail_scenarios_send_raises(3)[of jenv jw] by blast
  have 13: "\<forall>e d d'. connect jenv JAIL_URL (conns jw) = (None, d)
          \<and> ws_send jenv (conns jw) (query jenv) = None
          \<and> ws_recv jenv (conns jw) 5000 = (Inl e, d') \<longrightarrow>
        fst (test_query_message_protocol jenv jw) = (if cls e = TimeoutError then Inr JNull else Inl e)"
    using jail_scenarios_recv_raises(1)[of jenv jw] by blast
  have 14: "\<forall>e d d'. connect jenv JAIL_URL (conns jw) = (None, d)
          \<and> ws_send jenv (conns jw)
               (JObj [(''type'', JStr ''invalid_type''), (''data'', JStr ''garbage'')]) = None
          \<and> ws_recv jenv (conns jw) 2000 = (Inl e, d') \<longrightarrow>
        fst (test_invalid_message jenv jw) = (if cls e = TimeoutError then Inr () else Inl e)"
    using jail_scenarios_recv_raises(2)[of jenv jw] by blast
  have 15: "\<forall>w1 e w2.
        wait_for_server jenv JAIL_URL 10000 (jprint WaitingForServer (jprint RunHeader jw)) = (Inr True, w1)
        \<and> test_connection jenv (jprint ServerReady w1) = (Inl e, w2) \<longrightarrow>
        run_all_tests jenv jw = (Inr False, reported e w2)"
    by (simp add: run_all_tests_def four_scenarios_def reported_def)
  have 16: "\<forall>w1 u1 w2 e w3.
        wait_for_server jenv JAIL_URL 10000 (jprint WaitingForServer (jprint RunHeader jw)) = (Inr True, w1)
        \<and> test_connection jenv (jprint ServerReady w1) = (Inr u1, w2)
        \<and> test_query_message_protocol jenv w2 = (Inl e, w3) \<longrightarrow>
        run_all_tests jenv jw = (Inr False, reported e w3)"
    by (simp add: run_all_tests_def four_scenarios_def reported_def)
  have 17: "\<forall>w1 u1 w2 response w3 e w4.
        wait_for_server jenv JAIL_URL 10000 (jprint WaitingForServer (jprint RunHeader jw)) = (Inr True, w1)
        \<and> test_connection jenv (jprint ServerReady w1) = (Inr u1, w2)
        \<and> test_query_message_protocol jenv w2 = (Inr response, w3)
        \<and> test_close_session jenv w3 = (Inl e, w4) \<longrightarrow>
        run_all_tests jenv jw = (Inr False, reported e w4)"
    by (simp add: run_all_tests_def four_scenarios_def reported_def)
  have 18: "\<forall>w1 u1 w2 response w3 u3 w4 e w5.
        wait_for_server jenv JAIL_URL 10000 (jprint WaitingForServer (jprint RunHeader jw)) = (Inr True, w1)
        \<and> test_connection jenv (jprint ServerReady w1) = (Inr u1, w2)
        \<and> test_query_message_protocol jenv w2 = (Inr response, w3)
        \<and> test_close_session jenv w3 = (Inr u3, w4)
        \<and> test_invalid_message jenv w4 = (Inl e, w5) \<longrightarrow>
        run_all_tests jenv jw = (Inr False, reported e w5)"
    by (simp add: run_all_tests_def four_scenarios_def reported_def)
  have 19: "\<forall>w1 u1 w2 response w3 u3 w4 u4 w5.
        wait_for_server jenv JAIL_URL 10000 (jprint WaitingForServer (jprint RunHeader jw)) = (Inr True, w1)
        \<and> test_connection jenv (jprint ServerReady w1) = (Inr u1, w2)
        \<and> test_query_message_protocol jenv w2 = (Inr response, w3)
        \<and> test_close_session jenv w3 = (Inr u3, w4)
        \<and> test_invalid_message jenv w4 = (Inr u4, w5) \<longrightarrow>
        run_all_tests jenv jw = (Inr True, jprint AllScenariosPassed w5)"
    by (simp add: run_all_tests_def four_scenarios_def)
  from 1 2 3 4 5 6 7 8 9 10 11 12 13 14 15 16 17 18 19 show ?thesis
    by (intro conjI)
qed

text \<open>Sample runs: a gateway that is down; an agent id that rich reads as a closing tag;
  jail servers that refuse the connection of one scenario, answer on another channel,
  close the connection instead of a reply, or do not answer in time, and a connection
  on which no message can be sent.\<close>

lemma env_down_raises:
  "http env_down rq n = (Inl (Exn HTTPError ''All connection attempts failed''), 1)"
  "fst (send_message env_down a c s w) = Inl (Exn HTTPError ''All connection attempts failed'')"
  "fanout_call env_down a n = Inl (Exn HTTPError ''All connection attempts failed'')"
  by (simp_all add: env_down_def send_message_def do_request_def fanout_call_def)

lemma wait_for_server_sample:
  assumes "conn JAIL_URL 0 = None"
  shows "wait_for_server (jail_sample conn recv) JAIL_URL 10000
     (jprint WaitingForServer (jprint RunHeader jworld0)) =
   (Inr True, (jprint WaitingForServer (jprint RunHeader jworld0))\<lparr>jnow := 3, conns := 1\<rparr>)"
  unfolding wait_for_server_def
  by (subst server_loop_connects_at_once[where d = 3])
     (simp_all add: assms jail_sample_def jworld0_def)

lemma wait_for_server_samples:
  "wait_for_server (jail_sample (refuses 1) recv) JAIL_URL 10000
     (jprint WaitingForServer (jprint RunHeader jworld0)) =
   (Inr True, (jprint WaitingForServer (jprint RunHeader jworld0))\<lparr>jnow := 3, conns := 1\<rparr>)"
  "wait_for_server (jail_sample (refuses 3) recv) JAIL_URL 10000
     (jprint WaitingForServer (jprint RunHeader jworld0)) =
   (Inr True, (jprint WaitingForServer (jprint RunHeader jworld0))\<lparr>jnow := 3, conns := 1\<rparr>)"
  "wait_for_server (jail_sample (refuses 4) recv) JAIL_URL 10000
     (jprint WaitingForServer (jprint RunHeader jworld0)) =
   (Inr True, (jprint WaitingForServer (jprint RunHeader jworld0))\<lparr>jnow := 3, conns := 1\<rparr>)"
  "wait_for_server (jail_sample accepts_all recv) JAIL_URL 10000
     (jprint WaitingForServer (jprint RunHeader jworld0)) =
   (Inr True, (jprint WaitingForServer (jprint RunHeader jworld0))\<lparr>jnow := 3, conns := 1\<rparr>)"
  by (rule wait_for_server_sample, simp add: refuses_def accepts_all_def)+

lemma jail_chain_first:
  "\<exists>w1 e w2.
     wait_for_server (jail_sample (refuses 1) replies_error) JAIL_URL 10000 (jprint WaitingForServer (jprint RunHeader jworld0)) = (Inr True, w1)
     \<and> test_connection (jail_sample (refuses 1) replies_error) (jprint ServerReady w1) = (Inl e, w2)
     \<and> e = Exn ConnectionRefusedError ''[Errno 111] Connection refused''"
  unfolding wait_for_server_samples
  by (simp add: test_connection_def test_query_message_protocol_def test_close_session_def
        test_invalid_message_def query_reply_def invalid_reply_def jconnect_def jsend_def jrecv_def
        jail_sample_def refuses_def accepts_all_def replies_error_def replies_other_channel_def
        loads_sample_def jprint_def jsleep_def jworld0_def Let_def JAIL_URL_def)

lemma jail_chain_second:
  "\<exists>w1 u1 w2 e w3.
     wait_for_server (jail_sample accepts_all replies_other_channel) JAIL_URL 10000 (jprint WaitingForServer (jprint RunHeader jworld0)) = (Inr True, w1)
     \<and> test_connection (jail_sample accepts_all replies_other_channel) (jprint ServerReady w1) = (Inr u1, w2)
     \<and> test_query_message_protocol (jail_sample accepts_all replies_other_channel) w2 = (Inl e, w3)
     \<and> e = Exn AssertionError ''Channel ID should match''"
  unfolding wait_for_server_samples
  by (simp add: test_connection_def test_query_message_protocol_def test_close_session_def
        test_invalid_message_def query_reply_def invalid_reply_def jconnect_def jsend_def jrecv_def
        jail_sample_def refuses_def accepts_all_def replies_error_def replies_other_channel_def
        loads_sample_def jprint_def jsleep_def jworld0_def Let_def JAIL_URL_def)

lemma jail_chain_third:
  "\<exists>w1 u1 w2 response w3 e w4.
     wait_for_server (jail_sample (refuses 3) replies_error) JAIL_URL 10000 (jprint WaitingForServer (jprint RunHeader jworld0)) = (Inr True, w1)
     \<and> test_connection (jail_sample (refuses 3) replies_error) (jprint ServerReady w1) = (Inr u1, w2)
     \<and> test_query_message_protocol (jail_sample (refuses 3) replies_error) w2 = (Inr response, w3)
     \<and> test_close_session (jail_sample (refuses 3) replies_error) w3 = (Inl e, w4)
     \<and> e = Exn ConnectionRefusedError ''[Errno 111] Connection refused''"
  unfolding wait_for_server_samples
  by (simp add: test_connection_def test_query_message_protocol_def test_close_session_def
        test_invalid_message_def query_reply_def invalid_reply_def jconnect_def jsend_def jrecv_def
        jail_sample_def refuses_def accepts_all_def replies_error_def replies_other_channel_def
        loads_sample_def jprint_def jsleep_def jworld0_def Let_def JAIL_URL_def)

lemma jail_chain_fourth:
  "\<exists>w1 u1 w2 response w3 u3 w4 e w5.
     wait_for_server (jail_sample (refuses 4) replies_error) JAIL_URL 10000 (jprint WaitingForServer (jprint RunHeader jworld0)) = (Inr True, w1)
     \<and> test_connection (jail_sample (refuses 4) replies_error) (jprint ServerReady w1) = (Inr u1, w2)
     \<and> test_query_message_protocol (jail_sample (refuses 4) replies_error) w2 = (Inr response, w3)
     \<and> test_close_session (jail_sample (refuses 4) replies_error) w3 = (Inr u3, w4)
     \<and> test_invalid_message (jail_sample (refuses 4) replies_error) w4 = (Inl e, w5)
     \<and> e = Exn ConnectionRefusedError ''[Errno 111] Connection refused''"
  unfolding wait_for_server_samples
  by (simp add: test_connection_def test_query_message_protocol_def test_close_session_def
        test_invalid_message_def query_reply_def invalid_reply_def jconnect_def jsend_def jrecv_def
        jail_sample_def refuses_def accepts_all_def replies_error_def replies_other_channel_def
        loads_sample_def jprint_def jsleep_def jworld0_def Let_def JAIL_URL_def)

lemma jail_chain_all:
  "\<exists>w1 u1 w2 response w3 u3 w4 u4 w5.
     wait_for_server (jail_sample accepts_all replies_error) JAIL_URL 10000 (jprint WaitingForServer (jprint RunHeader jworld0)) = (Inr True, w1)
     \<and> test_connection (jail_sample accepts_all replies_error) (jprint ServerReady w1) = (Inr u1, w2)
     \<and> test_query_message_protocol (jail_sample accepts_all replies_error) w2 = (Inr response, w3)
     \<and> test_close_session (jail_sample accepts_all replies_error) w3 = (Inr u3, w4)
     \<and> test_invalid_message (jail_sample accepts_all replies_error) w4 = (Inr u4, w5)"
  unfolding wait_for_server_samples
  by (simp add: test_connection_def test_query_message_protocol_def test_close_session_def
        test_invalid_message_def query_reply_def invalid_reply_def jconnect_def jsend_def jrecv_def
        jail_sample_def refuses_def accepts_all_def replies_error_def replies_other_channel_def
        loads_sample_def jprint_def jsleep_def jworld0_def Let_def JAIL_URL_def)

lemma jail_scenario_samples:
  "connect (jail_sample (refuses 1) replies_error) JAIL_URL (conns (jworld0\<lparr>conns := 1\<rparr>)) =
     (Some (Exn ConnectionRefusedError ''[Errno 111] Connection refused''), 3)"
  "connect (jail_sample accepts_all recv) JAIL_URL (conns jworld0) = (None, 3)"
  "ws_send (jail_sample accepts_all recv) c msg = None"
  "ws_recv (jail_sample accepts_all recv) c timeout = recv c"
  by (simp_all add: jail_sample_def refuses_def accepts_all_def jworld0_def)

lemma all_scenarios_bad_markup:
  "fst (all_scenarios env_bad_markup [JStr ''[/x]'', JStr ''b''] world0) =
     Inl (Exn MarkupError
       (''closing tag '' @ [CHR 0x27] @ ''[/x]'' @ [CHR 0x27]
          @ '' at position 22 doesn'' @ [CHR 0x27] @ ''t match any open tag''))"
  by (rule all_scenarios_print_raises) (simp add: env_bad_markup_def)

text \<open>With the gateway down every scenario gives a failed result, nine for two agents; with
  the agent id \<open>[/x]\<close> the scenarios end with the exception of \<open>console.print\<close>. In the
  jail script a refused connection leaves each scenario, and so does a failed send and a
  closed connection; a receive that times out gives a return; the run returns False when
  the first, second, third or fourth scenario raises, and True when none does.\<close>

theorem scenario_exceptions_become_failed_results_witness:
  "failed_with (fst (test_gateway_health env_down world0)) ''All connection attempts failed''
   \<and> failed_with (fst (test_agent_list env_down world0)) ''All connection attempts failed''
   \<and> failed_with (fst (test_simple_message env_down (JStr ''a'') world0)) ''All connection attempts failed''
   \<and> failed_with (fst (test_pack_tool_log_entry env_down (JStr ''a'') world0)) ''All connection attempts failed''
   \<and> failed_with (fst (test_pack_tool_log_search env_down (JStr ''a'') world0)) ''All connection attempts failed''
   \<and> failed_with (fst (test_parallel_messages env_down [JStr ''a'', JStr ''b''] world0))
        ''Some agents failed to respond''
   \<and> (\<exists>results. fst (all_scenarios env_down [JStr ''a'', JStr ''b''] world0) = Inr results
         \<and> length results = 9 \<and> list_all (\<lambda>r. passed r = (error r = None)) results)
   \<and> (\<exists>e. fst (all_scenarios env_bad_markup [JStr ''[/x]'', JStr ''b''] world0) = Inl e
         \<and> print_error env_bad_markup (TestingAgent (JStr ''[/x]'')) = Some e)
   \<and> fst (test_connection (jail_sample (refuses 1) replies_error) (jworld0\<lparr>conns := 1\<rparr>)) =
        Inl (Exn ConnectionRefusedError ''[Errno 111] Connection refused'')
   \<and> fst (test_query_message_protocol (jail_sample (refuses 1) replies_error) (jworld0\<lparr>conns := 1\<rparr>)) =
        Inl (Exn ConnectionRefusedError ''[Errno 111] Connection refused'')
   \<and> fst (test_close_session (jail_sample (refuses 1) replies_error) (jworld0\<lparr>conns := 1\<rparr>)) =
        Inl (Exn ConnectionRefusedError ''[Errno 111] Connection refused'')
   \<and> fst (test_invalid_message (jail_sample (refuses 1) replies_error) (jworld0\<lparr>conns := 1\<rparr>)) =
        Inl (Exn ConnectionRefusedError ''[Errno 111] Connection refused'')
   \<and> fst (test_query_message_protocol
             ((jail_sample accepts_all replies_error)
                \<lparr>ws_send := (\<lambda>c msg. Some (Exn ConnectionClosed ''no close frame received or sent''))\<rparr>)
             jworld0) =
        Inl (Exn ConnectionClosed ''no close frame received or sent'')
   \<and> fst (test_close_session
             ((jail_sample accepts_all replies_error)
                \<lparr>ws_send := (\<lambda>c msg. Some (Exn ConnectionClosed ''no close frame received or sent''))\<rparr>)
             jworld0) =
        Inl (Exn ConnectionClosed ''no close frame received or sent'')
   \<and> fst (test_invalid_message
             ((jail_sample accepts_all replies_error)
                \<lparr>ws_send := (\<lambda>c msg. Some (Exn ConnectionClosed ''no close frame received or sent''))\<rparr>)
             jworld0) =
        Inl (Exn ConnectionClosed ''no close frame received or sent'')
   \<and> fst (test_query_message_protocol (jail_sample accepts_all closes_connection) jworld0) =
        Inl (Exn ConnectionClosed ''received 1000 (OK); then sent 1000 (OK)'')
   \<and> fst (test_query_message_protocol
             (jail_sample accepts_all (\<lambda>c. (Inl (Exn TimeoutError []), 5000))) jworld0) = Inr JNull
   \<and> fst (test_invalid_message (jail_sample accepts_all closes_connection) jworld0) =
        Inl (Exn ConnectionClosed ''received 1000 (OK); then sent 1000 (OK)'')
   \<and> fst (test_invalid_message (jail_sample accepts_all times_out) jworld0) = Inr ()
   \<and> fst (run_all_tests (jail_sample (refuses 1) replies_error) jworld0) = Inr False
   \<and> fst (run_all_tests (jail_sample accepts_all replies_other_channel) jworld0) = Inr False
   \<and> fst (run_all_tests (jail_sample (refuses 3) replies_error) jworld0) = Inr False
   \<and> fst (run_all_tests (jail_sample (refuses 4) replies_error) jworld0) = Inr False
   \<and> fst (run_all_tests (jail_sample accepts_all replies_error) jworld0) = Inr True"
proof -
  let ?E = "Exn HTTPError ''All connection attempts failed''"
  let ?R = "Exn ConnectionRefusedError ''[Errno 111] Connection refused''"
  let ?C = "Exn ConnectionClosed ''no close frame received or sent''"
  let ?K = "Exn ConnectionClosed ''received 1000 (OK); then sent 1000 (OK)''"
  let ?ids = "[JStr ''a'', JStr ''b'']"
  let ?S = "(jail_sample accepts_all replies_error)
              \<lparr>ws_send := (\<lambda>c msg. Some (Exn ConnectionClosed ''no close frame received or sent''))\<rparr>"
  let ?J1 = "jail_sample (refuses 1) replies_error"
  let ?J0 = "jworld0\<lparr>conns := 1\<rparr>"
  have ex: "\<exists>i<length ?ids. \<exists>e. fanout_call env_down (?ids ! i) (seq world0 + i) = Inl e"
    by (rule exI[of _ 0]) (simp add: env_down_raises)
  have 1: "failed_with (fst (test_gateway_health env_down world0)) ''All connection attempts failed''"
    using scenario_exceptions_become_failed_results[of env_down world0 "JStr ''a''" "[JStr ''a'', JStr ''b'']", THEN conjunct1, rule_format, OF env_down_raises(1)] by simp
  have 2: "failed_with (fst (test_agent_list env_down world0)) ''All connection attempts failed''"
    using scenario_exceptions_become_failed_results[of env_down world0 "JStr ''a''" "[JStr ''a'', JStr ''b'']", THEN conjunct2, THEN conjunct1, rule_format, OF env_down_raises(1)] by simp
  have 3: "failed_with (fst (test_simple_message env_down (JStr ''a'') world0)) ''All connection attempts failed''"
    using scenario_exceptions_become_failed_results[of env_down world0 "JStr ''a''" "[JStr ''a'', JStr ''b'']", THEN conjunct2, THEN conjunct2, THEN conjunct1, rule_format, OF env_down_raises(2)] by simp
  have 4: "failed_with (fst (test_pack_tool_log_entry env_down (JStr ''a'') world0)) ''All connection attempts failed''"
    using scenario_exceptions_become_failed_results[of env_down world0 "JStr ''a''" "[JStr ''a'', JStr ''b'']", THEN conjunct2, THEN conjunct2, THEN conjunct2, THEN conjunct1, rule_format, OF env_down_raises(2)] by simp
  have 5: "failed_with (fst (test_pack_tool_log_search env_down (JStr ''a'') world0)) ''All connection attempts failed''"
    using scenario_exceptions_become_failed_results[of env_down world0 "JStr ''a''" "[JStr ''a'', JStr ''b'']", THEN conjunct2, THEN conjunct2, THEN conjunct2, THEN conjunct2, THEN conjunct1, rule_format, OF env_down_raises(2)] by simp
  have 6: "failed_with (fst (test_parallel_messages env_down ?ids world0)) ''Some agents failed to respond''"
    by (rule scenario_exceptions_become_failed_results[of env_down world0 "JStr ''a''" "[JStr ''a'', JStr ''b'']", THEN conjunct2, THEN conjunct2, THEN conjunct2, THEN conjunct2, THEN conjunct2, THEN conjunct1, rule_format, OF ex])
  have pd: "print_error env_down x = None" for x
    by (simp add: env_down_def)
  have "\<not> (\<exists>e. fst (all_scenarios env_down ?ids world0) = Inl e)"
  proof
    assume "\<exists>e. fst (all_scenarios env_down ?ids world0) = Inl e"
    then obtain e where "fst (all_scenarios env_down ?ids world0) = Inl e" ..
    from scenario_exceptions_become_failed_results[of env_down world0 "JStr ''a''" "[JStr ''a'', JStr ''b'']", THEN conjunct2, THEN conjunct2, THEN conjunct2, THEN conjunct2, THEN conjunct2, THEN conjunct2, THEN conjunct1, rule_format, OF this]
    obtain agent_id where "print_error env_down (TestingAgent agent_id) = Some e" by blast
    then show False by (simp add: pd)
  qed
  then obtain results where rs: "fst (all_scenarios env_down ?ids world0) = Inr results"
    by (cases "fst (all_scenarios env_down ?ids world0)") auto
  from scenario_exceptions_become_failed_results[of env_down world0 "JStr ''a''" "[JStr ''a'', JStr ''b'']", THEN conjunct2, THEN conjunct2, THEN conjunct2, THEN conjunct2, THEN conjunct2, THEN conjunct2, THEN conjunct2, THEN conjunct1, rule_format, OF rs]
  have "length results = 2 + 3 * length ?ids + (if 2 \<le> length ?ids then 1 else 0)"
    "\<forall>r\<in>set results. passed r = (error r = None)"
    by blast+
  then have "length results = 9" "list_all (\<lambda>r. passed r = (error r = None)) results"
    by (simp_all add: list_all_iff)
  with rs have 7: "\<exists>results. fst (all_scenarios env_down ?ids world0) = Inr results
         \<and> length results = 9 \<and> list_all (\<lambda>r. passed r = (error r = None)) results"
    by blast
  from scenario_exceptions_become_failed_results[of env_bad_markup world0 "JStr ''a''" "[JStr ''[/x]'', JStr ''b'']", THEN conjunct2, THEN conjunct2, THEN conjunct2, THEN conjunct2, THEN conjunct2, THEN conjunct2, THEN conjunct1, rule_format, OF all_scenarios_bad_markup]
  obtain agent_id where
    ag: "agent_id \<in> set [JStr ''[/x]'', JStr ''b'']"
      "print_error env_bad_markup (TestingAgent agent_id) =
         Some (Exn MarkupError
           (''closing tag '' @ [CHR 0x27] @ ''[/x]'' @ [CHR 0x27]
              @ '' at position 22 doesn'' @ [CHR 0x27] @ ''t match any open tag''))"
    by blast
  have "print_error env_bad_markup (TestingAgent (JStr ''b'')) = None"
    by (simp add: env_bad_markup_def)
  with ag have "agent_id = JStr ''[/x]''" by auto
  with ag(2) all_scenarios_bad_markup
  have 8: "\<exists>e. fst (all_scenarios env_bad_markup [JStr ''[/x]'', JStr ''b''] world0) = Inl e
         \<and> print_error env_bad_markup (TestingAgent (JStr ''[/x]'')) = Some e"
    by blast
  note 9 = scenario_exceptions_become_failed_results[of env_down world0 "JStr ''a''" "[JStr ''a'', JStr ''b'']" "jail_sample (refuses 1) replies_error" "jworld0\<lparr>conns := 1\<rparr>", THEN conjunct2, THEN conjunct2, THEN conjunct2, THEN conjunct2, THEN conjunct2, THEN conjunct2, THEN conjunct2, THEN conjunct2, THEN conjunct1, rule_format, OF jail_scenario_samples(1)]
  have cs: "connect ?S JAIL_URL (conns jworld0) = (None, 3)" "ws_send ?S c msg = Some ?C" for c msg
    by (simp_all add: jail_sample_def accepts_all_def jworld0_def)
  have 10: "fst (test_query_message_protocol ?S jworld0) = Inl ?C"
    by (rule scenario_exceptions_become_failed_results[of env_down world0 "JStr ''a''" "[JStr ''a'', JStr ''b'']" "(jail_sample accepts_all replies_error)\<lparr>ws_send := (\<lambda>c msg. Some (Exn ConnectionClosed ''no close frame received or sent''))\<rparr>" jworld0, THEN conjunct2, THEN conjunct2, THEN conjunct2, THEN conjunct2, THEN conjunct2, THEN conjunct2, THEN conjunct2, THEN conjunct2, THEN conjunct2, THEN conjunct1, rule_format, OF conjI, OF cs])
  have 11: "fst (test_close_session ?S jworld0) = Inl ?C"
    by (rule scenario_exceptions_become_failed_results[of env_down world0 "JStr ''a''" "[JStr ''a'', JStr ''b'']" "(jail_sample accepts_all replies_error)\<lparr>ws_send := (\<lambda>c msg. Some (Exn ConnectionClosed ''no close frame received or sent''))\<rparr>" jworld0, THEN conjunct2, THEN conjunct2, THEN conjunct2, THEN conjunct2, THEN conjunct2, THEN conjunct2, THEN conjunct2, THEN conjunct2, THEN conjunct2, THEN conjunct2, THEN conjunct1, rule_format, OF conjI, OF cs])
  have 12: "fst (test_invalid_message ?S jworld0) = Inl ?C"
    by (rule scenario_exceptions_become_failed_results[of env_down world0 "JStr ''a''" "[JStr ''a'', JStr ''b'']" "(jail_sample accepts_all replies_error)\<lparr>ws_send := (\<lambda>c msg. Some (Exn ConnectionClosed ''no close frame received or sent''))\<rparr>" jworld0, THEN conjunct2, THEN conjunct2, THEN conjunct2, THEN conjunct2, THEN conjunct2, THEN conjunct2, THEN conjunct2, THEN conjunct2, THEN conjunct2, THEN conjunct2, THEN conjunct2, THEN conjunct1, rule_format, OF conjI, OF cs])
  have rc: "ws_recv (jail_sample accepts_all closes_connection) c timeout = (Inl ?K, 10)" for c timeout
    by (simp add: jail_sample_def closes_connection_def)
  have 13: "fst (test_query_message_protocol (jail_sample accepts_all closes_connection) jworld0) = Inl ?K"
    using scenario_exceptions_become_failed_results[of env_down world0 "JStr ''a''" "[JStr ''a'', JStr ''b'']" "jail_sample accepts_all closes_connection" jworld0, THEN conjunct2, THEN conjunct2, THEN conjunct2, THEN conjunct2, THEN conjunct2, THEN conjunct2, THEN conjunct2, THEN conjunct2, THEN conjunct2, THEN conjunct2, THEN conjunct2, THEN conjunct2, THEN conjunct1, rule_format, OF conjI, OF jail_scenario_samples(2) conjI, OF jail_scenario_samples(3) rc]
    by simp
  have 14: "fst (test_invalid_message (jail_sample accepts_all closes_connection) jworld0) = Inl ?K"
    using scenario_exceptions_become_failed_results[of env_down world0 "JStr ''a''" "[JStr ''a'', JStr ''b'']" "jail_sample accepts_all closes_connection" jworld0, THEN conjunct2, THEN conjunct2, THEN conjunct2, THEN conjunct2, THEN conjunct2, THEN conjunct2, THEN conjunct2, THEN conjunct2, THEN conjunct2, THEN conjunct2, THEN conjunct2, THEN conjunct2, THEN conjunct2, THEN conjunct1, rule_format, OF conjI, OF jail_scenario_samples(2) conjI, OF jail_scenario_samples(3) rc]
    by simp
  have rq: "ws_recv (jail_sample accepts_all (\<lambda>c. (Inl (Exn TimeoutError []), 5000))) c timeout =
      (Inl (Exn TimeoutError []), 5000)" for c timeout
    by (simp add: jail_sample_def)
  have 15: "fst (test_query_message_protocol
          (jail_sample accepts_all (\<lambda>c. (Inl (Exn TimeoutError []), 5000))) jworld0) = Inr JNull"
    using scenario_exceptions_become_failed_results[of env_down world0 "JStr ''a''" "[JStr ''a'', JStr ''b'']" "jail_sample accepts_all (\<lambda>c. (Inl (Exn TimeoutError []), 5000))" jworld0, THEN conjunct2, THEN conjunct2, THEN conjunct2, THEN conjunct2, THEN conjunct2, THEN conjunct2, THEN conjunct2, THEN conjunct2, THEN conjunct2, THEN conjunct2, THEN conjunct2, THEN conjunct2, THEN conjunct1, rule_format, OF conjI, OF jail_scenario_samples(2) conjI, OF jail_scenario_samples(3) rq]
    by simp
  have ri: "ws_recv (jail_sample accepts_all times_out) c timeout = (Inl (Exn TimeoutError []), 2000)"
    for c timeout
    by (simp add: jail_sample_def times_out_def)
  have 16: "fst (test_invalid_message (jail_sample accepts_all times_out) jworld0) = Inr ()"
    using scenario_exceptions_become_failed_results[of env_down world0 "JStr ''a''" "[JStr ''a'', JStr ''b'']" "jail_sample accepts_all times_out" jworld0, THEN conjunct2, THEN conjunct2, THEN conjunct2, THEN conjunct2, THEN conjunct2, THEN conjunct2, THEN conjunct2, THEN conjunct2, THEN conjunct2, THEN conjunct2, THEN conjunct2, THEN conjunct2, THEN conjunct2, THEN conjunct1, rule_format, OF conjI, OF jail_scenario_samples(2) conjI, OF jail_scenario_samples(3) ri]
    by simp
  from jail_chain_first obtain w1 e w2 where
    "wait_for_server (jail_sample (refuses 1) replies_error) JAIL_URL 10000
       (jprint WaitingForServer (jprint RunHeader jworld0)) = (Inr True, w1)
     \<and> test_connection (jail_sample (refuses 1) replies_error) (jprint ServerReady w1) = (Inl e, w2)"
    by blast
  from scenario_exceptions_become_failed_results[of env_down world0 "JStr ''a''" "[JStr ''a'', JStr ''b'']" "jail_sample (refuses 1) replies_error" jworld0, THEN conjunct2, THEN conjunct2, THEN conjunct2, THEN conjunct2, THEN conjunct2, THEN conjunct2, THEN conjunct2, THEN conjunct2, THEN conjunct2, THEN conjunct2, THEN conjunct2, THEN conjunct2, THEN conjunct2, THEN conjunct2, THEN conjunct1, rule_format, OF this]
  have 17: "fst (run_all_tests (jail_sample (refuses 1) replies_error) jworld0) = Inr False"
    by simp
  from jail_chain_second obtain w1 u1 w2 e w3 where
    "wait_for_server (jail_sample accepts_all replies_other_channel) JAIL_URL 10000
       (jprint WaitingForServer (jprint RunHeader jworld0)) = (Inr True, w1)
     \<and> test_connection (jail_sample accepts_all replies_other_channel) (jprint ServerReady w1) = (Inr u1, w2)
     \<and> test_query_message_protocol (jail_sample accepts_all replies_other_channel) w2 = (Inl e, w3)"
    by blast
  from scenario_exceptions_become_failed_results[of env_down world0 "JStr ''a''" "[JStr ''a'', JStr ''b'']" "jail_sample accepts_all replies_other_channel" jworld0, THEN conjunct2, THEN conjunct2, THEN conjunct2, THEN conjunct2, THEN conjunct2, THEN conjunct2, THEN conjunct2, THEN conjunct2, THEN conjunct2, THEN conjunct2, THEN conjunct2, THEN conjunct2, THEN conjunct2, THEN conjunct2, THEN conjunct2, THEN conjunct1, rule_format, OF this]
  have 18: "fst (run_all_tests (jail_sample accepts_all replies_other_channel) jworld0) = Inr False"
    by simp
  from jail_chain_third obtain w1 u1 w2 response w3 e w4 where
    "wait_for_server (jail_sample (refuses 3) replies_error) JAIL_URL 10000
       (jprint WaitingForServer (jprint RunHeader jworld0)) = (Inr True, w1)
     \<and> test_connection (jail_sample (refuses 3) replies_error) (jprint ServerReady w1) = (Inr u1, w2)
     \<and> test_query_message_protocol (jail_sample (refuses 3) replies_error) w2 = (Inr response, w3)
     \<and> test_close_session (jail_sample (refuses 3) replies_error) w3 = (Inl e, w4)"
    by blast
  from scenario_exceptions_become_failed_results[of env_down world0 "JStr ''a''" "[JStr ''a'', JStr ''b'']" "jail_sample (refuses 3) replies_error" jworld0, THEN conjunct2, THEN conjunct2, THEN conjunct2, THEN conjunct2, THEN conjunct2, THEN conjunct2, THEN conjunct2, THEN conjunct2, THEN conjunct2, THEN conjunct2, THEN conjunct2, THEN conjunct2, THEN conjunct2, THEN conjunct2, THEN conjunct2, THEN conjunct2, THEN conjunct1, rule_format, OF this]
  have 19: "fst (run_all_tests (jail_sample (refuses 3) replies_error) jworld0) = Inr False"
    by simp
  from jail_chain_fourth obtain w1 u1 w2 response w3 u3 w4 e w5 where
    "wait_for_server (jail_sample (refuses 4) replies_error) JAIL_URL 10000
       (jprint WaitingForServer (jprint RunHeader jworld0)) = (Inr True, w1)
     \<and> test_connection (jail_sample (refuses 4) replies_error) (jprint ServerReady w1) = (Inr u1, w2)
     \<and> test_query_message_protocol (jail_sample (refuses 4) replies_error) w2 = (Inr response, w3)
     \<and> test_close_session (jail_sample (refuses 4) replies_error) w3 = (Inr u3, w4)
     \<and> test_invalid_message (jail_sample (refuses 4) replies_error) w4 = (Inl e, w5)"
    by blast
  from scenario_exceptions_become_failed_results[of env_down world0 "JStr ''a''" "[JStr ''a'', JStr ''b'']" "jail_sample (refuses 4) replies_error" jworld0, THEN conjunct2, THEN conjunct2, THEN conjunct2, THEN conjunct2, THEN conjunct2, THEN conjunct2, THEN conjunct2, THEN conjunct2, THEN conjunct2, THEN conjunct2, THEN conjunct2, THEN conjunct2, THEN conjunct2, THEN conjunct2, THEN conjunct2, THEN conjunct2, THEN conjunct2, THEN conjunct1, rule_format, OF this]
  have 20: "fst (run_all_tests (jail_sample (refuses 4) replies_error) jworld0) = Inr False"
    by simp
  from jail_chain_all obtain w1 u1 w2 response w3 u3 w4 u4 w5 where
    "wait_for_server (jail_sample accepts_all replies_error) JAIL_URL 10000
       (jprint WaitingForServer (jprint RunHeader jworld0)) = (Inr True, w1)
     \<and> test_connection (jail_sample accepts_all replies_error) (jprint ServerReady w1) = (Inr u1, w2)
     \<and> test_query_message_protocol (jail_sample accepts_all replies_error) w2 = (Inr response, w3)
     \<and> test_close_session (jail_sample accepts_all replies_error) w3 = (Inr u3, w4)
     \<and> test_invalid_message (jail_sample accepts_all replies_error) w4 = (Inr u4, w5)"
    by blast
  from scenario_exceptions_become_failed_results[of env_down world0 "JStr ''a''" "[JStr ''a'', JStr ''b'']" "jail_sample accepts_all replies_error" jworld0, THEN conjunct2, THEN conjunct2, THEN conjunct2, THEN conjunct2, THEN conjunct2, THEN conjunct2, THEN conjunct2, THEN conjunct2, THEN conjunct2, THEN conjunct2, THEN conjunct2, THEN conjunct2, THEN conjunct2, THEN conjunct2, THEN conjunct2, THEN conjunct2, THEN conjunct2, THEN conjunct2, rule_format, OF this]
  have 21: "fst (run_all_tests (jail_sample accepts_all replies_error) jworld0) = Inr True"
    by simp
  note c = 9 [THEN conjunct1] 9 [THEN conjunct2, THEN conjunct1]
    9 [THEN conjunct2, THEN conjunct2, THEN conjunct1] 9 [THEN conjunct2, THEN conjunct2, THEN conjunct2]
  show ?thesis
    by (intro conjI) (rule 1 2 3 4 5 6 c 7 8 10 11 12 13 14 15 16 17 18 19 20 21)+
qed

text \<open>
  C1 as stated fails: in the jail script the connection of \<open>test_connection\<close> is
  refused, and the run ends there. Two connections were opened (the prober's and that
  one) and the three later scenarios were never announced: they did not run.
\<close>

theorem jail_run_stops_at_first_exception:
  "fst (run_all_tests (jail_sample (refuses 1) replies_error) jworld0) = Inr False
   \<and> conns (snd (run_all_tests (jail_sample (refuses 1) replies_error) jworld0)) = 2
   \<and> printed (snd (run_all_tests (jail_sample (refuses 1) replies_error) jworld0)) =
       [RunHeader, WaitingForServer, ServerReady, TestConnection,
        ErrorLine ''[Errno 111] Connection refused'']"
  unfolding run_all_tests_refused by simp

end
